theory Spec2Isabelle
  imports Complex_Main "HOL-Library.Log_Nat" "HOL-Library.Multiset"
begin

section \<open>JavaScript numbers\<close>

text \<open>
  The score of a quiz attempt is computed in the browser, in JavaScript, as
  \<^verbatim>\<open>Math.round((correctAnswers / questions.length) * 100)\<close>. A JavaScript number is
  an IEEE 754 binary64 value: a finite double (here a rational number that lies on the
  binary64 grid), one of the two infinities, or NaN. The two zeros are not told apart:
  every operand below is a count or a product of counts, so a negative zero never
  arises.
\<close>

datatype js_number = NaN | PosInfinity | NegInfinity | Number rat

definition pow2 :: "int \<Rightarrow> rat" where
  "pow2 e = (if 0 \<le> e then 2 ^ nat e else 1 / 2 ^ nat (- e))"

text \<open>The binade of a positive rational: the exponent \<open>e\<close> with \<open>2^e \<le> x < 2^(e+1)\<close>.\<close>

definition binade :: "rat \<Rightarrow> int" where
  "binade x = (if 1 \<le> x then bitlen \<lfloor>x\<rfloor> - 1 else - bitlen (\<lceil>1 / x\<rceil> - 1))"

text \<open>Rounding to the nearest integer, a tie going to the even neighbour.\<close>

definition round_half_even :: "rat \<Rightarrow> int" where
  "round_half_even m =
     (let f = \<lfloor>m\<rfloor>; r = m - of_int f
      in if r < 1 / 2 then f else if 1 / 2 < r then f + 1
         else if even f then f else f + 1)"

text \<open>\<^verbatim>\<open>Number.MAX_VALUE\<close>, the largest finite double, \<open>(2^53 - 1) * 2^971\<close>.\<close>

definition MAX_VALUE :: rat where
  "MAX_VALUE = 179769313486231570814527423731704356798070567525844996598917476803157260780028538760589558632766878171540458953514382464234321326889464182768467546703537516986049910576551282076245490090389328944075868508455133942304583236903222948165808559332123348274797826204144723168738177180919299881250404026184124858368"

text \<open>
  The double nearest to an exact result (round to nearest, ties to even): 53 significant
  bits in the binade of the value, the exponent not below that of the subnormal numbers,
  and an infinity when the rounded value passes the largest finite double.
\<close>

definition to_double :: "rat \<Rightarrow> js_number" where
  "to_double x =
     (if x = 0 then Number 0
      else let e = max (binade \<bar>x\<bar>) (- 1022);
               q = pow2 (e - 52);
               y = of_int (round_half_even (\<bar>x\<bar> / q)) * q
           in if MAX_VALUE < y then (if 0 < x then PosInfinity else NegInfinity)
              else Number (sgn x * y))"

text \<open>The operator \<^verbatim>\<open>/\<close> on numbers.\<close>

fun js_div :: "js_number \<Rightarrow> js_number \<Rightarrow> js_number" where
  "js_div (Number x) (Number y) =
     (if y = 0 then (if x = 0 then NaN else if 0 < x then PosInfinity else NegInfinity)
      else to_double (x / y))"
| "js_div (Number x) PosInfinity = Number 0"
| "js_div (Number x) NegInfinity = Number 0"
| "js_div PosInfinity (Number y) = (if 0 \<le> y then PosInfinity else NegInfinity)"
| "js_div NegInfinity (Number y) = (if 0 \<le> y then NegInfinity else PosInfinity)"
| "js_div _ _ = NaN"

text \<open>The operator \<^verbatim>\<open>*\<close> on numbers.\<close>

fun js_mul :: "js_number \<Rightarrow> js_number \<Rightarrow> js_number" where
  "js_mul (Number x) (Number y) = to_double (x * y)"
| "js_mul (Number x) PosInfinity =
     (if x = 0 then NaN else if 0 < x then PosInfinity else NegInfinity)"
| "js_mul (Number x) NegInfinity =
     (if x = 0 then NaN else if 0 < x then NegInfinity else PosInfinity)"
| "js_mul PosInfinity (Number y) =
     (if y = 0 then NaN else if 0 < y then PosInfinity else NegInfinity)"
| "js_mul NegInfinity (Number y) =
     (if y = 0 then NaN else if 0 < y then NegInfinity else PosInfinity)"
| "js_mul PosInfinity PosInfinity = PosInfinity"
| "js_mul NegInfinity NegInfinity = PosInfinity"
| "js_mul PosInfinity NegInfinity = NegInfinity"
| "js_mul NegInfinity PosInfinity = NegInfinity"
| "js_mul _ _ = NaN"

text \<open>
  \<^verbatim>\<open>Math.round\<close>: the integer nearest to the argument, a tie going up; NaN and the
  infinities are returned as they are.
\<close>

fun Math_round :: "js_number \<Rightarrow> js_number" where
  "Math_round (Number x) = Number (of_int \<lfloor>x + 1 / 2\<rfloor>)"
| "Math_round v = v"

section \<open>Scoring a submission (TakeQuiz, handleSubmitQuiz)\<close>

type_synonym uuid = string

text \<open>The interface \<^verbatim>\<open>Question\<close> of the page that takes a quiz.\<close>

record question =
  question_id :: uuid
  question_text :: string
  options :: "string list"
  correct_answer :: int
  explanation :: "string option"
  order_index :: int

text \<open>
  The state \<^verbatim>\<open>answers\<close>, a \<^verbatim>\<open>Record<string, number>\<close>: the option index chosen
  for a question id; a question never answered has no entry, and reading it gives
  \<^verbatim>\<open>undefined\<close>.
\<close>

type_synonym answers = "uuid \<rightharpoonup> int"

text \<open>
  \<^verbatim>\<open>
  let correctAnswers = 0;
  questions.forEach(question => {
    if (answers[question.id] === question.correct_answer) {
      correctAnswers++;
    }
  });
  \<close>
\<close>

definition correctAnswers :: "question list \<Rightarrow> answers \<Rightarrow> nat" where
  "correctAnswers questions answers =
     fold (\<lambda>question n.
             if answers (question_id question) = Some (correct_answer question)
             then n + 1 else n)
       questions 0"

text \<open>
  \<^verbatim>\<open>const score = Math.round((correctAnswers / questions.length) * 100);\<close>
\<close>

definition calculateScore :: "question list \<Rightarrow> answers \<Rightarrow> js_number" where
  "calculateScore questions answers =
     Math_round
       (js_mul
          (js_div (Number (of_nat (correctAnswers questions answers)))
                  (Number (of_nat (length questions))))
          (Number 100))"

section \<open>The database\<close>

text \<open>
  The tables of the schema that scoring, recording and ranking read or write, a row as a
  record and a table as the list of its rows. A column that may hold NULL has an option
  type. A column of type \<^verbatim>\<open>integer\<close> holds an integer; where the code adds to one
  (\<open>total_attempts\<close>), the range of 32 bits is checked as PostgreSQL checks it. The sums
  and counts of the aggregates are 64-bit values in PostgreSQL and integers here: they
  differ only for a table of more than 2^32 attempts. A \<^verbatim>\<open>numeric\<close> is the rational
  number it denotes. A \<^verbatim>\<open>timestamptz\<close> is a number of microseconds since 1970-01-01
  00:00:00 UTC.
\<close>

type_synonym timestamptz = int

record profiles_row =
  p_id :: uuid
  p_email :: string
  p_full_name :: string

record quizzes_row =
  qz_id :: uuid
  qz_title :: string
  qz_is_published :: "bool option"
  qz_created_by :: uuid
  qz_updated_at :: "timestamptz option"
  qz_total_questions :: "int option"
  qz_total_attempts :: "int option"
  qz_average_score :: "rat option"

record questions_row =
  qn_id :: uuid
  qn_quiz_id :: uuid
  qn_question_text :: string
  qn_options :: "string list"
  qn_correct_answer :: int
  qn_explanation :: "string option"
  qn_order_index :: int

record quiz_attempts_row =
  qa_id :: uuid
  qa_quiz_id :: uuid
  qa_user_id :: uuid
  qa_score :: int
  qa_total_questions :: int
  qa_time_taken :: int
  qa_answers :: answers
  qa_completed_at :: "timestamptz option"
  qa_created_at :: "timestamptz option"

record db =
  profiles :: "profiles_row list"
  quizzes :: "quizzes_row list"
  questions_table :: "questions_row list"
  quiz_attempts :: "quiz_attempts_row list"

subsection \<open>update_quiz_stats\<close>

text \<open>What a request or a statement can fail with.\<close>

datatype error =
    FetchError
  | InvalidInteger
  | IntegerOutOfRange
  | RowLevelSecurity
  | NotNullViolation
  | UniqueViolation
  | ForeignKeyViolation
  | NotASingleRow

text \<open>
  The aggregate \<^verbatim>\<open>AVG\<close> over integers, which is PostgreSQL's: NULL over no rows,
  otherwise the sum divided by the count as numerics (\<^verbatim>\<open>numeric_div\<close>). A numeric
  is stored in digits of base 10000. The weight of a positive integer is the position of
  its first such digit. The quotient is rounded, half away from zero, to the number of
  decimal places that \<^verbatim>\<open>select_div_scale\<close> picks from the weights and first digits of
  the operands, so that it has at least 16 significant digits: for two integers, 16 less
  four times the estimated weight of the quotient, and not less than 0 nor more than
  1000.
\<close>

definition numeric_weight :: "nat \<Rightarrow> int" where
  "numeric_weight v = (if v = 0 then 0 else int (floorlog 10000 v) - 1)"

definition numeric_first_digit :: "nat \<Rightarrow> nat" where
  "numeric_first_digit v = (if v = 0 then 0 else v div 10000 ^ (floorlog 10000 v - 1))"

definition select_div_scale :: "nat \<Rightarrow> nat \<Rightarrow> int" where
  "select_div_scale v1 v2 =
     (let qweight = numeric_weight v1 - numeric_weight v2
                      - (if numeric_first_digit v1 \<le> numeric_first_digit v2 then 1 else 0);
          rscale = 16 - qweight * 4
      in min (max rscale 0) 1000)"

definition round_var :: "rat \<Rightarrow> nat \<Rightarrow> rat" where
  "round_var x rscale = sgn x * of_int \<lfloor>\<bar>x\<bar> * 10 ^ rscale + 1 / 2\<rfloor> / 10 ^ rscale"

text \<open>The quotient of two integers as numerics; the divisor is not zero.\<close>

definition numeric_div :: "int \<Rightarrow> int \<Rightarrow> rat" where
  "numeric_div a b =
     round_var (of_int a / of_int b) (nat (select_div_scale (nat \<bar>a\<bar>) (nat \<bar>b\<bar>)))"

definition AVG :: "int list \<Rightarrow> rat option" where
  "AVG xs = (if xs = [] then None else Some (numeric_div (sum_list xs) (int (length xs))))"

text \<open>
  \<^verbatim>\<open>
  CREATE OR REPLACE FUNCTION update_quiz_stats(quiz_id uuid, new_score integer)
  BEGIN
    UPDATE quizzes
    SET total_attempts = total_attempts + 1,
        average_score = (SELECT AVG(score)::numeric FROM quiz_attempts
                         WHERE quiz_attempts.quiz_id = update_quiz_stats.quiz_id)
    WHERE id = quiz_id;
  END;
  \<close>
  The trigger \<^verbatim>\<open>update_quizzes_updated_at\<close> sets \<open>updated_at\<close> of every row the
  statement updates to \<^verbatim>\<open>now()\<close>, the first argument here. \<^verbatim>\<open>NULL + 1\<close> is NULL.
  The column \<open>total_attempts\<close> is a 32-bit integer: adding 1 to 2147483647 raises
  \<open>integer out of range\<close>, and then the statement, and the call with it, changes nothing.
\<close>

definition INT_MAX :: int where
  "INT_MAX = 2147483647"

definition update_quiz_stats :: "timestamptz \<Rightarrow> uuid \<Rightarrow> int option \<Rightarrow> db \<Rightarrow> error + db" where
  "update_quiz_stats now quiz_id new_score d =
     (if \<exists>q\<in>set (quizzes d). qz_id q = quiz_id
            \<and> (case qz_total_attempts q of None \<Rightarrow> False | Some n \<Rightarrow> INT_MAX \<le> n)
      then Inl IntegerOutOfRange
      else Inr (d\<lparr>quizzes :=
         map (\<lambda>q. if qz_id q = quiz_id
                  then q\<lparr>qz_total_attempts := map_option (\<lambda>n. n + 1) (qz_total_attempts q),
                         qz_average_score :=
                           AVG (map qa_score
                                  (filter (\<lambda>qa. qa_quiz_id qa = quiz_id) (quiz_attempts d))),
                         qz_updated_at := Some now\<rparr>
                  else q)
           (quizzes d)\<rparr>))"

text \<open>The scores stored for a quiz, in the order of the table.\<close>

definition scores_of :: "db \<Rightarrow> uuid \<Rightarrow> int list" where
  "scores_of d quiz_id =
     map qa_score (filter (\<lambda>qa. qa_quiz_id qa = quiz_id) (quiz_attempts d))"

text \<open>
  One recorded attempt, as the statistics see it: the attempt's row joins the table, then
  \<open>update_quiz_stats\<close> is called (at time \<open>t\<close>) for the row's quiz with the row's score.
  When the call fails the row stays (see \<open>handleSubmitQuiz\<close>). A sequence of attempts
  is a sequence of such steps; it gives the errors of the calls that failed and the
  database after the last step.
\<close>

definition apply_attempt :: "timestamptz \<times> quiz_attempts_row \<Rightarrow> db \<Rightarrow> error option \<times> db" where
  "apply_attempt step d =
     (let d1 = d\<lparr>quiz_attempts := quiz_attempts d @ [snd step]\<rparr>
      in case update_quiz_stats (fst step) (qa_quiz_id (snd step)) (Some (qa_score (snd step))) d1 of
           Inl e \<Rightarrow> (Some e, d1)
         | Inr d2 \<Rightarrow> (None, d2))"

fun apply_attempts :: "(timestamptz \<times> quiz_attempts_row) list \<Rightarrow> db \<Rightarrow> error list \<times> db" where
  "apply_attempts [] d = ([], d)"
| "apply_attempts (step # steps) d =
     (case apply_attempt step d of
        (e, d1) \<Rightarrow>
          (case apply_attempts steps d1 of
             (es, d2) \<Rightarrow> ((case e of None \<Rightarrow> es | Some x \<Rightarrow> x # es), d2)))"

text \<open>The statistics of a quiz: \<open>total_attempts\<close> and \<open>average_score\<close> of its rows.\<close>

definition quiz_stats :: "db \<Rightarrow> uuid \<Rightarrow> (int option \<times> rat option) list" where
  "quiz_stats d quiz_id =
     map (\<lambda>q. (qz_total_attempts q, qz_average_score q))
       (filter (\<lambda>q. qz_id q = quiz_id) (quizzes d))"

subsection \<open>get_user_leaderboard\<close>

text \<open>
  The calendar behind \<^verbatim>\<open>date_trunc\<close>, which is PostgreSQL's and not this
  repository's: the proleptic Gregorian calendar, in UTC (the time zone of the session
  in a hosted database). Days are numbered from 1970-01-01, day 0, a Thursday.
\<close>

definition usecs_per_day :: int where
  "usecs_per_day = 86400000000"

definition is_leap_year :: "int \<Rightarrow> bool" where
  "is_leap_year y = (y mod 4 = 0 \<and> (y mod 100 \<noteq> 0 \<or> y mod 400 = 0))"

definition days_in_month :: "int \<Rightarrow> int \<Rightarrow> int" where
  "days_in_month y m =
     (if m = 2 then (if is_leap_year y then 29 else 28)
      else if m = 4 \<or> m = 6 \<or> m = 9 \<or> m = 11 then 30 else 31)"




text \<open>
  The first day of the month that holds day \<open>d\<close>, found by walking the months forward
  from a month \<open>m\<close> of year \<open>y\<close> whose first day \<open>s\<close> is known, or backward from it.
\<close>

function month_start_from :: "int \<Rightarrow> int \<Rightarrow> int \<Rightarrow> int \<Rightarrow> int" where
  "month_start_from y m s d =
     (if d < s + days_in_month y m then s
      else month_start_from (if m = 12 then y + 1 else y) (if m = 12 then 1 else m + 1)
             (s + days_in_month y m) d)"
  by pat_completeness auto
termination
  by (relation "measure (\<lambda>(y, m, s, d). nat (d - s))")
    (auto simp: days_in_month_def split: if_splits)

function month_start_back :: "int \<Rightarrow> int \<Rightarrow> int \<Rightarrow> int \<Rightarrow> int" where
  "month_start_back y m s d =
     (let y' = (if m = 1 then y - 1 else y); m' = (if m = 1 then 12 else m - 1);
          s' = s - days_in_month y' m'
      in if s' \<le> d then s' else month_start_back y' m' s' d)"
  by pat_completeness auto
termination
  by (relation "measure (\<lambda>(y, m, s, d). nat (s - d))")
    (auto simp: days_in_month_def Let_def split: if_splits)

definition month_start_day :: "int \<Rightarrow> int" where
  "month_start_day d =
     (if 0 \<le> d then month_start_from 1970 1 0 d else month_start_back 1970 1 0 d)"

text \<open>
  \<^verbatim>\<open>date_trunc('month', t)\<close>: midnight of the first day of the month of \<open>t\<close>;
  \<^verbatim>\<open>date_trunc('week', t)\<close>: midnight of the Monday of the week of \<open>t\<close>.
\<close>

definition date_trunc_month :: "timestamptz \<Rightarrow> timestamptz" where
  "date_trunc_month t = month_start_day (t div usecs_per_day) * usecs_per_day"

definition date_trunc_week :: "timestamptz \<Rightarrow> timestamptz" where
  "date_trunc_week t =
     (let d = t div usecs_per_day in (d - (d + 3) mod 7) * usecs_per_day)"

text \<open>
  The condition of the \<^verbatim>\<open>WHERE\<close> clause,
  \<^verbatim>\<open>
  CASE
    WHEN time_filter = 'month' THEN qa.completed_at >= date_trunc('month', NOW())
    WHEN time_filter = 'week' THEN qa.completed_at >= date_trunc('week', NOW())
    ELSE TRUE
  END
  \<close>
  A comparison with a NULL \<open>completed_at\<close> is NULL, and the row is not selected.
\<close>

definition in_time_filter :: "string \<Rightarrow> timestamptz \<Rightarrow> quiz_attempts_row \<Rightarrow> bool" where
  "in_time_filter time_filter now qa =
     (if time_filter = ''month''
      then (case qa_completed_at qa of None \<Rightarrow> False | Some t \<Rightarrow> date_trunc_month now \<le> t)
      else if time_filter = ''week''
      then (case qa_completed_at qa of None \<Rightarrow> False | Some t \<Rightarrow> date_trunc_week now \<le> t)
      else True)"

text \<open>
  The common table expression \<^verbatim>\<open>user_scores\<close>: the selected attempts grouped by
  \<open>user_id\<close>, with \<^verbatim>\<open>SUM(qa.score)\<close>, \<^verbatim>\<open>COUNT(qa.id)\<close> and \<^verbatim>\<open>AVG(qa.score)\<close> of each
  group. SQL leaves the order of the groups open; the model has one row for each user in
  the order \<open>remdups\<close> gives.
\<close>

record user_scores_row =
  us_user_id :: uuid
  us_total_score :: int
  us_quiz_count :: int
  us_average_score :: "rat option"

definition user_scores :: "string \<Rightarrow> timestamptz \<Rightarrow> quiz_attempts_row list \<Rightarrow> user_scores_row list" where
  "user_scores time_filter now qas =
     (let selected = filter (in_time_filter time_filter now) qas
      in map (\<lambda>u. let group = filter (\<lambda>qa. qa_user_id qa = u) selected
                  in \<lparr>us_user_id = u,
                      us_total_score = sum_list (map qa_score group),
                      us_quiz_count = int (length group),
                      us_average_score = AVG (map qa_score group)\<rparr>)
           (remdups (map qa_user_id selected)))"

text \<open>The rows the function returns.\<close>

record leaderboard_row =
  user_id :: uuid
  full_name :: string
  total_score :: int
  quiz_count :: int
  average_score :: "rat option"
  rank :: int

text \<open>
  \<^verbatim>\<open>RANK() OVER (ORDER BY us.total_score DESC)\<close>: one more than the number of rows of
  the window whose \<open>total_score\<close> is greater.
\<close>

definition RANK_desc :: "int list \<Rightarrow> int \<Rightarrow> int" where
  "RANK_desc window k = 1 + int (length (filter (\<lambda>k'. k < k') window))"

text \<open>
  \<^verbatim>\<open>
  SELECT us.user_id, p.full_name, us.total_score, us.quiz_count, us.average_score,
         RANK() OVER (ORDER BY us.total_score DESC) AS rank
  FROM user_scores us JOIN profiles p ON us.user_id = p.id
  ORDER BY rank ASC;
  \<close>
  The window is the whole of the joined rows. Rows of equal rank come in an order that
  SQL leaves open; the model keeps them in the order of the join (a stable sort).
\<close>

definition get_user_leaderboard :: "string \<Rightarrow> timestamptz \<Rightarrow> db \<Rightarrow> leaderboard_row list" where
  "get_user_leaderboard time_filter now d =
     (let joined =
            concat (map (\<lambda>us. map (\<lambda>p. (us, p))
                                (filter (\<lambda>p. us_user_id us = p_id p) (profiles d)))
                      (user_scores time_filter now (quiz_attempts d)));
          window = map (\<lambda>(us, p). us_total_score us) joined
      in sort_key rank
           (map (\<lambda>(us, p).
                   \<lparr>user_id = us_user_id us,
                    full_name = p_full_name p,
                    total_score = us_total_score us,
                    quiz_count = us_quiz_count us,
                    average_score = us_average_score us,
                    rank = RANK_desc window (us_total_score us)\<rparr>)
              joined))"

section \<open>Recording an attempt and reading it back\<close>

text \<open>
  The pages reach the database through requests. A request carries the identity of the
  session (\<^verbatim>\<open>auth.uid()\<close>, NULL when nobody is logged in), meets the clock
  (\<^verbatim>\<open>now()\<close>) and the generator of row ids (\<^verbatim>\<open>gen_random_uuid()\<close>), and may fail
  on its way, in which case the database is not touched.
\<close>

record request =
  auth_uid :: "uuid option"
  clock :: timestamptz
  fresh_uuid :: uuid
  transport :: "error option"

text \<open>
  A number sent in the JSON body of a request for a column or a parameter of type
  \<^verbatim>\<open>integer\<close>: \<^verbatim>\<open>JSON.stringify\<close> writes NaN and the infinities as \<^verbatim>\<open>null\<close>, and
  a number with a fraction is not the text of an integer.
\<close>

fun json_integer :: "js_number \<Rightarrow> error + int option" where
  "json_integer (Number x) =
     (if x = of_int \<lfloor>x\<rfloor> then Inr (Some \<lfloor>x\<rfloor>) else Inl InvalidInteger)"
| "json_integer v = Inr None"

text \<open>The object that \<^verbatim>\<open>handleSubmitQuiz\<close> inserts into \<^verbatim>\<open>quiz_attempts\<close>.\<close>

record quiz_attempts_insert =
  ins_quiz_id :: uuid
  ins_user_id :: uuid
  ins_score :: js_number
  ins_total_questions :: int
  ins_time_taken :: int
  ins_answers :: answers

text \<open>
  \<^verbatim>\<open>supabase.from('quiz_attempts').insert({...}).select().single()\<close>, under the schema:
  the policy \<^verbatim>\<open>WITH CHECK (user_id = auth.uid())\<close>, \<open>score\<close> \<^verbatim>\<open>NOT NULL\<close>, the
  primary key \<open>id\<close> with default \<^verbatim>\<open>gen_random_uuid()\<close>, the references to
  \<open>quizzes(id)\<close> and \<open>profiles(id)\<close>, and the default \<^verbatim>\<open>now()\<close> of \<open>completed_at\<close>
  and \<open>created_at\<close>. The result is the error or the inserted row, and the database
  after the request.
\<close>

definition insert_quiz_attempt ::
    "request \<Rightarrow> quiz_attempts_insert \<Rightarrow> db \<Rightarrow> (error + quiz_attempts_row) \<times> db" where
  "insert_quiz_attempt rq v d =
     (case transport rq of
        Some e \<Rightarrow> (Inl e, d)
      | None \<Rightarrow>
         (case json_integer (ins_score v) of
            Inl e \<Rightarrow> (Inl e, d)
          | Inr score \<Rightarrow>
             if auth_uid rq \<noteq> Some (ins_user_id v) then (Inl RowLevelSecurity, d)
             else (case score of
                None \<Rightarrow> (Inl NotNullViolation, d)
              | Some sc \<Rightarrow>
                 if fresh_uuid rq \<in> set (map qa_id (quiz_attempts d))
                 then (Inl UniqueViolation, d)
                 else if ins_quiz_id v \<notin> set (map qz_id (quizzes d))
                       \<or> ins_user_id v \<notin> set (map p_id (profiles d))
                 then (Inl ForeignKeyViolation, d)
                 else let row = \<lparr>qa_id = fresh_uuid rq,
                                  qa_quiz_id = ins_quiz_id v,
                                  qa_user_id = ins_user_id v,
                                  qa_score = sc,
                                  qa_total_questions = ins_total_questions v,
                                  qa_time_taken = ins_time_taken v,
                                  qa_answers = ins_answers v,
                                  qa_completed_at = Some (clock rq),
                                  qa_created_at = Some (clock rq)\<rparr>
                      in (Inr row, d\<lparr>quiz_attempts := quiz_attempts d @ [row]\<rparr>))))"

text \<open>
  \<^verbatim>\<open>supabase.rpc('update_quiz_stats', { quiz_id, new_score })\<close>: the error of the
  request, if any, and the database after it. The function is \<^verbatim>\<open>SECURITY DEFINER\<close>:
  no row policy applies to what it updates.
\<close>

definition rpc_update_quiz_stats ::
    "request \<Rightarrow> uuid \<Rightarrow> js_number \<Rightarrow> db \<Rightarrow> error option \<times> db" where
  "rpc_update_quiz_stats rq quiz_id new_score d =
     (case transport rq of
        Some e \<Rightarrow> (Some e, d)
      | None \<Rightarrow>
         (case json_integer new_score of
            Inl e \<Rightarrow> (Some e, d)
          | Inr s \<Rightarrow>
             (case update_quiz_stats (clock rq) quiz_id s d of
                Inl e \<Rightarrow> (Some e, d)
              | Inr d1 \<Rightarrow> (None, d1))))"

subsection \<open>handleSubmitQuiz\<close>

text \<open>
  What the page that takes a quiz holds when the quiz is submitted: the logged-in user
  (its id, or null), the quiz (of the interface \<^verbatim>\<open>Quiz\<close> the fields the submission
  reads: \<open>id\<close> and the optional \<open>time_limit\<close>), the questions, the answers, and the
  seconds left (or null). What the page does besides its requests: toasts, lines on the
  console, navigation, and the flag \<open>submitting\<close>.
\<close>

record quiz =
  quiz_id :: uuid
  time_limit :: "int option"

record take_quiz =
  st_user :: "uuid option"
  st_quiz :: "quiz option"
  st_questions :: "question list"
  st_answers :: answers
  st_timeLeft :: "int option"

datatype toast = Toast_error string | Toast_success string

datatype console_line = Console_warn string error | Console_error string error

record ui =
  toasts :: "toast list"
  console :: "console_line list"
  navigated :: "string list"
  submitting :: bool

text \<open>
  \<^verbatim>\<open>const timeTaken = quiz.time_limit ? (quiz.time_limit * 60) - (timeLeft || 0) : 0;\<close>
  An undefined or zero \<open>time_limit\<close> is falsy, a null \<open>timeLeft\<close> counts as 0.
\<close>

definition timeTaken :: "quiz \<Rightarrow> int option \<Rightarrow> int" where
  "timeTaken q timeLeft =
     (case time_limit q of
        None \<Rightarrow> 0
      | Some l \<Rightarrow> if l = 0 then 0 else l * 60 - (case timeLeft of None \<Rightarrow> 0 | Some s \<Rightarrow> s))"

definition attempt_values :: "uuid \<Rightarrow> quiz \<Rightarrow> take_quiz \<Rightarrow> quiz_attempts_insert" where
  "attempt_values uid q st =
     \<lparr>ins_quiz_id = quiz_id q,
      ins_user_id = uid,
      ins_score = calculateScore (st_questions st) (st_answers st),
      ins_total_questions = int (length (st_questions st)),
      ins_time_taken = timeTaken q (st_timeLeft st),
      ins_answers = st_answers st\<rparr>"

text \<open>
  \<^verbatim>\<open>
  const handleSubmitQuiz = async () => {
    if (!user || !quiz) {
      toast.error('You must be logged in to submit a quiz');
      return;
    }
    try {
      setSubmitting(true);
      ... score, timeTaken ...
      const { data: attempt, error } = await supabase.from('quiz_attempts')
        .insert({ quiz_id: quiz.id, user_id: user.id, score,
                  total_questions: questions.length, time_taken: timeTaken, answers })
        .select().single();
      if (error) throw error;
      const { error: updateError } = await supabase.rpc('update_quiz_stats',
        { quiz_id: quiz.id, new_score: score });
      if (updateError) console.warn('Failed to update quiz stats:', updateError);
      toast.success('Quiz submitted successfully!');
      navigate(`/quiz/${quiz.id}/results/${attempt.id}`);
    } catch (error: any) {
      toast.error('Failed to submit quiz');
      console.error('Error:', error);
    } finally {
      setSubmitting(false);
    }
  };
  \<close>
  The two requests are \<open>rq1\<close> (the insertion) and \<open>rq2\<close> (the statistics).
\<close>

definition handleSubmitQuiz ::
    "request \<Rightarrow> request \<Rightarrow> take_quiz \<Rightarrow> ui \<times> db \<Rightarrow> ui \<times> db" where
  "handleSubmitQuiz rq1 rq2 st s =
     (let u = fst s; d = snd s in
      case (st_user st, st_quiz st) of
        (Some uid, Some q) \<Rightarrow>
          (case insert_quiz_attempt rq1 (attempt_values uid q st) d of
             (Inl e, d1) \<Rightarrow>
               (u\<lparr>toasts := toasts u @ [Toast_error ''Failed to submit quiz''],
                  console := console u @ [Console_error ''Error:'' e],
                  submitting := False\<rparr>, d1)
           | (Inr attempt, d1) \<Rightarrow>
               (case rpc_update_quiz_stats rq2 (quiz_id q)
                       (calculateScore (st_questions st) (st_answers st)) d1 of
                  (updateError, d2) \<Rightarrow>
                    (u\<lparr>toasts := toasts u @ [Toast_success ''Quiz submitted successfully!''],
                       console := console u @
                         (case updateError of
                            None \<Rightarrow> []
                          | Some e \<Rightarrow> [Console_warn ''Failed to update quiz stats:'' e]),
                       navigated := navigated u @
                         [''/quiz/'' @ quiz_id q @ ''/results/'' @ qa_id attempt],
                       submitting := False\<rparr>, d2)))
      | _ \<Rightarrow>
          (u\<lparr>toasts := toasts u @ [Toast_error ''You must be logged in to submit a quiz'']\<rparr>,
           d))"

text \<open>A run of submissions, one after the other.\<close>

definition submissions ::
    "(request \<times> request \<times> take_quiz) list \<Rightarrow> ui \<times> db \<Rightarrow> ui \<times> db" where
  "submissions xs s = fold (\<lambda>(rq1, rq2, st). handleSubmitQuiz rq1 rq2 st) xs s"

subsection \<open>fetchResults\<close>

text \<open>
  The attempt as the results page holds it (interface \<^verbatim>\<open>QuizAttempt\<close>; of the
  embedded quiz the model keeps \<open>id\<close> and \<open>title\<close>).
\<close>

record QuizAttempt =
  attempt_id :: uuid
  attempt_score :: js_number
  attempt_total_questions :: int
  attempt_time_taken :: int
  attempt_answers :: answers
  attempt_completed_at :: "timestamptz option"
  attempt_quiz :: "(uuid \<times> string) option"

text \<open>
  The policies for reading: an attempt is visible to its user and to the creator of its
  quiz; a quiz is visible when published and to its creator; a question is visible when
  its quiz is published or the reader's own.
\<close>

definition can_read_quiz :: "uuid option \<Rightarrow> quizzes_row \<Rightarrow> bool" where
  "can_read_quiz uid q =
     (uid \<noteq> None \<and> (qz_is_published q = Some True \<or> Some (qz_created_by q) = uid))"

definition can_read_attempt :: "uuid option \<Rightarrow> db \<Rightarrow> quiz_attempts_row \<Rightarrow> bool" where
  "can_read_attempt uid d qa =
     (uid \<noteq> None \<and>
      (Some (qa_user_id qa) = uid
       \<or> (\<exists>q\<in>set (quizzes d). qz_id q = qa_quiz_id qa \<and> Some (qz_created_by q) = uid)))"

definition can_read_question :: "uuid option \<Rightarrow> db \<Rightarrow> questions_row \<Rightarrow> bool" where
  "can_read_question uid d qn =
     (uid \<noteq> None \<and>
      (\<exists>q\<in>set (quizzes d). qz_id q = qn_quiz_id qn
          \<and> (qz_is_published q = Some True \<or> Some (qz_created_by q) = uid)))"

text \<open>
  \<^verbatim>\<open>
  supabase.from('quiz_attempts')
    .select(`*, quiz:quizzes (id, title, description, category)`)
    .eq('id', attemptId).single()
  \<close>
  \<^verbatim>\<open>single()\<close> is an error unless exactly one row is selected.
\<close>

definition select_attempt :: "request \<Rightarrow> uuid \<Rightarrow> db \<Rightarrow> error + QuizAttempt" where
  "select_attempt rq attemptId d =
     (case transport rq of
        Some e \<Rightarrow> Inl e
      | None \<Rightarrow>
         (case filter (\<lambda>qa. qa_id qa = attemptId \<and> can_read_attempt (auth_uid rq) d qa)
                 (quiz_attempts d) of
            [qa] \<Rightarrow>
              Inr \<lparr>attempt_id = qa_id qa,
                   attempt_score = Number (of_int (qa_score qa)),
                   attempt_total_questions = qa_total_questions qa,
                   attempt_time_taken = qa_time_taken qa,
                   attempt_answers = qa_answers qa,
                   attempt_completed_at = qa_completed_at qa,
                   attempt_quiz =
                     (case filter (\<lambda>q. qz_id q = qa_quiz_id qa \<and> can_read_quiz (auth_uid rq) q)
                             (quizzes d) of
                        [] \<Rightarrow> None
                      | q # _ \<Rightarrow> Some (qz_id q, qz_title q))\<rparr>
          | _ \<Rightarrow> Inl NotASingleRow))"

text \<open>
  \<^verbatim>\<open>supabase.from('questions').select('*').eq('quiz_id', quizId).order('order_index')\<close>
\<close>

definition select_questions :: "request \<Rightarrow> uuid \<Rightarrow> db \<Rightarrow> error + question list" where
  "select_questions rq quizId d =
     (case transport rq of
        Some e \<Rightarrow> Inl e
      | None \<Rightarrow>
         Inr (map (\<lambda>qn. \<lparr>question_id = qn_id qn,
                         question_text = qn_question_text qn,
                         options = qn_options qn,
                         correct_answer = qn_correct_answer qn,
                         explanation = qn_explanation qn,
                         order_index = qn_order_index qn\<rparr>)
                (sort_key qn_order_index
                   (filter (\<lambda>qn. qn_quiz_id qn = quizId \<and> can_read_question (auth_uid rq) d qn)
                      (questions_table d)))))"

text \<open>
  \<^verbatim>\<open>
  const fetchResults = async () => {
    try {
      const { data: attemptData, error: attemptError } = await ... ;
      if (attemptError) throw attemptError;
      const { data: questionsData, error: questionsError } = await ... ;
      if (questionsError) throw questionsError;
      setAttempt(attemptData);
      setQuestions(questionsData || []);
    } catch (error: any) {
      toast.error('Failed to load results');
      navigate('/quizzes');
    } finally {
      setLoading(false);
    }
  };
  \<close>
  The state of the results page is the attempt (null at first), the questions and the
  flag \<open>loading\<close>.
\<close>

record quiz_results =
  rs_attempt :: "QuizAttempt option"
  rs_questions :: "question list"
  rs_loading :: bool

definition fetchResults ::
    "request \<Rightarrow> request \<Rightarrow> uuid \<Rightarrow> uuid \<Rightarrow> db \<Rightarrow> quiz_results \<times> ui \<Rightarrow> quiz_results \<times> ui" where
  "fetchResults rq1 rq2 attemptId quizId d s =
     (let rs = fst s; u = snd s;
          failed = (rs\<lparr>rs_loading := False\<rparr>,
                    u\<lparr>toasts := toasts u @ [Toast_error ''Failed to load results''],
                      navigated := navigated u @ [''/quizzes'']\<rparr>)
      in case select_attempt rq1 attemptId d of
           Inl e \<Rightarrow> failed
         | Inr attemptData \<Rightarrow>
            (case select_questions rq2 quizId d of
               Inl e \<Rightarrow> failed
             | Inr questionsData \<Rightarrow>
                (rs\<lparr>rs_attempt := Some attemptData, rs_questions := questionsData,
                    rs_loading := False\<rparr>, u)))"

section \<open>Properties of the numbers\<close>

text \<open>
  The binade is the one its description asks for, rounding to an integer moves a number
  by at most a half, and so the double of a positive number lies within half a unit in
  the last place of it.
\<close>

lemma binade_bounds:
  assumes "0 < x"
  shows "pow2 (binade x) \<le> x \<and> x < pow2 (binade x + 1)"
proof (cases "1 \<le> x")
  case True
  define n where "n = \<lfloor>x\<rfloor>"
  define b where "b = bitlen n"
  from True have pos: "0 < n" by (simp add: n_def)
  from bitlen_bounds [OF pos]
  have lo: "(2::int) ^ nat (b - 1) \<le> n" and hi: "n < 2 ^ nat b"
    by (simp_all add: b_def)
  from pos have b1: "1 \<le> b"
    using bitlen_eq_zero_iff [of n] bitlen_nonneg [of n] by (simp add: b_def)
  have nx: "rat_of_int n \<le> x" and xn: "x < rat_of_int (n + 1)"
    unfolding n_def by linarith+
  have "(2::rat) ^ nat (b - 1) = rat_of_int (2 ^ nat (b - 1))" by simp
  also have "\<dots> \<le> rat_of_int n" using lo by (simp only: of_int_le_iff)
  also note nx
  finally have 1: "(2::rat) ^ nat (b - 1) \<le> x" .
  from hi have "n + 1 \<le> 2 ^ nat b" by simp
  then have "rat_of_int (n + 1) \<le> rat_of_int (2 ^ nat b)" by (simp only: of_int_le_iff)
  also have "\<dots> = 2 ^ nat b" by simp
  finally have "rat_of_int (n + 1) \<le> 2 ^ nat b" .
  with xn have 2: "x < (2::rat) ^ nat b" by (rule less_le_trans)
  have "binade x = b - 1" using True by (simp add: binade_def b_def n_def)
  with b1 1 2 show ?thesis
    by (simp add: pow2_def)
next
  case False
  define y where "y = 1 / x"
  define k where "k = \<lceil>y\<rceil> - 1"
  define b where "b = bitlen k"
  from False assms have y1: "1 < y" by (simp add: y_def)
  then have "1 < \<lceil>y\<rceil>" by (simp add: less_ceiling_iff)
  then have pos: "0 < k" by (simp add: k_def)
  from bitlen_bounds [OF pos]
  have lo: "(2::int) ^ nat (b - 1) \<le> k" and hi: "k < 2 ^ nat b"
    by (simp_all add: b_def)
  from pos have b1: "1 \<le> b"
    using bitlen_eq_zero_iff [of k] bitlen_nonneg [of k] by (simp add: b_def)
  have ky: "rat_of_int k < y" and yk: "y \<le> rat_of_int (k + 1)"
    unfolding k_def by linarith+
  from hi have "k + 1 \<le> 2 ^ nat b" by simp
  then have "rat_of_int (k + 1) \<le> rat_of_int (2 ^ nat b)" by (simp only: of_int_le_iff)
  also have "\<dots> = 2 ^ nat b" by simp
  finally have "rat_of_int (k + 1) \<le> 2 ^ nat b" .
  with yk have yle: "y \<le> (2::rat) ^ nat b" by (rule order_trans)
  have "(2::rat) ^ nat (b - 1) = rat_of_int (2 ^ nat (b - 1))" by simp
  also have "\<dots> \<le> rat_of_int k" using lo by (simp only: of_int_le_iff)
  also note ky
  finally have ylt: "(2::rat) ^ nat (b - 1) < y" .
  have p: "(0::rat) < 2 ^ nat b" "(0::rat) < 2 ^ nat (b - 1)" by simp_all
  from yle assms p(1) have 1: "1 / 2 ^ nat b \<le> x"
    unfolding y_def by (simp add: field_simps)
  from ylt assms p(2) have 2: "x < 1 / 2 ^ nat (b - 1)"
    unfolding y_def by (simp add: field_simps)
  have bx: "binade x = - b" using False by (simp add: binade_def b_def k_def y_def)
  show ?thesis
  proof (cases "b = 1")
    case True
    with False 1 bx show ?thesis
      by (simp add: pow2_def)
  next
    case ne: False
    with b1 have "1 < b" by simp
    moreover from this have "nat (b - 1) = nat (- (1 - b))" by simp
    ultimately show ?thesis
      using 1 2 bx by (simp add: pow2_def)
  qed
qed


lemma pow2_powi: "pow2 e = 2 powi e"
  by (simp add: pow2_def power_int_def power_one_over inverse_eq_divide)

lemma pow2_pos: "0 < pow2 e"
  by (simp add: pow2_def)

lemma pow2_mono: "a \<le> b \<Longrightarrow> pow2 a \<le> pow2 b"
  by (simp add: pow2_powi power_int_increasing)

lemma pow2_strict_mono: "a < b \<Longrightarrow> pow2 a < pow2 b"
  by (simp add: pow2_powi power_int_strict_increasing)

lemma pow2_half: "pow2 (e - 1) = pow2 e / 2"
  by (simp add: pow2_powi power_int_diff)

lemma binade_le:
  assumes "0 < x" and "x \<le> pow2 E"
  shows "binade x \<le> E"
proof (rule ccontr)
  assume "\<not> binade x \<le> E"
  then have "pow2 E < pow2 (binade x)" by (simp add: pow2_strict_mono)
  also have "\<dots> \<le> x" using binade_bounds [OF assms(1)] by simp
  finally show False using assms(2) by simp
qed

lemma round_half_even_error:
  "\<bar>of_int (round_half_even m) - m\<bar> \<le> 1 / 2"
proof -
  have "of_int \<lfloor>m\<rfloor> \<le> m" and "m < of_int \<lfloor>m\<rfloor> + 1" by linarith+
  then show ?thesis
    by (auto simp: round_half_even_def Let_def)
qed

lemma round_half_even_nonneg: "0 \<le> m \<Longrightarrow> 0 \<le> round_half_even m"
  by (auto simp: round_half_even_def Let_def)

lemma to_double_error:
  assumes "0 < x" and "x \<le> pow2 E" and "- 1022 \<le> E" and "E \<le> 10"
  shows "\<exists>y. to_double x = Number y \<and> 0 \<le> y \<and> \<bar>y - x\<bar> \<le> pow2 (E - 53)"
proof -
  define e where "e = max (binade x) (- 1022)"
  define q where "q = pow2 (e - 52)"
  define r where "r = round_half_even (x / q)"
  define y where "y = of_int r * q"
  have eE: "e \<le> E"
    using binade_le [OF assms(1,2)] assms(3) by (simp add: e_def)
  have q: "0 < q" by (simp add: q_def pow2_pos)
  have "\<bar>of_int r - x / q\<bar> \<le> 1 / 2"
    unfolding r_def by (rule round_half_even_error)
  then have "\<bar>of_int r - x / q\<bar> * q \<le> 1 / 2 * q"
    using q by (intro mult_right_mono) simp_all
  moreover have "\<bar>of_int r - x / q\<bar> * q = \<bar>y - x\<bar>"
  proof -
    have "(of_int r - x / q) * q = y - x"
      using q by (simp add: y_def left_diff_distrib)
    then have "\<bar>y - x\<bar> = \<bar>(of_int r - x / q) * q\<bar>" by simp
    also have "\<dots> = \<bar>of_int r - x / q\<bar> * \<bar>q\<bar>" by (rule abs_mult)
    also have "\<bar>q\<bar> = q" using q by simp
    finally show ?thesis by simp
  qed
  moreover have "1 / 2 * q = pow2 (e - 53)"
    using pow2_half [of "e - 52"] by (simp add: q_def)
  ultimately have err: "\<bar>y - x\<bar> \<le> pow2 (e - 53)" by simp
  also have "\<dots> \<le> pow2 (E - 53)" using eE by (intro pow2_mono) simp
  finally have err': "\<bar>y - x\<bar> \<le> pow2 (E - 53)" .
  have "0 \<le> x / q" using assms(1) q by simp
  then have "0 \<le> r" unfolding r_def by (rule round_half_even_nonneg)
  with q have y0: "0 \<le> y" by (simp add: y_def)
  have "pow2 (E - 53) \<le> pow2 0" using assms(4) by (intro pow2_mono) simp
  moreover have "pow2 E \<le> pow2 10" using assms(4) by (rule pow2_mono)
  ultimately have "y \<le> 1025"
    using err' assms(2) by (simp add: pow2_def)
  then have "\<not> MAX_VALUE < y" by (simp add: MAX_VALUE_def)
  with assms(1) y0 err' show ?thesis
    by (simp add: to_double_def Let_def e_def [symmetric] q_def [symmetric]
        r_def [symmetric] y_def [symmetric] abs_of_pos)
qed

text \<open>
  Some doubles: 0.1 and 1/3; two ties above 2^53, which go to the even neighbour; the
  quotient 23/40 and its product with 100, which lies below 57.5.
\<close>

lemma double_values:
  "to_double (1 / 10) = Number (3602879701896397 / 36028797018963968)"
  "to_double (1 / 3) = Number (6004799503160661 / 18014398509481984)"
  "to_double 9007199254740993 = Number 9007199254740992"
  "to_double 9007199254740995 = Number 9007199254740996"
  "to_double (23 / 40) = Number (2589569785738035 / 4503599627370496)"
  "to_double (2589569785738035 / 4503599627370496 * 100) =
     Number (8092405580431359 / 140737488355328)"
  by code_simp+

lemma to_double_1: "to_double 1 = Number 1"
  by code_simp

lemma to_double_100: "to_double 100 = Number 100"
  by code_simp

lemma floor_100_half: "\<lfloor>201 / 2 :: rat\<rfloor> = 100"
  by (rule floor_unique) simp_all

section \<open>Properties of the scoring\<close>

lemma fold_count_from:
  "fold (\<lambda>x n. if P x then n + 1 else n) xs (k::nat) = k + length (filter P xs)"
  by (induction xs arbitrary: k) simp_all

lemma floor_half_rat: "\<lfloor>1 / 2 :: rat\<rfloor> = 0"
  by (rule floor_unique) simp_all

lemma correctAnswers_filter:
  "correctAnswers qs A =
     length (filter (\<lambda>q. A (question_id q) = Some (correct_answer q)) qs)"
  by (simp add: correctAnswers_def fold_count_from)

text \<open>
  C8. A question counts as correct exactly when the answers hold, under its id, the
  question's \<open>correct_answer\<close>: the count of correct answers is the number of such
  questions, each question adds one or nothing to it, and a question whose id has no
  entry adds nothing. Scoring a set of questions none of which has an entry raises
  nothing: it yields the number 0 (NaN when there is no question at all).
\<close>

theorem correct_iff_answer_matches:
  "correctAnswers qs A =
       length (filter (\<lambda>q. A (question_id q) = Some (correct_answer q)) qs)
   \<and> correctAnswers (qs @ [q]) A =
       correctAnswers qs A + (if A (question_id q) = Some (correct_answer q) then 1 else 0)
   \<and> (A (question_id q) = None \<longrightarrow> correctAnswers (qs @ [q]) A = correctAnswers qs A)
   \<and> calculateScore qs Map.empty = (if qs = [] then NaN else Number 0)"
proof -
  have "calculateScore qs Map.empty = (if qs = [] then NaN else Number 0)"
    by (simp add: calculateScore_def correctAnswers_filter to_double_def floor_half_rat)
  then show ?thesis
    by (simp add: correctAnswers_filter)
qed

theorem correct_iff_answer_matches_witness:
  "[''q1'' \<mapsto> (1::int)] ''q2'' = None
   \<and> correctAnswers
       [\<lparr>question_id = ''q1'', question_text = ''2 + 2'', options = [''3'', ''4''],
         correct_answer = 1, explanation = None, order_index = 0\<rparr>,
        \<lparr>question_id = ''q2'', question_text = ''3 + 3'', options = [''6'', ''7''],
         correct_answer = 0, explanation = None, order_index = 1\<rparr>]
       [''q1'' \<mapsto> 1] = 1"
  using correct_iff_answer_matches
    [of "[\<lparr>question_id = ''q1'', question_text = ''2 + 2'', options = [''3'', ''4''],
           correct_answer = 1, explanation = None, order_index = 0\<rparr>]"
        "[''q1'' \<mapsto> 1]"
        "\<lparr>question_id = ''q2'', question_text = ''3 + 3'', options = [''6'', ''7''],
          correct_answer = 0, explanation = None, order_index = 1\<rparr>"]
  by simp

text \<open>
  C3, as the code has it. The scoring has no check for an empty question set and no
  error to raise: \<open>correctAnswers\<close> is 0, \<^verbatim>\<open>0 / 0\<close> is NaN, and NaN goes through the
  multiplication and \<^verbatim>\<open>Math.round\<close>. For every answers map the score of no questions
  is NaN.
\<close>

theorem score_of_no_questions_is_NaN: "calculateScore [] A = NaN"
  by (simp add: calculateScore_def correctAnswers_def)

text \<open>
  C3, as stated, fails: with no questions and no answers the scoring returns (the value
  NaN) where the claim has it raise.
\<close>

theorem score_of_no_questions_counterexample:
  "calculateScore [] Map.empty = NaN \<and> calculateScore [] [''q1'' \<mapsto> 0] = NaN"
  by (simp add: calculateScore_def correctAnswers_def)

text \<open>
  C5 fails on the code at this input. Of 40 questions (ids \<open>q\<close>, \<open>qq\<close>, ...,
  each with correct answer 0) the first 23 are answered right and the others not at all.
  The exact percentage is 57.5, which rounds half up to 58. The code divides first:
  \<^verbatim>\<open>23 / 40\<close> is the double just below 0.575, its product with 100 is the double
  57.49999999999999289..., and \<^verbatim>\<open>Math.round\<close> gives 57.
\<close>

theorem score_23_of_40_is_57:
  "calculateScore
     (map (\<lambda>i. \<lparr>question_id = replicate i (CHR ''q''), question_text = [],
                 options = [''a'', ''b''], correct_answer = 0, explanation = None,
                 order_index = int i\<rparr>) [1..<41])
     (map_of (map (\<lambda>i. (replicate i (CHR ''q''), 0)) [1..<24])) = Number 57"
  by code_simp

text \<open>
  The example of the specification: four questions with correct answers 0, 1, 2, 3 and
  the answers 0, 1, 9, 3 score 75 (\<^verbatim>\<open>3 / 4\<close> and \<^verbatim>\<open>0.75 * 100\<close> are exact).
\<close>

lemma score_3_of_4_is_75:
  "calculateScore
     [\<lparr>question_id = ''q1'', question_text = [], options = [], correct_answer = 0,
       explanation = None, order_index = 0\<rparr>,
      \<lparr>question_id = ''q2'', question_text = [], options = [], correct_answer = 1,
       explanation = None, order_index = 1\<rparr>,
      \<lparr>question_id = ''q3'', question_text = [], options = [], correct_answer = 2,
       explanation = None, order_index = 2\<rparr>,
      \<lparr>question_id = ''q4'', question_text = [], options = [], correct_answer = 3,
       explanation = None, order_index = 3\<rparr>]
     [''q1'' \<mapsto> 0, ''q2'' \<mapsto> 1, ''q3'' \<mapsto> 9, ''q4'' \<mapsto> 3] = Number 75"
  by code_simp

lemma percentage_error:
  fixes c n :: nat
  assumes "0 < c" and "c \<le> n" and "n < 2 ^ 32"
  shows "\<exists>y. js_mul (js_div (Number (of_nat c)) (Number (of_nat n))) (Number 100) = Number y
           \<and> 0 \<le> y \<and> \<bar>y - 100 * of_nat c / of_nat n\<bar> \<le> pow2 (- 45)"
proof -
  define x1 :: rat where "x1 = of_nat c / of_nat n"
  from assms(1,2) have n0: "0 < n" by simp
  have x1_pos: "0 < x1" using assms(1) n0 by (simp add: x1_def)
  have x1_le: "x1 \<le> 1" using assms(2) n0 by (simp add: x1_def)
  have "(1::rat) \<le> of_nat c" using assms(1) by simp
  moreover have "rat_of_nat n < 2 ^ 32"
    using assms(3) by (metis of_nat_less_iff of_nat_numeral of_nat_power)
  ultimately have x1_lo: "1 / 2 ^ 32 < x1"
    using n0 unfolding x1_def by (simp add: field_simps)
  from x1_le have "x1 \<le> pow2 0" by (simp add: pow2_def)
  from to_double_error [OF x1_pos this]
  obtain y1 where y1: "to_double x1 = Number y1" and e1: "\<bar>y1 - x1\<bar> \<le> pow2 (- 53)"
    by auto
  from e1 have e1': "\<bar>y1 - x1\<bar> \<le> 1 / 2 ^ 53" by (simp add: pow2_def)
  from x1_lo have x1_lo': "1 / 4294967296 < x1" by simp
  from e1' have e1'': "\<bar>y1 - x1\<bar> \<le> 1 / 9007199254740992" by simp
  from x1_lo' e1'' have y1_pos: "0 < y1" by linarith
  from e1'' x1_le have "y1 * 100 \<le> 128" by linarith
  then have "y1 * 100 \<le> pow2 7" by (simp add: pow2_def)
  moreover from y1_pos have "0 < y1 * 100" by simp
  ultimately obtain y2 where y2: "to_double (y1 * 100) = Number y2" and y2_nonneg: "0 \<le> y2"
    and e2: "\<bar>y2 - y1 * 100\<bar> \<le> pow2 (7 - 53)"
    using to_double_error [of "y1 * 100" 7] by auto
  from e2 have e2': "\<bar>y2 - y1 * 100\<bar> \<le> 1 / 2 ^ 46" by (simp add: pow2_def)
  from e2' have e2'': "\<bar>y2 - y1 * 100\<bar> \<le> 1 / 70368744177664" by simp
  from e1'' e2'' have "\<bar>y2 - 100 * x1\<bar> \<le> 1 / 35184372088832" by linarith
  then have "\<bar>y2 - 100 * x1\<bar> \<le> 1 / 2 ^ 45" by simp
  then have "\<bar>y2 - 100 * of_nat c / of_nat n\<bar> \<le> pow2 (- 45)"
    by (simp add: pow2_def x1_def)
  moreover have "js_mul (js_div (Number (of_nat c)) (Number (of_nat n))) (Number 100) = Number y2"
    using n0 y1 y2 by (simp add: x1_def)
  ultimately show ?thesis using y2_nonneg by blast
qed

lemma floor_near_fraction:
  fixes N D :: int and z d :: rat
  assumes "0 < D" and "\<bar>z - of_int N / of_int D\<bar> \<le> d" and "d < 1 / of_int D"
  shows "(N mod D \<noteq> 0 \<longrightarrow> \<lfloor>z\<rfloor> = N div D)
         \<and> (N mod D = 0 \<longrightarrow> \<lfloor>z\<rfloor> = N div D \<or> \<lfloor>z\<rfloor> = N div D - 1)"
proof -
  define k where "k = N div D"
  define m where "m = N mod D"
  define t :: rat where "t = of_int N / of_int D"
  have N: "N = k * D + m" by (simp add: k_def m_def)
  have m: "0 \<le> m" "m < D" using assms(1) by (simp_all add: m_def)
  have D: "(0::rat) < of_int D" using assms(1) by simp
  have t: "t = of_int k + of_int m / of_int D"
    using D by (simp add: t_def N field_simps)
  have D1: "1 / rat_of_int D \<le> 1"
    using assms(1) by simp
  from assms(2) have z: "t - d \<le> z" "z \<le> t + d" by (simp_all add: t_def abs_le_iff)
  have a: "\<lfloor>z\<rfloor> = k" if "m \<noteq> 0"
  proof (rule floor_unique)
    from that m have "1 \<le> m" "m \<le> D - 1" by simp_all
    then have "rat_of_int 1 \<le> of_int m" and "rat_of_int m \<le> of_int (D - 1)"
      by (simp_all only: of_int_le_iff)
    then have "1 / of_int D \<le> rat_of_int m / of_int D"
      and "rat_of_int m / of_int D \<le> (of_int D - 1) / of_int D"
      using D by (simp_all add: divide_right_mono)
    moreover have "(rat_of_int D - 1) / of_int D = 1 - 1 / of_int D"
      using D by (simp add: field_simps)
    ultimately have "of_int k + 1 / of_int D \<le> t" and "t \<le> of_int k + 1 - 1 / of_int D"
      by (simp_all add: t)
    with z assms(3) show "of_int k \<le> z" and "z < of_int k + 1" by linarith+
  qed
  have b: "\<lfloor>z\<rfloor> = k \<or> \<lfloor>z\<rfloor> = k - 1" if "m = 0"
  proof -
    from that have "t = of_int k" by (simp add: t)
    with z assms(3) D1 have "of_int k - 1 < z" and "z < of_int k + 1" by linarith+
    then have "of_int (k - 1) \<le> z" and "z < of_int (k + 1)" by simp_all
    then have "k - 1 \<le> \<lfloor>z\<rfloor>" and "\<lfloor>z\<rfloor> < k + 1"
      by (simp_all only: le_floor_iff floor_less_iff)
    then show ?thesis by linarith
  qed
  from a b show ?thesis by (simp add: k_def m_def)
qed


lemma correctAnswers_le: "correctAnswers qs A \<le> length qs"
  by (simp add: correctAnswers_filter)

text \<open>
  The score is a whole number from 0 to 100, for up to 2^32 questions (the bound of a
  JavaScript array). It is the percentage of correct answers rounded half up whenever
  that percentage is not halfway between two integers; when it is halfway, the score is
  one of the two integers.
\<close>

theorem score_is_rounded_percentage:
  assumes "qs \<noteq> []" and "length qs < 2 ^ 32"
  shows "((200 * correctAnswers qs A + length qs) mod (2 * length qs) \<noteq> 0 \<longrightarrow>
            calculateScore qs A =
              Number (of_int \<lfloor>100 * of_nat (correctAnswers qs A) / of_nat (length qs) + 1 / 2 :: rat\<rfloor>))
         \<and> ((200 * correctAnswers qs A + length qs) mod (2 * length qs) = 0 \<longrightarrow>
            calculateScore qs A =
              Number (of_int \<lfloor>100 * of_nat (correctAnswers qs A) / of_nat (length qs) + 1 / 2 :: rat\<rfloor>)
            \<or> calculateScore qs A =
              Number (of_int (\<lfloor>100 * of_nat (correctAnswers qs A) / of_nat (length qs) + 1 / 2 :: rat\<rfloor> - 1)))
         \<and> (\<exists>k. calculateScore qs A = Number (of_int k) \<and> 0 \<le> k \<and> k \<le> 100)"
proof -
  define c where "c = correctAnswers qs A"
  define n where "n = length qs"
  define p :: rat where "p = 100 * of_nat c / of_nat n"
  have n0: "0 < n" using assms(1) by (simp add: n_def)
  have cn: "c \<le> n" by (simp add: c_def n_def correctAnswers_le)
  have score: "calculateScore qs A =
      Math_round (js_mul (js_div (Number (of_nat c)) (Number (of_nat n))) (Number 100))"
    by (simp add: calculateScore_def c_def n_def)
  have goal: "((200 * c + n) mod (2 * n) \<noteq> 0 \<longrightarrow>
            calculateScore qs A = Number (of_int \<lfloor>p + 1 / 2\<rfloor>))
         \<and> ((200 * c + n) mod (2 * n) = 0 \<longrightarrow>
            calculateScore qs A = Number (of_int \<lfloor>p + 1 / 2\<rfloor>)
            \<or> calculateScore qs A = Number (of_int (\<lfloor>p + 1 / 2\<rfloor> - 1)))
         \<and> (\<exists>k. calculateScore qs A = Number (of_int k) \<and> 0 \<le> k \<and> k \<le> 100)"
  proof (cases "c = 0")
    case True
    with n0 have "calculateScore qs A = Number 0"
      by (simp add: score to_double_def floor_half_rat)
    moreover from True have "\<lfloor>p + 1 / 2\<rfloor> = 0" by (simp add: p_def floor_half_rat)
    moreover from True n0 have "(200 * c + n) mod (2 * n) \<noteq> 0" by simp
    ultimately show ?thesis by simp
  next
    case False
    then have c0: "0 < c" by simp
    from percentage_error [OF c0 cn] assms(2)
    obtain y where y: "js_mul (js_div (Number (of_nat c)) (Number (of_nat n))) (Number 100) = Number y"
      and y0: "0 \<le> y" and err: "\<bar>y - p\<bar> \<le> pow2 (- 45)"
      by (auto simp: n_def p_def)
    have s: "calculateScore qs A = Number (of_int \<lfloor>y + 1 / 2\<rfloor>)"
      by (simp only: score y Math_round.simps)
    define N where "N = int (200 * c + n)"
    define D where "D = int (2 * n)"
    have D0: "0 < D" using n0 by (simp add: D_def)
    have frac: "of_int N / of_int D = p + 1 / 2"
      using n0 by (simp add: N_def D_def p_def field_simps)
    have "rat_of_int D < 2 ^ 33"
    proof -
      from assms(2) have "2 * n < 2 ^ 33" by (simp add: n_def)
      then have "D < 2 ^ 33" unfolding D_def
        by (metis of_nat_less_iff of_nat_numeral of_nat_power)
      then have "rat_of_int D < rat_of_int (2 ^ 33)" by (simp only: of_int_less_iff)
      then show ?thesis by simp
    qed
    with D0 have "1 / 2 ^ 33 < 1 / rat_of_int D"
      by (simp add: field_simps)
    moreover have "pow2 (- 45) \<le> 1 / 2 ^ 33" by (simp add: pow2_def)
    ultimately have small: "pow2 (- 45) < 1 / rat_of_int D" by simp
    from err have "\<bar>(y + 1 / 2) - of_int N / of_int D\<bar> \<le> pow2 (- 45)"
      by (simp add: frac)
    from floor_near_fraction [OF D0 this small]
    have f: "(N mod D \<noteq> 0 \<longrightarrow> \<lfloor>y + 1 / 2\<rfloor> = N div D)"
      "(N mod D = 0 \<longrightarrow> \<lfloor>y + 1 / 2\<rfloor> = N div D \<or> \<lfloor>y + 1 / 2\<rfloor> = N div D - 1)"
      by simp_all
    have "\<lfloor>rat_of_int N / of_int D\<rfloor> = N div D" by (rule floor_divide_of_int_eq)
    then have fl: "\<lfloor>p + 1 / 2\<rfloor> = N div D" by (simp add: frac)
    have md: "(200 * c + n) mod (2 * n) = 0 \<longleftrightarrow> N mod D = 0"
      unfolding N_def D_def by (metis of_nat_eq_0_iff zmod_int)
    have "p \<le> 100" using cn n0 by (simp add: p_def field_simps)
    moreover have "pow2 (- 45) \<le> 1 / 4" by (simp add: pow2_def)
    ultimately have "y + 1 / 2 < 101" using err by linarith
    then have "y + 1 / 2 < of_int 101" by simp
    then have "\<lfloor>y + 1 / 2\<rfloor> < 101" by (simp only: floor_less_iff)
    moreover from y0 have "of_int 0 \<le> y + 1 / 2" by simp
    then have "0 \<le> \<lfloor>y + 1 / 2\<rfloor>" by (simp only: le_floor_iff)
    ultimately have "\<exists>k. calculateScore qs A = Number (of_int k) \<and> 0 \<le> k \<and> k \<le> 100"
      using s by auto
    with f s fl md show ?thesis by auto
  qed
  then show ?thesis by (simp add: c_def n_def p_def)
qed

theorem score_is_rounded_percentage_witness:
  "(200 * correctAnswers
       [\<lparr>question_id = ''q1'', question_text = [], options = [], correct_answer = 0,
          explanation = None, order_index = 0\<rparr>,
        \<lparr>question_id = ''q2'', question_text = [], options = [], correct_answer = 1,
          explanation = None, order_index = 1\<rparr>,
        \<lparr>question_id = ''q3'', question_text = [], options = [], correct_answer = 2,
          explanation = None, order_index = 2\<rparr>,
        \<lparr>question_id = ''q4'', question_text = [], options = [], correct_answer = 3,
          explanation = None, order_index = 3\<rparr>]
       [''q1'' \<mapsto> 0, ''q2'' \<mapsto> 1, ''q3'' \<mapsto> 9, ''q4'' \<mapsto> 3] + 4) mod (2 * 4) \<noteq> 0
   \<and> calculateScore
       [\<lparr>question_id = ''q1'', question_text = [], options = [], correct_answer = 0,
          explanation = None, order_index = 0\<rparr>,
        \<lparr>question_id = ''q2'', question_text = [], options = [], correct_answer = 1,
          explanation = None, order_index = 1\<rparr>,
        \<lparr>question_id = ''q3'', question_text = [], options = [], correct_answer = 2,
          explanation = None, order_index = 2\<rparr>,
        \<lparr>question_id = ''q4'', question_text = [], options = [], correct_answer = 3,
          explanation = None, order_index = 3\<rparr>]
       [''q1'' \<mapsto> 0, ''q2'' \<mapsto> 1, ''q3'' \<mapsto> 9, ''q4'' \<mapsto> 3] = Number 75"
proof -
  let ?qs = "[\<lparr>question_id = ''q1'', question_text = [], options = [], correct_answer = 0,
                explanation = None, order_index = 0\<rparr>,
              \<lparr>question_id = ''q2'', question_text = [], options = [], correct_answer = 1,
                explanation = None, order_index = 1\<rparr>,
              \<lparr>question_id = ''q3'', question_text = [], options = [], correct_answer = 2,
                explanation = None, order_index = 2\<rparr>,
              \<lparr>question_id = ''q4'', question_text = [], options = [], correct_answer = 3,
                explanation = None, order_index = 3\<rparr>]"
  let ?A = "[''q1'' \<mapsto> 0, ''q2'' \<mapsto> 1, ''q3'' \<mapsto> 9, ''q4'' \<mapsto> 3]"
  have h1: "?qs \<noteq> []" and h2: "length ?qs < 2 ^ 32" by simp_all
  have c: "correctAnswers ?qs ?A = 3" by (simp add: correctAnswers_def)
  have f: "\<lfloor>151 / 2 :: rat\<rfloor> = 75" by (rule floor_unique) simp_all
  from score_is_rounded_percentage [OF h1 h2, of ?A] show ?thesis
    by (simp add: c f)
qed

text \<open>
  A submission with every answer right scores 100, and one with no answer right scores 0
  (for at least one question).
\<close>

theorem score_all_or_none:
  "qs \<noteq> [] \<longrightarrow>
     ((\<forall>q\<in>set qs. A (question_id q) = Some (correct_answer q)) \<longrightarrow>
        calculateScore qs A = Number 100)
     \<and> ((\<forall>q\<in>set qs. A (question_id q) \<noteq> Some (correct_answer q)) \<longrightarrow>
        calculateScore qs A = Number 0)"
proof (intro impI conjI)
  assume ne: "qs \<noteq> []" and all: "\<forall>q\<in>set qs. A (question_id q) = Some (correct_answer q)"
  from all have "filter (\<lambda>q. A (question_id q) = Some (correct_answer q)) qs = qs"
    by (simp add: filter_id_conv)
  then have "correctAnswers qs A = length qs"
    by (simp add: correctAnswers_filter)
  with ne show "calculateScore qs A = Number 100"
    by (simp add: calculateScore_def to_double_1 to_double_100 floor_100_half)
next
  assume ne: "qs \<noteq> []" and none: "\<forall>q\<in>set qs. A (question_id q) \<noteq> Some (correct_answer q)"
  from none have "filter (\<lambda>q. A (question_id q) = Some (correct_answer q)) qs = []"
    by (simp add: filter_empty_conv)
  then have "correctAnswers qs A = 0"
    by (simp add: correctAnswers_filter)
  with ne show "calculateScore qs A = Number 0"
    by (simp add: calculateScore_def to_double_def floor_half_rat)
qed

theorem score_all_or_none_witness:
  "calculateScore
     [\<lparr>question_id = ''q1'', question_text = [], options = [], correct_answer = 0,
        explanation = None, order_index = 0\<rparr>,
      \<lparr>question_id = ''q2'', question_text = [], options = [], correct_answer = 1,
        explanation = None, order_index = 1\<rparr>,
      \<lparr>question_id = ''q3'', question_text = [], options = [], correct_answer = 2,
        explanation = None, order_index = 2\<rparr>,
      \<lparr>question_id = ''q4'', question_text = [], options = [], correct_answer = 3,
        explanation = None, order_index = 3\<rparr>]
     [''q1'' \<mapsto> 0, ''q2'' \<mapsto> 1, ''q3'' \<mapsto> 2, ''q4'' \<mapsto> 3] = Number 100
   \<and> calculateScore
     [\<lparr>question_id = ''q1'', question_text = [], options = [], correct_answer = 0,
        explanation = None, order_index = 0\<rparr>,
      \<lparr>question_id = ''q2'', question_text = [], options = [], correct_answer = 1,
        explanation = None, order_index = 1\<rparr>,
      \<lparr>question_id = ''q3'', question_text = [], options = [], correct_answer = 2,
        explanation = None, order_index = 2\<rparr>,
      \<lparr>question_id = ''q4'', question_text = [], options = [], correct_answer = 3,
        explanation = None, order_index = 3\<rparr>]
     [''q1'' \<mapsto> 1, ''q2'' \<mapsto> 0] = Number 0"
  using score_all_or_none
      [of "[\<lparr>question_id = ''q1'', question_text = [], options = [], correct_answer = 0,
              explanation = None, order_index = 0\<rparr>,
            \<lparr>question_id = ''q2'', question_text = [], options = [], correct_answer = 1,
              explanation = None, order_index = 1\<rparr>,
            \<lparr>question_id = ''q3'', question_text = [], options = [], correct_answer = 2,
              explanation = None, order_index = 2\<rparr>,
            \<lparr>question_id = ''q4'', question_text = [], options = [], correct_answer = 3,
              explanation = None, order_index = 3\<rparr>]"
          "[''q1'' \<mapsto> 0, ''q2'' \<mapsto> 1, ''q3'' \<mapsto> 2, ''q4'' \<mapsto> 3]"]
    score_all_or_none
      [of "[\<lparr>question_id = ''q1'', question_text = [], options = [], correct_answer = 0,
              explanation = None, order_index = 0\<rparr>,
            \<lparr>question_id = ''q2'', question_text = [], options = [], correct_answer = 1,
              explanation = None, order_index = 1\<rparr>,
            \<lparr>question_id = ''q3'', question_text = [], options = [], correct_answer = 2,
              explanation = None, order_index = 2\<rparr>,
            \<lparr>question_id = ''q4'', question_text = [], options = [], correct_answer = 3,
              explanation = None, order_index = 3\<rparr>]"
          "[''q1'' \<mapsto> 1, ''q2'' \<mapsto> 0]"]
  by simp

section \<open>Properties of the statistics\<close>

subsection \<open>The division of numerics\<close>

text \<open>
  Rounding to \<open>s\<close> decimal places moves a number by at most half a unit of the last
  place, and leaves a number of at most \<open>s\<close> decimal places as it is. So the quotient of
  two integers is exact when the divisor divides the dividend; and a quotient of at most
  100, as the average of percentages is, has at least 16 decimal places and is within
  \<open>5 \<cdot> 10\<^sup>-\<^sup>1\<^sup>7\<close> of the exact quotient.
\<close>

lemma round_var_error: "\<bar>round_var x s - x\<bar> \<le> 1 / (2 * 10 ^ s)"
proof -
  define p :: rat where "p = 10 ^ s"
  define y where "y = \<bar>x\<bar> * p"
  define k where "k = \<lfloor>y + 1 / 2\<rfloor>"
  have p: "0 < p" by (simp add: p_def)
  have "of_int k \<le> y + 1 / 2" and "y + 1 / 2 < of_int k + 1"
    unfolding k_def by linarith+
  then have ky: "\<bar>of_int k - y\<bar> \<le> 1 / 2" by linarith
  have x: "x = sgn x * (y / p)"
    using p by (simp add: y_def sgn_mult_abs)
  have r: "round_var x s = sgn x * (of_int k / p)"
    by (simp add: round_var_def k_def y_def p_def)
  have "round_var x s - x = sgn x * ((of_int k - y) / p)"
    by (subst (2) x) (simp add: r right_diff_distrib diff_divide_distrib)
  then have "\<bar>round_var x s - x\<bar> = \<bar>sgn x\<bar> * (\<bar>of_int k - y\<bar> / p)"
    using p by (simp add: abs_mult)
  also have "\<dots> \<le> 1 * ((1 / 2) / p)"
    using p ky by (intro mult_mono divide_right_mono) (simp_all add: abs_sgn_eq)
  finally show ?thesis by (simp add: p_def)
qed

lemma round_var_exact:
  assumes "x * 10 ^ s = of_int k"
  shows "round_var x s = x"
proof -
  have p: "(0::rat) < 10 ^ s" by simp
  have "\<bar>x\<bar> * 10 ^ s = \<bar>x * 10 ^ s\<bar>" by (simp add: abs_mult)
  also have "\<dots> = of_int \<bar>k\<bar>" by (simp add: assms)
  finally have a: "\<bar>x\<bar> * 10 ^ s = of_int \<bar>k\<bar>" .
  have "\<lfloor>rat_of_int \<bar>k\<bar> + 1 / 2\<rfloor> = \<bar>k\<bar>"
    by (rule floor_unique) simp_all
  then have "round_var x s = sgn x * (of_int \<bar>k\<bar> / 10 ^ s)"
    by (simp add: round_var_def a)
  also have "of_int \<bar>k\<bar> / 10 ^ s = \<bar>x\<bar>"
    using p a by (simp add: field_simps)
  finally show ?thesis by (simp add: sgn_mult_abs)
qed

lemma numeric_div_whole:
  assumes "b dvd a" and "b \<noteq> 0"
  shows "numeric_div a b = of_int a / of_int b"
proof -
  from assms obtain c where c: "a = b * c" by (auto elim: dvdE)
  with assms(2) have q: "rat_of_int a / of_int b = of_int c" by simp
  have "rat_of_int c * 10 ^ n = of_int (c * 10 ^ n)" for n by simp
  then show ?thesis
    unfolding numeric_div_def q by (rule round_var_exact)
qed


lemma numeric_digits:
  assumes "0 < v"
  shows "10000 ^ nat (numeric_weight v) \<le> v"
    and "v < 10000 * 10000 ^ nat (numeric_weight v)"
    and "numeric_first_digit v * 10000 ^ nat (numeric_weight v) \<le> v"
    and "v < (numeric_first_digit v + 1) * 10000 ^ nat (numeric_weight v)"
    and "0 \<le> numeric_weight v"
proof -
  define w where "w = floorlog 10000 v - 1"
  from assms have "floorlog 10000 v \<noteq> 0" by (simp add: floorlog_eq_zero_iff)
  then have fl: "floorlog 10000 v = Suc w" by (simp add: w_def)
  have nw: "nat (numeric_weight v) = w" using assms fl by (simp add: numeric_weight_def)
  have "10000 ^ (floorlog 10000 v - 1) \<le> v \<and> v < 10000 ^ floorlog 10000 v"
    using assms by (intro floorlog_bounds) simp_all
  moreover have "floorlog 10000 v - 1 = w" by (simp only: w_def)
  ultimately have lo: "10000 ^ w \<le> v" and hi: "v < 10000 ^ Suc w"
    by (simp_all only: fl)
  show "10000 ^ nat (numeric_weight v) \<le> v" using lo by (simp add: nw)
  show "v < 10000 * 10000 ^ nat (numeric_weight v)" using hi by (simp add: nw)
  have fd: "numeric_first_digit v = v div 10000 ^ w"
    using assms by (simp add: numeric_first_digit_def w_def)
  show "numeric_first_digit v * 10000 ^ nat (numeric_weight v) \<le> v"
    by (simp add: fd nw)
  have "v < v div 10000 ^ w * 10000 ^ w + 10000 ^ w"
    using mod_less_divisor [of "10000 ^ w" v] div_mult_mod_eq [of v "10000 ^ w"]
    by (metis add_less_cancel_left zero_less_numeral zero_less_power)
  then show "v < (numeric_first_digit v + 1) * 10000 ^ nat (numeric_weight v)"
    by (simp add: fd nw)
  show "0 \<le> numeric_weight v" using assms fl by (simp add: numeric_weight_def)
qed

lemma select_div_scale_small_quotient:
  assumes "0 < n" and "s \<le> 100 * n"
  shows "16 \<le> select_div_scale s n"
proof -
  define q where "q = numeric_weight s - numeric_weight n
      - (if numeric_first_digit s \<le> numeric_first_digit n then 1 else 0)"
  have q0: "q \<le> 0"
  proof (cases "s = 0")
    case True
    then show ?thesis
      using numeric_digits(5) [OF assms(1)]
      by (simp add: q_def numeric_weight_def numeric_first_digit_def)
  next
    case False
    then have s0: "0 < s" by simp
    define a where "a = nat (numeric_weight s)"
    define b where "b = nat (numeric_weight n)"
    note S = numeric_digits [OF s0, folded a_def]
    note N = numeric_digits [OF assms(1), folded b_def]
    have ws: "numeric_weight s = int a" and wn: "numeric_weight n = int b"
      using S(5) N(5) by (simp_all add: a_def b_def)
    have le: "a \<le> Suc b"
    proof (rule ccontr)
      assume "\<not> a \<le> Suc b"
      then have "Suc (Suc b) \<le> a" by simp
      then have "(10000::nat) ^ Suc (Suc b) \<le> 10000 ^ a"
        by (intro power_increasing) simp_all
      also note S(1)
      also note assms(2)
      also have "100 * n < 100 * (10000 * 10000 ^ b)" using N(2) by simp
      finally show False by simp
    qed
    have "numeric_first_digit s \<le> numeric_first_digit n" if "a = Suc b"
    proof (rule ccontr)
      assume "\<not> numeric_first_digit s \<le> numeric_first_digit n"
      then have "numeric_first_digit n + 1 \<le> numeric_first_digit s" by simp
      then have "(numeric_first_digit n + 1) * 10000 ^ a \<le> numeric_first_digit s * 10000 ^ a"
        by (intro mult_right_mono) simp_all
      also note S(3)
      also note assms(2)
      also have "100 * n < 100 * ((numeric_first_digit n + 1) * 10000 ^ b)"
        using N(4) by simp
      finally show False by (simp add: that)
    qed
    with le show ?thesis
      by (cases "a = Suc b") (auto simp: q_def ws wn)
  qed
  have "select_div_scale s n = min (max (16 - q * 4) 0) 1000"
    by (simp add: select_div_scale_def Let_def q_def)
  with q0 show ?thesis by simp
qed

lemma numeric_div_percentage:
  assumes "0 < n" and "0 \<le> a" and "a \<le> 100 * n"
  shows "\<bar>numeric_div a n - of_int a / of_int n\<bar> \<le> 1 / (2 * 10 ^ 16)"
proof -
  define s where "s = nat (select_div_scale (nat \<bar>a\<bar>) (nat \<bar>n\<bar>))"
  have "16 \<le> select_div_scale (nat \<bar>a\<bar>) (nat \<bar>n\<bar>)"
    using assms by (intro select_div_scale_small_quotient) (simp_all add: nat_le_iff)
  then have s: "16 \<le> s" by (simp add: s_def)
  have "\<bar>numeric_div a n - of_int a / of_int n\<bar> \<le> 1 / (2 * 10 ^ s)"
    unfolding numeric_div_def s_def by (rule round_var_error)
  also have "\<dots> \<le> 1 / (2 * 10 ^ 16)"
  proof -
    have "(10::rat) ^ 16 \<le> 10 ^ s" using s by (intro power_increasing) simp_all
    then have "2 * (10::rat) ^ 16 \<le> 2 * 10 ^ s" by (simp only: mult_le_cancel_left_pos zero_less_numeral)
    moreover have "(0::rat) < 2 * 10 ^ 16" by simp
    ultimately show ?thesis by (intro divide_left_mono mult_pos_pos) simp_all
  qed
  finally show ?thesis .
qed

subsection \<open>update_quiz_stats and runs of attempts\<close>

lemma quiz_stats_update_rows:
  "map (\<lambda>q. (qz_total_attempts q, qz_average_score q))
     (filter (\<lambda>q. qz_id q = qid)
        (map (\<lambda>q. if qz_id q = qid
                  then q\<lparr>qz_total_attempts := map_option (\<lambda>n. n + 1) (qz_total_attempts q),
                         qz_average_score := a, qz_updated_at := Some t\<rparr>
                  else q) qs))
   = map (\<lambda>q. (map_option (\<lambda>n. n + 1) (qz_total_attempts q), a))
       (filter (\<lambda>q. qz_id q = qid) qs)"
  by (induction qs) simp_all

text \<open>
  The call fails exactly when a row of the quiz holds the greatest 32-bit integer (or
  more, which the column's type excludes) in \<open>total_attempts\<close>, and then with
  \<open>integer out of range\<close>.
\<close>

lemma update_quiz_stats_Inl:
  "update_quiz_stats t qid s d = Inl e \<longleftrightarrow>
     e = IntegerOutOfRange
     \<and> (\<exists>q\<in>set (quizzes d). qz_id q = qid
           \<and> (\<exists>n. qz_total_attempts q = Some n \<and> INT_MAX \<le> n))"
  by (auto simp: update_quiz_stats_def split: option.splits)

lemma update_quiz_stats_Inr:
  assumes "update_quiz_stats t qid s d = Inr d'"
  shows "quiz_stats d' qid =
           map (\<lambda>q. (map_option (\<lambda>n. n + 1) (qz_total_attempts q), AVG (scores_of d qid)))
             (filter (\<lambda>q. qz_id q = qid) (quizzes d))"
    and "quiz_attempts d' = quiz_attempts d"
    and "profiles d' = profiles d"
    and "questions_table d' = questions_table d"
  using assms
  by (auto simp: update_quiz_stats_def quiz_stats_def scores_of_def quiz_stats_update_rows
      split: if_splits)

lemma update_quiz_stats_Inr_map:
  assumes "update_quiz_stats t qid s d = Inr d'"
  shows "quiz_stats d' qid =
           map (\<lambda>(n, a). (map_option (\<lambda>n. n + 1) n, AVG (scores_of d qid))) (quiz_stats d qid)"
  unfolding update_quiz_stats_Inr(1) [OF assms]
  by (simp add: quiz_stats_def comp_def)

lemma update_quiz_stats_total:
  "update_quiz_stats t qid s d = Inl IntegerOutOfRange \<or> (\<exists>d'. update_quiz_stats t qid s d = Inr d')"
  by (simp add: update_quiz_stats_def)

lemma counter_full_single:
  assumes "quiz_stats d qid = [(Some k, a)]"
  shows "(\<exists>q\<in>set (quizzes d). qz_id q = qid
            \<and> (\<exists>n. qz_total_attempts q = Some n \<and> INT_MAX \<le> n)) \<longleftrightarrow> INT_MAX \<le> k"
proof -
  from assms obtain q where q: "filter (\<lambda>q. qz_id q = qid) (quizzes d) = [q]"
    and k: "qz_total_attempts q = Some k"
    by (auto simp: quiz_stats_def map_eq_Cons_conv)
  have "(\<exists>q\<in>set (quizzes d). qz_id q = qid
            \<and> (\<exists>n. qz_total_attempts q = Some n \<and> INT_MAX \<le> n))
        \<longleftrightarrow> (\<exists>q\<in>set (filter (\<lambda>q. qz_id q = qid) (quizzes d)).
               \<exists>n. qz_total_attempts q = Some n \<and> INT_MAX \<le> n)"
    by auto
  also have "\<dots> \<longleftrightarrow> INT_MAX \<le> k"
    unfolding q using k by simp
  finally show ?thesis .
qed

text \<open>One attempt at a quiz whose counter is below the greatest integer.\<close>

lemma apply_attempt_step:
  assumes "qa_quiz_id (snd st) = qid" and "quiz_stats d qid = [(Some k, a)]"
    and "k < INT_MAX"
  shows "fst (apply_attempt st d) = None"
    and "quiz_stats (snd (apply_attempt st d)) qid =
           [(Some (k + 1), AVG (scores_of d qid @ [qa_score (snd st)]))]"
    and "scores_of (snd (apply_attempt st d)) qid = scores_of d qid @ [qa_score (snd st)]"
proof -
  let ?d1 = "d\<lparr>quiz_attempts := quiz_attempts d @ [snd st]\<rparr>"
  have st: "quiz_stats ?d1 qid = [(Some k, a)]"
    using assms(2) by (simp add: quiz_stats_def)
  have sc: "scores_of ?d1 qid = scores_of d qid @ [qa_score (snd st)]"
    using assms(1) by (simp add: scores_of_def)
  have "\<not> (\<exists>e. update_quiz_stats (fst st) qid (Some (qa_score (snd st))) ?d1 = Inl e)"
    unfolding update_quiz_stats_Inl counter_full_single [OF st] using assms(3) by simp
  then obtain d2 where d2: "update_quiz_stats (fst st) qid (Some (qa_score (snd st))) ?d1 = Inr d2"
    by (cases "update_quiz_stats (fst st) qid (Some (qa_score (snd st))) ?d1") auto
  have ap: "apply_attempt st d = (None, d2)"
    using d2 assms(1) by (simp add: apply_attempt_def)
  show "fst (apply_attempt st d) = None" by (simp add: ap)
  show "quiz_stats (snd (apply_attempt st d)) qid =
           [(Some (k + 1), AVG (scores_of d qid @ [qa_score (snd st)]))]"
    unfolding ap using update_quiz_stats_Inr_map [OF d2] st sc by simp
  show "scores_of (snd (apply_attempt st d)) qid = scores_of d qid @ [qa_score (snd st)]"
    unfolding ap using update_quiz_stats_Inr(2) [OF d2] sc by (simp add: scores_of_def)
qed

text \<open>One attempt at a quiz whose counter is the greatest integer: the row is stored, the
  call fails and the statistics stay.\<close>

lemma apply_attempt_full:
  assumes "qa_quiz_id (snd st) = qid" and "quiz_stats d qid = [(Some k, a)]"
    and "INT_MAX \<le> k"
  shows "fst (apply_attempt st d) = Some IntegerOutOfRange"
    and "quiz_stats (snd (apply_attempt st d)) qid = [(Some k, a)]"
    and "scores_of (snd (apply_attempt st d)) qid = scores_of d qid @ [qa_score (snd st)]"
proof -
  let ?d1 = "d\<lparr>quiz_attempts := quiz_attempts d @ [snd st]\<rparr>"
  have st: "quiz_stats ?d1 qid = [(Some k, a)]"
    using assms(2) by (simp add: quiz_stats_def)
  have sc: "scores_of ?d1 qid = scores_of d qid @ [qa_score (snd st)]"
    using assms(1) by (simp add: scores_of_def)
  have "update_quiz_stats (fst st) qid (Some (qa_score (snd st))) ?d1 = Inl IntegerOutOfRange"
    unfolding update_quiz_stats_Inl counter_full_single [OF st] using assms(3) by simp
  then have ap: "apply_attempt st d = (Some IntegerOutOfRange, ?d1)"
    using assms(1) by (simp add: apply_attempt_def)
  show "fst (apply_attempt st d) = Some IntegerOutOfRange" by (simp add: ap)
  show "quiz_stats (snd (apply_attempt st d)) qid = [(Some k, a)]"
    unfolding ap using st by simp
  show "scores_of (snd (apply_attempt st d)) qid = scores_of d qid @ [qa_score (snd st)]"
    unfolding ap using sc by simp
qed

lemma apply_attempts_Cons:
  "apply_attempts (st # steps) d =
     ((case fst (apply_attempt st d) of None \<Rightarrow> [] | Some e \<Rightarrow> [e])
        @ fst (apply_attempts steps (snd (apply_attempt st d))),
      snd (apply_attempts steps (snd (apply_attempt st d))))"
  by (simp split: prod.splits option.splits)

lemma apply_attempts_append:
  "apply_attempts (xs @ ys) d =
     (fst (apply_attempts xs d) @ fst (apply_attempts ys (snd (apply_attempts xs d))),
      snd (apply_attempts ys (snd (apply_attempts xs d))))"
proof (induction xs arbitrary: d)
  case Nil
  show ?case by simp
next
  case (Cons x xs)
  show ?case
    unfolding append_Cons apply_attempts_Cons Cons.IH by simp
qed

text \<open>
  The invariant of a run of attempts at one quiz that the counter has room for: no call
  fails, the counter has grown by the number of steps, the average is \<^verbatim>\<open>AVG\<close> of all
  the scores stored for the quiz, and those are the scores stored before followed by the
  scores of the steps.
\<close>

lemma apply_attempts_run:
  assumes "\<forall>st\<in>set steps. qa_quiz_id (snd st) = qid" and "quiz_stats d qid = [(Some k, a)]"
    and "k + int (length steps) \<le> INT_MAX"
  shows "fst (apply_attempts steps d) = []
         \<and> quiz_stats (snd (apply_attempts steps d)) qid =
           [(Some (k + int (length steps)),
             if steps = [] then a else AVG (scores_of d qid @ map (qa_score \<circ> snd) steps))]
         \<and> scores_of (snd (apply_attempts steps d)) qid
             = scores_of d qid @ map (qa_score \<circ> snd) steps"
  using assms
proof (induction steps arbitrary: d k a)
  case Nil
  then show ?case by simp
next
  case (Cons st steps)
  from Cons.prems have q: "qa_quiz_id (snd st) = qid" by simp
  from Cons.prems have k: "k < INT_MAX" by simp
  note s = apply_attempt_step [OF q Cons.prems(2) k]
  from Cons.prems have r: "\<forall>st\<in>set steps. qa_quiz_id (snd st) = qid" by simp
  from Cons.prems have b: "(k + 1) + int (length steps) \<le> INT_MAX" by simp
  note ih = Cons.IH [OF r s(2) b]
  show ?case
    unfolding apply_attempts_Cons using ih s by (auto simp: AVG_def)
qed

text \<open>
  C10. The argument \<open>new_score\<close> of \<open>update_quiz_stats\<close> has no influence: from one
  state and at one time, two calls with any two scores give the same result. When a row
  of the quiz holds the greatest 32-bit integer in \<open>total_attempts\<close> the result is the
  error \<open>integer out of range\<close>. Otherwise it is a database in which \<open>total_attempts\<close>
  of the quiz is one more than before and \<open>average_score\<close> is the average of the scores
  stored in \<open>quiz_attempts\<close> for the quiz; the table \<open>quiz_attempts\<close> is as before.
\<close>

theorem update_quiz_stats_ignores_new_score:
  "update_quiz_stats t qid s1 d = update_quiz_stats t qid s2 d
   \<and> (if \<exists>q\<in>set (quizzes d). qz_id q = qid
            \<and> (\<exists>n. qz_total_attempts q = Some n \<and> INT_MAX \<le> n)
       then update_quiz_stats t qid s1 d = Inl IntegerOutOfRange
       else \<exists>d'. update_quiz_stats t qid s1 d = Inr d'
              \<and> quiz_stats d' qid =
                  map (\<lambda>q. (map_option (\<lambda>n. n + 1) (qz_total_attempts q),
                            AVG (map qa_score
                                   (filter (\<lambda>qa. qa_quiz_id qa = qid) (quiz_attempts d)))))
                    (filter (\<lambda>q. qz_id q = qid) (quizzes d))
              \<and> quiz_attempts d' = quiz_attempts d)"
proof -
  have same: "update_quiz_stats t qid s1 d = update_quiz_stats t qid s2 d"
    by (simp add: update_quiz_stats_def)
  show ?thesis
  proof (cases "\<exists>q\<in>set (quizzes d). qz_id q = qid
            \<and> (\<exists>n. qz_total_attempts q = Some n \<and> INT_MAX \<le> n)")
    case True
    then have "update_quiz_stats t qid s1 d = Inl IntegerOutOfRange"
      by (simp add: update_quiz_stats_Inl)
    with same True show ?thesis by simp
  next
    case False
    then have "\<not> (\<exists>e. update_quiz_stats t qid s1 d = Inl e)"
      by (simp add: update_quiz_stats_Inl)
    then obtain d' where d': "update_quiz_stats t qid s1 d = Inr d'"
      by (cases "update_quiz_stats t qid s1 d") auto
    from update_quiz_stats_Inr(1,2) [OF d'] d' same False show ?thesis
      by (simp add: scores_of_def)
  qed
qed

text \<open>
  Two scores, 80 and 3, for a quiz with one stored attempt of score 80: the same result,
  with \<open>total_attempts = 1\<close> and \<open>average_score = 80\<close>; and with the counter at
  2147483647 the same error.
\<close>

theorem update_quiz_stats_ignores_new_score_witness:
  "update_quiz_stats 1000 ''quiz1'' (Some 80)
       \<lparr>profiles = [\<lparr>p_id = ''u1'', p_email = ''u1@example.org'', p_full_name = ''Ann''\<rparr>],
            quizzes = [\<lparr>qz_id = ''quiz1'', qz_title = ''Sums'', qz_is_published = Some True, qz_created_by = ''u1'',
               qz_updated_at = Some 0, qz_total_questions = Some 4, qz_total_attempts = Some 0,
               qz_average_score = Some 0\<rparr>],
            questions_table = [],
            quiz_attempts = [\<lparr>qa_id = ''a1'', qa_quiz_id = ''quiz1'', qa_user_id = ''u1'', qa_score = 80,
               qa_total_questions = 4, qa_time_taken = 0, qa_answers = Map.empty,
               qa_completed_at = Some 10, qa_created_at = Some 10\<rparr>]\<rparr>
     = update_quiz_stats 1000 ''quiz1'' (Some 3)
       \<lparr>profiles = [\<lparr>p_id = ''u1'', p_email = ''u1@example.org'', p_full_name = ''Ann''\<rparr>],
            quizzes = [\<lparr>qz_id = ''quiz1'', qz_title = ''Sums'', qz_is_published = Some True, qz_created_by = ''u1'',
               qz_updated_at = Some 0, qz_total_questions = Some 4, qz_total_attempts = Some 0,
               qz_average_score = Some 0\<rparr>],
            questions_table = [],
            quiz_attempts = [\<lparr>qa_id = ''a1'', qa_quiz_id = ''quiz1'', qa_user_id = ''u1'', qa_score = 80,
               qa_total_questions = 4, qa_time_taken = 0, qa_answers = Map.empty,
               qa_completed_at = Some 10, qa_created_at = Some 10\<rparr>]\<rparr>
   \<and> (\<exists>d'. update_quiz_stats 1000 ''quiz1'' (Some 80)
       \<lparr>profiles = [\<lparr>p_id = ''u1'', p_email = ''u1@example.org'', p_full_name = ''Ann''\<rparr>],
            quizzes = [\<lparr>qz_id = ''quiz1'', qz_title = ''Sums'', qz_is_published = Some True, qz_created_by = ''u1'',
               qz_updated_at = Some 0, qz_total_questions = Some 4, qz_total_attempts = Some 0,
               qz_average_score = Some 0\<rparr>],
            questions_table = [],
            quiz_attempts = [\<lparr>qa_id = ''a1'', qa_quiz_id = ''quiz1'', qa_user_id = ''u1'', qa_score = 80,
               qa_total_questions = 4, qa_time_taken = 0, qa_answers = Map.empty,
               qa_completed_at = Some 10, qa_created_at = Some 10\<rparr>]\<rparr> = Inr d'
         \<and> quiz_stats d' ''quiz1'' = [(Some 1, Some 80)]
         \<and> quiz_attempts d' = quiz_attempts
       \<lparr>profiles = [\<lparr>p_id = ''u1'', p_email = ''u1@example.org'', p_full_name = ''Ann''\<rparr>],
            quizzes = [\<lparr>qz_id = ''quiz1'', qz_title = ''Sums'', qz_is_published = Some True, qz_created_by = ''u1'',
               qz_updated_at = Some 0, qz_total_questions = Some 4, qz_total_attempts = Some 0,
               qz_average_score = Some 0\<rparr>],
            questions_table = [],
            quiz_attempts = [\<lparr>qa_id = ''a1'', qa_quiz_id = ''quiz1'', qa_user_id = ''u1'', qa_score = 80,
               qa_total_questions = 4, qa_time_taken = 0, qa_answers = Map.empty,
               qa_completed_at = Some 10, qa_created_at = Some 10\<rparr>]\<rparr>)
   \<and> update_quiz_stats 1000 ''quiz1'' (Some 80)
       \<lparr>profiles = [\<lparr>p_id = ''u1'', p_email = ''u1@example.org'', p_full_name = ''Ann''\<rparr>],
            quizzes = [\<lparr>qz_id = ''quiz1'', qz_title = ''Sums'', qz_is_published = Some True, qz_created_by = ''u1'',
               qz_updated_at = Some 0, qz_total_questions = Some 4, qz_total_attempts = Some 2147483647,
               qz_average_score = Some 80\<rparr>],
            questions_table = [],
            quiz_attempts = [\<lparr>qa_id = ''a1'', qa_quiz_id = ''quiz1'', qa_user_id = ''u1'', qa_score = 80,
               qa_total_questions = 4, qa_time_taken = 0, qa_answers = Map.empty,
               qa_completed_at = Some 10, qa_created_at = Some 10\<rparr>]\<rparr> = Inl IntegerOutOfRange"
proof -
  let ?d = "\<lparr>profiles = [\<lparr>p_id = ''u1'', p_email = ''u1@example.org'', p_full_name = ''Ann''\<rparr>],
            quizzes = [\<lparr>qz_id = ''quiz1'', qz_title = ''Sums'', qz_is_published = Some True, qz_created_by = ''u1'',
               qz_updated_at = Some 0, qz_total_questions = Some 4, qz_total_attempts = Some 0,
               qz_average_score = Some 0\<rparr>],
            questions_table = [],
            quiz_attempts = [\<lparr>qa_id = ''a1'', qa_quiz_id = ''quiz1'', qa_user_id = ''u1'', qa_score = 80,
               qa_total_questions = 4, qa_time_taken = 0, qa_answers = Map.empty,
               qa_completed_at = Some 10, qa_created_at = Some 10\<rparr>]\<rparr>"
  let ?f = "\<lparr>profiles = [\<lparr>p_id = ''u1'', p_email = ''u1@example.org'', p_full_name = ''Ann''\<rparr>],
            quizzes = [\<lparr>qz_id = ''quiz1'', qz_title = ''Sums'', qz_is_published = Some True, qz_created_by = ''u1'',
               qz_updated_at = Some 0, qz_total_questions = Some 4, qz_total_attempts = Some 2147483647,
               qz_average_score = Some 80\<rparr>],
            questions_table = [],
            quiz_attempts = [\<lparr>qa_id = ''a1'', qa_quiz_id = ''quiz1'', qa_user_id = ''u1'', qa_score = 80,
               qa_total_questions = 4, qa_time_taken = 0, qa_answers = Map.empty,
               qa_completed_at = Some 10, qa_created_at = Some 10\<rparr>]\<rparr>"
  have avg: "AVG [80] = Some 80" by code_simp
  note t = update_quiz_stats_ignores_new_score [of 1000 "''quiz1''" "Some 80" ?d "Some 3"]
  note u = update_quiz_stats_ignores_new_score [of 1000 "''quiz1''" "Some 80" ?f "Some 3"]
  have a: "update_quiz_stats 1000 ''quiz1'' (Some 80) ?d
             = update_quiz_stats 1000 ''quiz1'' (Some 3) ?d"
    by (rule t [THEN conjunct1])
  have b: "\<exists>d'. update_quiz_stats 1000 ''quiz1'' (Some 80) ?d = Inr d'
         \<and> quiz_stats d' ''quiz1'' = [(Some 1, Some 80)]
         \<and> quiz_attempts d' = quiz_attempts ?d"
    using t [THEN conjunct2] by (simp add: INT_MAX_def avg)
  have c: "update_quiz_stats 1000 ''quiz1'' (Some 80) ?f = Inl IntegerOutOfRange"
    using u [THEN conjunct2] by (simp add: INT_MAX_def)
  from a b c show ?thesis by blast
qed

text \<open>
  C4, as the code has it. For a quiz with no row in \<open>quiz_attempts\<close> the function
  \<open>update_quiz_stats\<close> has no guard and divides by nothing (\<^verbatim>\<open>AVG\<close> over no rows is
  NULL). When \<open>total_attempts\<close> of the quiz is the greatest 32-bit integer the call
  fails with \<open>integer out of range\<close>. Otherwise it succeeds: it adds one to
  \<open>total_attempts\<close> of the quiz (NULL stays NULL) and sets its \<open>average_score\<close> to
  NULL.
\<close>

theorem update_quiz_stats_without_attempts:
  assumes "filter (\<lambda>qa. qa_quiz_id qa = qid) (quiz_attempts d) = []"
  shows "if \<exists>q\<in>set (quizzes d). qz_id q = qid
              \<and> (\<exists>n. qz_total_attempts q = Some n \<and> INT_MAX \<le> n)
         then update_quiz_stats t qid s d = Inl IntegerOutOfRange
         else \<exists>d'. update_quiz_stats t qid s d = Inr d'
                \<and> quiz_stats d' qid =
                    map (\<lambda>q. (map_option (\<lambda>n. n + 1) (qz_total_attempts q), None))
                      (filter (\<lambda>q. qz_id q = qid) (quizzes d))
                \<and> quiz_attempts d' = quiz_attempts d"
proof (cases "\<exists>q\<in>set (quizzes d). qz_id q = qid
            \<and> (\<exists>n. qz_total_attempts q = Some n \<and> INT_MAX \<le> n)")
  case True
  then have "update_quiz_stats t qid s d = Inl IntegerOutOfRange"
    by (simp add: update_quiz_stats_Inl)
  with True show ?thesis by simp
next
  case False
  then have "\<not> (\<exists>e. update_quiz_stats t qid s d = Inl e)"
    by (simp add: update_quiz_stats_Inl)
  then obtain d' where d': "update_quiz_stats t qid s d = Inr d'"
    by (cases "update_quiz_stats t qid s d") auto
  have "AVG (scores_of d qid) = None"
    using assms by (simp add: scores_of_def AVG_def)
  with update_quiz_stats_Inr(1,2) [OF d'] d' False show ?thesis
    by simp
qed

theorem update_quiz_stats_without_attempts_witness:
  "filter (\<lambda>qa. qa_quiz_id qa = ''quiz1'') (quiz_attempts
       \<lparr>profiles = [\<lparr>p_id = ''u1'', p_email = ''u1@example.org'', p_full_name = ''Ann''\<rparr>],
            quizzes = [\<lparr>qz_id = ''quiz1'', qz_title = ''Sums'', qz_is_published = Some True, qz_created_by = ''u1'',
               qz_updated_at = Some 0, qz_total_questions = Some 4, qz_total_attempts = Some 0,
               qz_average_score = Some 0\<rparr>],
            questions_table = [],
            quiz_attempts = []\<rparr>) = []
   \<and> (\<exists>d'. update_quiz_stats 1000 ''quiz1'' (Some 80)
       \<lparr>profiles = [\<lparr>p_id = ''u1'', p_email = ''u1@example.org'', p_full_name = ''Ann''\<rparr>],
            quizzes = [\<lparr>qz_id = ''quiz1'', qz_title = ''Sums'', qz_is_published = Some True, qz_created_by = ''u1'',
               qz_updated_at = Some 0, qz_total_questions = Some 4, qz_total_attempts = Some 0,
               qz_average_score = Some 0\<rparr>],
            questions_table = [],
            quiz_attempts = []\<rparr> = Inr d'
         \<and> quiz_stats d' ''quiz1'' = [(Some 1, None)] \<and> quiz_attempts d' = [])
   \<and> filter (\<lambda>qa. qa_quiz_id qa = ''quiz1'') (quiz_attempts
       \<lparr>profiles = [\<lparr>p_id = ''u1'', p_email = ''u1@example.org'', p_full_name = ''Ann''\<rparr>],
            quizzes = [\<lparr>qz_id = ''quiz1'', qz_title = ''Sums'', qz_is_published = Some True, qz_created_by = ''u1'',
               qz_updated_at = Some 0, qz_total_questions = Some 4, qz_total_attempts = Some 2147483647,
               qz_average_score = None\<rparr>],
            questions_table = [],
            quiz_attempts = []\<rparr>) = []
   \<and> update_quiz_stats 1000 ''quiz1'' (Some 80)
       \<lparr>profiles = [\<lparr>p_id = ''u1'', p_email = ''u1@example.org'', p_full_name = ''Ann''\<rparr>],
            quizzes = [\<lparr>qz_id = ''quiz1'', qz_title = ''Sums'', qz_is_published = Some True, qz_created_by = ''u1'',
               qz_updated_at = Some 0, qz_total_questions = Some 4, qz_total_attempts = Some 2147483647,
               qz_average_score = None\<rparr>],
            questions_table = [],
            quiz_attempts = []\<rparr> = Inl IntegerOutOfRange"
  using update_quiz_stats_without_attempts [of "''quiz1''"
       "\<lparr>profiles = [\<lparr>p_id = ''u1'', p_email = ''u1@example.org'', p_full_name = ''Ann''\<rparr>],
            quizzes = [\<lparr>qz_id = ''quiz1'', qz_title = ''Sums'', qz_is_published = Some True, qz_created_by = ''u1'',
               qz_updated_at = Some 0, qz_total_questions = Some 4, qz_total_attempts = Some 0,
               qz_average_score = Some 0\<rparr>],
            questions_table = [],
            quiz_attempts = []\<rparr>" 1000 "Some 80"]
    update_quiz_stats_without_attempts [of "''quiz1''"
       "\<lparr>profiles = [\<lparr>p_id = ''u1'', p_email = ''u1@example.org'', p_full_name = ''Ann''\<rparr>],
            quizzes = [\<lparr>qz_id = ''quiz1'', qz_title = ''Sums'', qz_is_published = Some True, qz_created_by = ''u1'',
               qz_updated_at = Some 0, qz_total_questions = Some 4, qz_total_attempts = Some 2147483647,
               qz_average_score = None\<rparr>],
            questions_table = [],
            quiz_attempts = []\<rparr>" 1000 "Some 80"]
  by (simp add: INT_MAX_def)

text \<open>
  C4, as stated, fails: a quiz with \<open>total_attempts = 0\<close>, \<open>average_score = 0\<close> and no
  attempt has, after the call, which succeeds, \<open>total_attempts = 1\<close> and the
  \<open>average_score\<close> NULL; the row is not as it was.
\<close>

theorem update_quiz_stats_without_attempts_counterexample:
  "quiz_stats \<lparr>profiles = [\<lparr>p_id = ''u1'', p_email = ''u1@example.org'', p_full_name = ''Ann''\<rparr>],
            quizzes = [\<lparr>qz_id = ''quiz1'', qz_title = ''Sums'', qz_is_published = Some True, qz_created_by = ''u1'',
               qz_updated_at = Some 0, qz_total_questions = Some 4, qz_total_attempts = Some 0,
               qz_average_score = Some 0\<rparr>],
            questions_table = [],
            quiz_attempts = []\<rparr> ''quiz1'' = [(Some 0, Some 0)]
   \<and> scores_of \<lparr>profiles = [\<lparr>p_id = ''u1'', p_email = ''u1@example.org'', p_full_name = ''Ann''\<rparr>],
            quizzes = [\<lparr>qz_id = ''quiz1'', qz_title = ''Sums'', qz_is_published = Some True, qz_created_by = ''u1'',
               qz_updated_at = Some 0, qz_total_questions = Some 4, qz_total_attempts = Some 0,
               qz_average_score = Some 0\<rparr>],
            questions_table = [],
            quiz_attempts = []\<rparr> ''quiz1'' = []
   \<and> (\<exists>d'. update_quiz_stats 1000 ''quiz1'' (Some 80)
       \<lparr>profiles = [\<lparr>p_id = ''u1'', p_email = ''u1@example.org'', p_full_name = ''Ann''\<rparr>],
            quizzes = [\<lparr>qz_id = ''quiz1'', qz_title = ''Sums'', qz_is_published = Some True, qz_created_by = ''u1'',
               qz_updated_at = Some 0, qz_total_questions = Some 4, qz_total_attempts = Some 0,
               qz_average_score = Some 0\<rparr>],
            questions_table = [],
            quiz_attempts = []\<rparr> = Inr d'
         \<and> quiz_stats d' ''quiz1'' = [(Some 1, None)])"
  by (simp add: quiz_stats_def scores_of_def update_quiz_stats_def AVG_def INT_MAX_def)

text \<open>
  C2, as the code has it. A quiz starts with \<open>total_attempts = 0\<close> and no row in
  \<open>quiz_attempts\<close>. After \<open>N\<close> attempts at it, \<open>1 \<le> N \<le> 2147483647\<close>, each the
  insertion of the attempt's row followed by \<open>update_quiz_stats\<close>, no call has failed,
  its \<open>total_attempts\<close> is \<open>N\<close> and its \<open>average_score\<close> is the quotient of the sum of
  the \<open>N\<close> scores by \<open>N\<close> as PostgreSQL's numeric division rounds it. That is the mean
  when \<open>N\<close> divides the sum, and is within \<open>5 \<cdot> 10\<^sup>-\<^sup>1\<^sup>7\<close> of the mean when the scores
  are percentages (from 0 to 100). The same attempts in any other order give the same
  statistics.
\<close>

theorem stats_after_attempts:
  assumes "steps \<noteq> []"
    and "int (length steps) \<le> INT_MAX"
    and "\<forall>st\<in>set steps. qa_quiz_id (snd st) = qid"
    and "filter (\<lambda>qa. qa_quiz_id qa = qid) (quiz_attempts d) = []"
    and "quiz_stats d qid = [(Some 0, a)]"
  shows "fst (apply_attempts steps d) = []
         \<and> quiz_stats (snd (apply_attempts steps d)) qid =
             [(Some (int (length steps)),
               Some (numeric_div (sum_list (map (qa_score \<circ> snd) steps)) (int (length steps))))]
         \<and> (int (length steps) dvd sum_list (map (qa_score \<circ> snd) steps) \<longrightarrow>
              numeric_div (sum_list (map (qa_score \<circ> snd) steps)) (int (length steps))
                = of_int (sum_list (map (qa_score \<circ> snd) steps)) / of_nat (length steps))
         \<and> ((\<forall>st\<in>set steps. 0 \<le> qa_score (snd st) \<and> qa_score (snd st) \<le> 100) \<longrightarrow>
              \<bar>numeric_div (sum_list (map (qa_score \<circ> snd) steps)) (int (length steps))
                 - of_int (sum_list (map (qa_score \<circ> snd) steps)) / of_nat (length steps)\<bar>
                \<le> 1 / (2 * 10 ^ 16))
         \<and> (\<forall>steps'. mset steps' = mset steps \<longrightarrow>
               fst (apply_attempts steps' d) = []
               \<and> quiz_stats (snd (apply_attempts steps' d)) qid
                   = quiz_stats (snd (apply_attempts steps d)) qid)"
proof -
  have s0: "scores_of d qid = []"
    using assms(4) by (simp add: scores_of_def)
  have run: "fst (apply_attempts xs d) = []
         \<and> quiz_stats (snd (apply_attempts xs d)) qid =
           [(Some (int (length xs)),
             Some (numeric_div (sum_list (map (qa_score \<circ> snd) xs)) (int (length xs))))]"
    if "xs \<noteq> []" and "\<forall>st\<in>set xs. qa_quiz_id (snd st) = qid"
      and "int (length xs) \<le> INT_MAX" for xs
  proof -
    from that(3) have b: "0 + int (length xs) \<le> INT_MAX" by simp
    from apply_attempts_run [OF that(2) assms(5) b] that(1) s0 show ?thesis
      by (simp add: AVG_def)
  qed
  have perm: "fst (apply_attempts steps' d) = []
      \<and> quiz_stats (snd (apply_attempts steps' d)) qid
            = quiz_stats (snd (apply_attempts steps d)) qid"
    if eq: "mset steps' = mset steps" for steps'
  proof -
    from eq have set: "set steps' = set steps" by (rule mset_eq_setD)
    from eq have len: "length steps' = length steps" by (rule mset_eq_length)
    from eq have "mset (map (qa_score \<circ> snd) steps') = mset (map (qa_score \<circ> snd) steps)"
      by simp
    then have sum: "sum_list (map (qa_score \<circ> snd) steps') = sum_list (map (qa_score \<circ> snd) steps)"
      by (metis sum_mset_sum_list)
    from len assms(1) have ne: "steps' \<noteq> []" by auto
    from set assms(3) have q: "\<forall>st\<in>set steps'. qa_quiz_id (snd st) = qid" by simp
    from len assms(2) have b: "int (length steps') \<le> INT_MAX" by simp
    show ?thesis
      using run [OF ne q b] run [OF assms(1) assms(3) assms(2)] len sum by simp
  qed
  have whole: "numeric_div (sum_list (map (qa_score \<circ> snd) steps)) (int (length steps))
                = of_int (sum_list (map (qa_score \<circ> snd) steps)) / of_nat (length steps)"
    if "int (length steps) dvd sum_list (map (qa_score \<circ> snd) steps)"
    using numeric_div_whole [OF that] assms(1) by simp
  have near: "\<bar>numeric_div (sum_list (map (qa_score \<circ> snd) steps)) (int (length steps))
                 - of_int (sum_list (map (qa_score \<circ> snd) steps)) / of_nat (length steps)\<bar>
                \<le> 1 / (2 * 10 ^ 16)"
    if r: "\<forall>st\<in>set steps. 0 \<le> qa_score (snd st) \<and> qa_score (snd st) \<le> 100"
  proof -
    have "0 \<le> sum_list (map (qa_score \<circ> snd) xs)
        \<and> sum_list (map (qa_score \<circ> snd) xs) \<le> 100 * int (length xs)"
      if "\<forall>st\<in>set xs. 0 \<le> qa_score (snd st) \<and> qa_score (snd st) \<le> 100" for xs
      using that by (induction xs) auto
    from this [OF r] have lo: "0 \<le> sum_list (map (qa_score \<circ> snd) steps)"
      and hi: "sum_list (map (qa_score \<circ> snd) steps) \<le> 100 * int (length steps)"
      by simp_all
    from assms(1) have pos: "0 < int (length steps)" by simp
    from numeric_div_percentage [OF pos lo hi] show ?thesis by simp
  qed
  from run [OF assms(1) assms(3) assms(2)] perm whole near show ?thesis
    by blast
qed

text \<open>
  The example of the specification: the scores 80, 100, 60, and then 60, 80, 100, give
  \<open>total_attempts = 3\<close> and \<open>average_score = 80\<close>.
\<close>

theorem stats_after_attempts_witness:
  "quiz_stats \<lparr>profiles = [\<lparr>p_id = ''u1'', p_email = ''u1@example.org'', p_full_name = ''Ann''\<rparr>],
            quizzes = [\<lparr>qz_id = ''quiz1'', qz_title = ''Sums'', qz_is_published = Some True, qz_created_by = ''u1'',
               qz_updated_at = Some 0, qz_total_questions = Some 4, qz_total_attempts = Some 0,
               qz_average_score = Some 0\<rparr>],
            questions_table = [],
            quiz_attempts = []\<rparr> ''quiz1'' = [(Some 0, Some 0)]
   \<and> fst (apply_attempts
       [(10, \<lparr>qa_id = ''a1'', qa_quiz_id = ''quiz1'', qa_user_id = ''u1'', qa_score = 80,
               qa_total_questions = 4, qa_time_taken = 0, qa_answers = Map.empty,
               qa_completed_at = Some 10, qa_created_at = Some 10\<rparr>),
        (20, \<lparr>qa_id = ''a2'', qa_quiz_id = ''quiz1'', qa_user_id = ''u1'', qa_score = 100,
               qa_total_questions = 4, qa_time_taken = 0, qa_answers = Map.empty,
               qa_completed_at = Some 20, qa_created_at = Some 20\<rparr>),
        (30, \<lparr>qa_id = ''a3'', qa_quiz_id = ''quiz1'', qa_user_id = ''u1'', qa_score = 60,
               qa_total_questions = 4, qa_time_taken = 0, qa_answers = Map.empty,
               qa_completed_at = Some 30, qa_created_at = Some 30\<rparr>)]
       \<lparr>profiles = [\<lparr>p_id = ''u1'', p_email = ''u1@example.org'', p_full_name = ''Ann''\<rparr>],
            quizzes = [\<lparr>qz_id = ''quiz1'', qz_title = ''Sums'', qz_is_published = Some True, qz_created_by = ''u1'',
               qz_updated_at = Some 0, qz_total_questions = Some 4, qz_total_attempts = Some 0,
               qz_average_score = Some 0\<rparr>],
            questions_table = [],
            quiz_attempts = []\<rparr>) = []
   \<and> quiz_stats (snd (apply_attempts
       [(10, \<lparr>qa_id = ''a1'', qa_quiz_id = ''quiz1'', qa_user_id = ''u1'', qa_score = 80,
               qa_total_questions = 4, qa_time_taken = 0, qa_answers = Map.empty,
               qa_completed_at = Some 10, qa_created_at = Some 10\<rparr>),
        (20, \<lparr>qa_id = ''a2'', qa_quiz_id = ''quiz1'', qa_user_id = ''u1'', qa_score = 100,
               qa_total_questions = 4, qa_time_taken = 0, qa_answers = Map.empty,
               qa_completed_at = Some 20, qa_created_at = Some 20\<rparr>),
        (30, \<lparr>qa_id = ''a3'', qa_quiz_id = ''quiz1'', qa_user_id = ''u1'', qa_score = 60,
               qa_total_questions = 4, qa_time_taken = 0, qa_answers = Map.empty,
               qa_completed_at = Some 30, qa_created_at = Some 30\<rparr>)]
       \<lparr>profiles = [\<lparr>p_id = ''u1'', p_email = ''u1@example.org'', p_full_name = ''Ann''\<rparr>],
            quizzes = [\<lparr>qz_id = ''quiz1'', qz_title = ''Sums'', qz_is_published = Some True, qz_created_by = ''u1'',
               qz_updated_at = Some 0, qz_total_questions = Some 4, qz_total_attempts = Some 0,
               qz_average_score = Some 0\<rparr>],
            questions_table = [],
            quiz_attempts = []\<rparr>)) ''quiz1'' = [(Some 3, Some 80)]
   \<and> quiz_stats (snd (apply_attempts
       [(30, \<lparr>qa_id = ''a3'', qa_quiz_id = ''quiz1'', qa_user_id = ''u1'', qa_score = 60,
               qa_total_questions = 4, qa_time_taken = 0, qa_answers = Map.empty,
               qa_completed_at = Some 30, qa_created_at = Some 30\<rparr>),
        (10, \<lparr>qa_id = ''a1'', qa_quiz_id = ''quiz1'', qa_user_id = ''u1'', qa_score = 80,
               qa_total_questions = 4, qa_time_taken = 0, qa_answers = Map.empty,
               qa_completed_at = Some 10, qa_created_at = Some 10\<rparr>),
        (20, \<lparr>qa_id = ''a2'', qa_quiz_id = ''quiz1'', qa_user_id = ''u1'', qa_score = 100,
               qa_total_questions = 4, qa_time_taken = 0, qa_answers = Map.empty,
               qa_completed_at = Some 20, qa_created_at = Some 20\<rparr>)]
       \<lparr>profiles = [\<lparr>p_id = ''u1'', p_email = ''u1@example.org'', p_full_name = ''Ann''\<rparr>],
            quizzes = [\<lparr>qz_id = ''quiz1'', qz_title = ''Sums'', qz_is_published = Some True, qz_created_by = ''u1'',
               qz_updated_at = Some 0, qz_total_questions = Some 4, qz_total_attempts = Some 0,
               qz_average_score = Some 0\<rparr>],
            questions_table = [],
            quiz_attempts = []\<rparr>)) ''quiz1'' = [(Some 3, Some 80)]"
proof -
  let ?d = "\<lparr>profiles = [\<lparr>p_id = ''u1'', p_email = ''u1@example.org'', p_full_name = ''Ann''\<rparr>],
            quizzes = [\<lparr>qz_id = ''quiz1'', qz_title = ''Sums'', qz_is_published = Some True, qz_created_by = ''u1'',
               qz_updated_at = Some 0, qz_total_questions = Some 4, qz_total_attempts = Some 0,
               qz_average_score = Some 0\<rparr>],
            questions_table = [],
            quiz_attempts = []\<rparr>"
  let ?steps = "[(10, \<lparr>qa_id = ''a1'', qa_quiz_id = ''quiz1'', qa_user_id = ''u1'', qa_score = 80,
               qa_total_questions = 4, qa_time_taken = 0, qa_answers = Map.empty,
               qa_completed_at = Some 10, qa_created_at = Some 10\<rparr>),
        (20, \<lparr>qa_id = ''a2'', qa_quiz_id = ''quiz1'', qa_user_id = ''u1'', qa_score = 100,
               qa_total_questions = 4, qa_time_taken = 0, qa_answers = Map.empty,
               qa_completed_at = Some 20, qa_created_at = Some 20\<rparr>),
        (30, \<lparr>qa_id = ''a3'', qa_quiz_id = ''quiz1'', qa_user_id = ''u1'', qa_score = 60,
               qa_total_questions = 4, qa_time_taken = 0, qa_answers = Map.empty,
               qa_completed_at = Some 30, qa_created_at = Some 30\<rparr>)]"
  let ?steps' = "[(30, \<lparr>qa_id = ''a3'', qa_quiz_id = ''quiz1'', qa_user_id = ''u1'', qa_score = 60,
               qa_total_questions = 4, qa_time_taken = 0, qa_answers = Map.empty,
               qa_completed_at = Some 30, qa_created_at = Some 30\<rparr>),
        (10, \<lparr>qa_id = ''a1'', qa_quiz_id = ''quiz1'', qa_user_id = ''u1'', qa_score = 80,
               qa_total_questions = 4, qa_time_taken = 0, qa_answers = Map.empty,
               qa_completed_at = Some 10, qa_created_at = Some 10\<rparr>),
        (20, \<lparr>qa_id = ''a2'', qa_quiz_id = ''quiz1'', qa_user_id = ''u1'', qa_score = 100,
               qa_total_questions = 4, qa_time_taken = 0, qa_answers = Map.empty,
               qa_completed_at = Some 20, qa_created_at = Some 20\<rparr>)]"
  have h1: "?steps \<noteq> []" by simp
  have h2: "int (length ?steps) \<le> INT_MAX" by (simp add: INT_MAX_def)
  have h3: "\<forall>st\<in>set ?steps. qa_quiz_id (snd st) = ''quiz1''" by simp
  have h4: "filter (\<lambda>qa. qa_quiz_id qa = ''quiz1'') (quiz_attempts ?d) = []" by simp
  have h5: "quiz_stats ?d ''quiz1'' = [(Some 0, Some 0)]" by (simp add: quiz_stats_def)
  have p: "mset ?steps' = mset ?steps" by simp
  have nd: "numeric_div 240 3 = 80" by code_simp
  note t = stats_after_attempts [OF h1 h2 h3 h4 h5]
  from t have e: "fst (apply_attempts ?steps ?d) = []" by (rule conjunct1)
  from t have a: "quiz_stats (snd (apply_attempts ?steps ?d)) ''quiz1'' = [(Some 3, Some 80)]"
    by (simp add: nd)
  from t p have "quiz_stats (snd (apply_attempts ?steps' ?d)) ''quiz1'' =
      quiz_stats (snd (apply_attempts ?steps ?d)) ''quiz1''"
    by blast
  with a have b: "quiz_stats (snd (apply_attempts ?steps' ?d)) ''quiz1'' = [(Some 3, Some 80)]"
    by simp
  from h5 e a b show ?thesis by blast
qed

text \<open>
  A run of 2147483648 attempts at a quiz that starts with \<open>total_attempts = 0\<close>: the
  last call finds the counter at 2147483647 and fails, and the counter stays there.
\<close>

lemma apply_attempts_counter_full:
  assumes "\<forall>st\<in>set steps. qa_quiz_id (snd st) = qid"
    and "quiz_stats d qid = [(Some 0, a)]"
    and "length steps = Suc (nat INT_MAX)"
  shows "fst (apply_attempts steps d) = [IntegerOutOfRange]
         \<and> map fst (quiz_stats (snd (apply_attempts steps d)) qid) = [Some INT_MAX]"
proof -
  from assms(3) have ne: "steps \<noteq> []" by auto
  define xs where "xs = butlast steps"
  define x where "x = last steps"
  from ne have split: "steps = xs @ [x]" by (simp add: xs_def x_def)
  from assms(3) have len: "int (length xs) = INT_MAX"
    by (simp add: xs_def INT_MAX_def)
  from assms(1) split have q: "\<forall>st\<in>set xs. qa_quiz_id (snd st) = qid"
    and qx: "qa_quiz_id (snd x) = qid" by simp_all
  from len have b: "0 + int (length xs) \<le> INT_MAX" by simp
  note run = apply_attempts_run [OF q assms(2) b]
  define d1 where "d1 = snd (apply_attempts xs d)"
  from run len obtain a1 where s1: "quiz_stats d1 qid = [(Some INT_MAX, a1)]"
    by (simp add: d1_def)
  note last = apply_attempt_full [OF qx s1 order_refl]
  have "apply_attempts steps d =
       (fst (apply_attempts xs d) @ fst (apply_attempts [x] d1), snd (apply_attempts [x] d1))"
    unfolding split apply_attempts_append d1_def ..
  with run last show ?thesis
    by (simp add: split_beta)
qed

text \<open>
  C2, as stated, fails, in three ways. A quiz can hold \<open>total_attempts = 0\<close> and yet
  have a row in \<open>quiz_attempts\<close> (an attempt whose statistics update failed, see C6):
  with one of score 0, after one attempt with score 80 the counter is 1, but the average
  is 40, not 80. The average is a rounded quotient: after the scores 100, 0, 0 for a quiz
  without attempts it is 33.3333333333333333, not the mean 100 / 3. And \<open>N\<close> is not any
  number: of 2147483648 attempts at a quiz without attempts the last finds the counter at
  2147483647, its call fails, and \<open>total_attempts\<close> stays 2147483647.
\<close>

theorem stats_after_attempts_counterexample:
  "quiz_stats \<lparr>profiles = [\<lparr>p_id = ''u1'', p_email = ''u1@example.org'', p_full_name = ''Ann''\<rparr>],
            quizzes = [\<lparr>qz_id = ''quiz1'', qz_title = ''Sums'', qz_is_published = Some True, qz_created_by = ''u1'',
               qz_updated_at = Some 0, qz_total_questions = Some 4, qz_total_attempts = Some 0,
               qz_average_score = Some 0\<rparr>],
            questions_table = [],
            quiz_attempts = [\<lparr>qa_id = ''a0'', qa_quiz_id = ''quiz1'', qa_user_id = ''u1'', qa_score = 0,
               qa_total_questions = 4, qa_time_taken = 0, qa_answers = Map.empty,
               qa_completed_at = Some 5, qa_created_at = Some 5\<rparr>]\<rparr> ''quiz1'' = [(Some 0, Some 0)]
   \<and> quiz_stats (snd (apply_attempts
       [(10, \<lparr>qa_id = ''a1'', qa_quiz_id = ''quiz1'', qa_user_id = ''u1'', qa_score = 80,
               qa_total_questions = 4, qa_time_taken = 0, qa_answers = Map.empty,
               qa_completed_at = Some 10, qa_created_at = Some 10\<rparr>)]
       \<lparr>profiles = [\<lparr>p_id = ''u1'', p_email = ''u1@example.org'', p_full_name = ''Ann''\<rparr>],
            quizzes = [\<lparr>qz_id = ''quiz1'', qz_title = ''Sums'', qz_is_published = Some True, qz_created_by = ''u1'',
               qz_updated_at = Some 0, qz_total_questions = Some 4, qz_total_attempts = Some 0,
               qz_average_score = Some 0\<rparr>],
            questions_table = [],
            quiz_attempts = [\<lparr>qa_id = ''a0'', qa_quiz_id = ''quiz1'', qa_user_id = ''u1'', qa_score = 0,
               qa_total_questions = 4, qa_time_taken = 0, qa_answers = Map.empty,
               qa_completed_at = Some 5, qa_created_at = Some 5\<rparr>]\<rparr>)) ''quiz1'' = [(Some 1, Some 40)]
   \<and> quiz_stats (snd (apply_attempts
       [(10, \<lparr>qa_id = ''a1'', qa_quiz_id = ''quiz1'', qa_user_id = ''u1'', qa_score = 100,
               qa_total_questions = 4, qa_time_taken = 0, qa_answers = Map.empty,
               qa_completed_at = Some 10, qa_created_at = Some 10\<rparr>),
        (20, \<lparr>qa_id = ''a2'', qa_quiz_id = ''quiz1'', qa_user_id = ''u1'', qa_score = 0,
               qa_total_questions = 4, qa_time_taken = 0, qa_answers = Map.empty,
               qa_completed_at = Some 20, qa_created_at = Some 20\<rparr>),
        (30, \<lparr>qa_id = ''a3'', qa_quiz_id = ''quiz1'', qa_user_id = ''u1'', qa_score = 0,
               qa_total_questions = 4, qa_time_taken = 0, qa_answers = Map.empty,
               qa_completed_at = Some 30, qa_created_at = Some 30\<rparr>)]
       \<lparr>profiles = [\<lparr>p_id = ''u1'', p_email = ''u1@example.org'', p_full_name = ''Ann''\<rparr>],
            quizzes = [\<lparr>qz_id = ''quiz1'', qz_title = ''Sums'', qz_is_published = Some True, qz_created_by = ''u1'',
               qz_updated_at = Some 0, qz_total_questions = Some 4, qz_total_attempts = Some 0,
               qz_average_score = Some 0\<rparr>],
            questions_table = [],
            quiz_attempts = []\<rparr>)) ''quiz1'' = [(Some 3, Some (333333333333333333 / 10000000000000000))]
   \<and> (333333333333333333 / 10000000000000000 :: rat) \<noteq> of_int (100 + 0 + 0) / 3
   \<and> fst (apply_attempts
       (map (\<lambda>i. (int i, \<lparr>qa_id = replicate (Suc i) CHR ''a'', qa_quiz_id = ''quiz1'', qa_user_id = ''u1'',
               qa_score = 80, qa_total_questions = 4, qa_time_taken = 0, qa_answers = Map.empty,
               qa_completed_at = Some (int i), qa_created_at = Some (int i)\<rparr>)) [0..<2147483648])
       \<lparr>profiles = [\<lparr>p_id = ''u1'', p_email = ''u1@example.org'', p_full_name = ''Ann''\<rparr>],
            quizzes = [\<lparr>qz_id = ''quiz1'', qz_title = ''Sums'', qz_is_published = Some True, qz_created_by = ''u1'',
               qz_updated_at = Some 0, qz_total_questions = Some 4, qz_total_attempts = Some 0,
               qz_average_score = Some 0\<rparr>],
            questions_table = [],
            quiz_attempts = []\<rparr>) = [IntegerOutOfRange]
   \<and> map fst (quiz_stats (snd (apply_attempts
       (map (\<lambda>i. (int i, \<lparr>qa_id = replicate (Suc i) CHR ''a'', qa_quiz_id = ''quiz1'', qa_user_id = ''u1'',
               qa_score = 80, qa_total_questions = 4, qa_time_taken = 0, qa_answers = Map.empty,
               qa_completed_at = Some (int i), qa_created_at = Some (int i)\<rparr>)) [0..<2147483648])
       \<lparr>profiles = [\<lparr>p_id = ''u1'', p_email = ''u1@example.org'', p_full_name = ''Ann''\<rparr>],
            quizzes = [\<lparr>qz_id = ''quiz1'', qz_title = ''Sums'', qz_is_published = Some True, qz_created_by = ''u1'',
               qz_updated_at = Some 0, qz_total_questions = Some 4, qz_total_attempts = Some 0,
               qz_average_score = Some 0\<rparr>],
            questions_table = [],
            quiz_attempts = []\<rparr>)) ''quiz1'') = [Some 2147483647]"
proof -
  let ?s = "\<lparr>profiles = [\<lparr>p_id = ''u1'', p_email = ''u1@example.org'', p_full_name = ''Ann''\<rparr>],
            quizzes = [\<lparr>qz_id = ''quiz1'', qz_title = ''Sums'', qz_is_published = Some True, qz_created_by = ''u1'',
               qz_updated_at = Some 0, qz_total_questions = Some 4, qz_total_attempts = Some 0,
               qz_average_score = Some 0\<rparr>],
            questions_table = [],
            quiz_attempts = [\<lparr>qa_id = ''a0'', qa_quiz_id = ''quiz1'', qa_user_id = ''u1'', qa_score = 0,
               qa_total_questions = 4, qa_time_taken = 0, qa_answers = Map.empty,
               qa_completed_at = Some 5, qa_created_at = Some 5\<rparr>]\<rparr>"
  let ?d = "\<lparr>profiles = [\<lparr>p_id = ''u1'', p_email = ''u1@example.org'', p_full_name = ''Ann''\<rparr>],
            quizzes = [\<lparr>qz_id = ''quiz1'', qz_title = ''Sums'', qz_is_published = Some True, qz_created_by = ''u1'',
               qz_updated_at = Some 0, qz_total_questions = Some 4, qz_total_attempts = Some 0,
               qz_average_score = Some 0\<rparr>],
            questions_table = [],
            quiz_attempts = []\<rparr>"
  let ?f = "(\<lambda>i. (int i, \<lparr>qa_id = replicate (Suc i) CHR ''a'', qa_quiz_id = ''quiz1'', qa_user_id = ''u1'',
               qa_score = 80, qa_total_questions = 4, qa_time_taken = 0, qa_answers = Map.empty,
               qa_completed_at = Some (int i), qa_created_at = Some (int i)\<rparr>))"
  have avg1: "AVG [0, 80] = Some 40" by code_simp
  have avg2: "AVG [100] = Some 100" by code_simp
  have avg3: "AVG [100, 0] = Some 50" by code_simp
  have avg4: "AVG [100, 0, 0] = Some (333333333333333333 / 10000000000000000)" by code_simp
  have a: "quiz_stats ?s ''quiz1'' = [(Some 0, Some 0)]"
    by (simp add: quiz_stats_def)
  have b: "quiz_stats (snd (apply_attempts
       [(10, \<lparr>qa_id = ''a1'', qa_quiz_id = ''quiz1'', qa_user_id = ''u1'', qa_score = 80,
               qa_total_questions = 4, qa_time_taken = 0, qa_answers = Map.empty,
               qa_completed_at = Some 10, qa_created_at = Some 10\<rparr>)] ?s)) ''quiz1'' = [(Some 1, Some 40)]"
    by (simp add: quiz_stats_def apply_attempt_def update_quiz_stats_def INT_MAX_def avg1)
  have c: "quiz_stats (snd (apply_attempts
       [(10, \<lparr>qa_id = ''a1'', qa_quiz_id = ''quiz1'', qa_user_id = ''u1'', qa_score = 100,
               qa_total_questions = 4, qa_time_taken = 0, qa_answers = Map.empty,
               qa_completed_at = Some 10, qa_created_at = Some 10\<rparr>),
        (20, \<lparr>qa_id = ''a2'', qa_quiz_id = ''quiz1'', qa_user_id = ''u1'', qa_score = 0,
               qa_total_questions = 4, qa_time_taken = 0, qa_answers = Map.empty,
               qa_completed_at = Some 20, qa_created_at = Some 20\<rparr>),
        (30, \<lparr>qa_id = ''a3'', qa_quiz_id = ''quiz1'', qa_user_id = ''u1'', qa_score = 0,
               qa_total_questions = 4, qa_time_taken = 0, qa_answers = Map.empty,
               qa_completed_at = Some 30, qa_created_at = Some 30\<rparr>)] ?d)) ''quiz1'' = [(Some 3, Some (333333333333333333 / 10000000000000000))]"
    by (simp add: quiz_stats_def apply_attempt_def update_quiz_stats_def INT_MAX_def
        avg2 avg3 avg4)
  have e: "(333333333333333333 / 10000000000000000 :: rat) \<noteq> of_int (100 + 0 + 0) / 3"
    by simp
  have q: "\<forall>st\<in>set (map ?f ns). qa_quiz_id (snd st) = ''quiz1''" for ns
    by simp
  have s: "quiz_stats ?d ''quiz1'' = [(Some 0, Some 0)]"
    by (simp add: quiz_stats_def)
  have n: "(2147483648 :: nat) = Suc (nat INT_MAX)"
    by (simp add: INT_MAX_def)
  have l: "length (map ?f [0..<2147483648]) = Suc (nat INT_MAX)"
    unfolding length_map length_upt n by (rule diff_zero)
  note r = apply_attempts_counter_full [OF q s l, unfolded INT_MAX_def]
  show ?thesis
    by (rule conjI [OF a conjI [OF b conjI [OF c conjI [OF e r]]]])
qed

text \<open>
  What a run of attempts at one quiz does to its statistics from any state, when the
  counter has room for the run: no call fails, the counter grows by the number of
  attempts, whatever it was, and the average becomes \<^verbatim>\<open>AVG\<close> of all the scores
  stored for the quiz, those of earlier attempts included. So after a statistics update
  that failed the average is right again with the next update, and the counter stays one
  behind.
\<close>

theorem stats_after_attempts_general:
  assumes "\<forall>st\<in>set steps. qa_quiz_id (snd st) = qid"
    and "quiz_stats d qid = [(Some k, a)]"
    and "k + int (length steps) \<le> INT_MAX"
    and "steps \<noteq> []"
  shows "fst (apply_attempts steps d) = []
         \<and> quiz_stats (snd (apply_attempts steps d)) qid =
           [(Some (k + int (length steps)),
             AVG (scores_of d qid @ map (qa_score \<circ> snd) steps))]
         \<and> scores_of (snd (apply_attempts steps d)) qid
             = scores_of d qid @ map (qa_score \<circ> snd) steps"
  using apply_attempts_run [OF assms(1,2,3)] assms(4) by simp

theorem stats_after_attempts_general_witness:
  "quiz_stats \<lparr>profiles = [\<lparr>p_id = ''u1'', p_email = ''u1@example.org'', p_full_name = ''Ann''\<rparr>],
            quizzes = [\<lparr>qz_id = ''quiz1'', qz_title = ''Sums'', qz_is_published = Some True, qz_created_by = ''u1'',
               qz_updated_at = Some 0, qz_total_questions = Some 4, qz_total_attempts = Some 0,
               qz_average_score = Some 0\<rparr>],
            questions_table = [],
            quiz_attempts = [\<lparr>qa_id = ''a0'', qa_quiz_id = ''quiz1'', qa_user_id = ''u1'', qa_score = 0,
               qa_total_questions = 4, qa_time_taken = 0, qa_answers = Map.empty,
               qa_completed_at = Some 5, qa_created_at = Some 5\<rparr>]\<rparr> ''quiz1'' = [(Some 0, Some 0)]
   \<and> fst (apply_attempts
       [(10, \<lparr>qa_id = ''a1'', qa_quiz_id = ''quiz1'', qa_user_id = ''u1'', qa_score = 80,
               qa_total_questions = 4, qa_time_taken = 0, qa_answers = Map.empty,
               qa_completed_at = Some 10, qa_created_at = Some 10\<rparr>)]
       \<lparr>profiles = [\<lparr>p_id = ''u1'', p_email = ''u1@example.org'', p_full_name = ''Ann''\<rparr>],
            quizzes = [\<lparr>qz_id = ''quiz1'', qz_title = ''Sums'', qz_is_published = Some True, qz_created_by = ''u1'',
               qz_updated_at = Some 0, qz_total_questions = Some 4, qz_total_attempts = Some 0,
               qz_average_score = Some 0\<rparr>],
            questions_table = [],
            quiz_attempts = [\<lparr>qa_id = ''a0'', qa_quiz_id = ''quiz1'', qa_user_id = ''u1'', qa_score = 0,
               qa_total_questions = 4, qa_time_taken = 0, qa_answers = Map.empty,
               qa_completed_at = Some 5, qa_created_at = Some 5\<rparr>]\<rparr>) = []
   \<and> quiz_stats (snd (apply_attempts
       [(10, \<lparr>qa_id = ''a1'', qa_quiz_id = ''quiz1'', qa_user_id = ''u1'', qa_score = 80,
               qa_total_questions = 4, qa_time_taken = 0, qa_answers = Map.empty,
               qa_completed_at = Some 10, qa_created_at = Some 10\<rparr>)]
       \<lparr>profiles = [\<lparr>p_id = ''u1'', p_email = ''u1@example.org'', p_full_name = ''Ann''\<rparr>],
            quizzes = [\<lparr>qz_id = ''quiz1'', qz_title = ''Sums'', qz_is_published = Some True, qz_created_by = ''u1'',
               qz_updated_at = Some 0, qz_total_questions = Some 4, qz_total_attempts = Some 0,
               qz_average_score = Some 0\<rparr>],
            questions_table = [],
            quiz_attempts = [\<lparr>qa_id = ''a0'', qa_quiz_id = ''quiz1'', qa_user_id = ''u1'', qa_score = 0,
               qa_total_questions = 4, qa_time_taken = 0, qa_answers = Map.empty,
               qa_completed_at = Some 5, qa_created_at = Some 5\<rparr>]\<rparr>)) ''quiz1'' = [(Some 1, Some 40)]"
proof -
  let ?d = "\<lparr>profiles = [\<lparr>p_id = ''u1'', p_email = ''u1@example.org'', p_full_name = ''Ann''\<rparr>],
            quizzes = [\<lparr>qz_id = ''quiz1'', qz_title = ''Sums'', qz_is_published = Some True, qz_created_by = ''u1'',
               qz_updated_at = Some 0, qz_total_questions = Some 4, qz_total_attempts = Some 0,
               qz_average_score = Some 0\<rparr>],
            questions_table = [],
            quiz_attempts = [\<lparr>qa_id = ''a0'', qa_quiz_id = ''quiz1'', qa_user_id = ''u1'', qa_score = 0,
               qa_total_questions = 4, qa_time_taken = 0, qa_answers = Map.empty,
               qa_completed_at = Some 5, qa_created_at = Some 5\<rparr>]\<rparr>"
  let ?steps = "[(10, \<lparr>qa_id = ''a1'', qa_quiz_id = ''quiz1'', qa_user_id = ''u1'', qa_score = 80,
               qa_total_questions = 4, qa_time_taken = 0, qa_answers = Map.empty,
               qa_completed_at = Some 10, qa_created_at = Some 10\<rparr>)]"
  have avg: "AVG [0, 80] = Some 40" by code_simp
  have h1: "\<forall>st\<in>set ?steps. qa_quiz_id (snd st) = ''quiz1''" by simp
  have h2: "quiz_stats ?d ''quiz1'' = [(Some 0, Some 0)]" by (simp add: quiz_stats_def)
  have h3: "0 + int (length ?steps) \<le> INT_MAX" by (simp add: INT_MAX_def)
  have h4: "?steps \<noteq> []" by simp
  from stats_after_attempts_general [OF h1 h2 h3 h4] h2 show ?thesis
    by (simp add: scores_of_def avg)
qed

section \<open>Properties of the leaderboard\<close>

lemma length_filter_sort_key:
  "length (filter P (sort_key f xs)) = length (filter P xs)"
  by (simp add: filter_sort)

lemma length_filter_disj:
  assumes "\<And>x. x \<in> set xs \<Longrightarrow> \<not> (P x \<and> Q x)"
  shows "length (filter (\<lambda>x. P x \<or> Q x) xs) = length (filter P xs) + length (filter Q xs)"
  using assms by (induction xs) auto

lemma leaderboard_rank_rows:
  fixes joined :: "(user_scores_row \<times> profiles_row) list"
  defines "rows \<equiv> map (\<lambda>(us, p).
                   \<lparr>user_id = us_user_id us,
                    full_name = p_full_name p,
                    total_score = us_total_score us,
                    quiz_count = us_quiz_count us,
                    average_score = us_average_score us,
                    rank = RANK_desc (map (\<lambda>(us, p). us_total_score us) joined) (us_total_score us)\<rparr>)
              joined"
  assumes "e \<in> set rows"
  shows "rank e = 1 + int (length (filter (\<lambda>e'. total_score e < total_score e') rows))"
proof -
  have w: "map (\<lambda>(us, p). us_total_score us) joined = map total_score rows"
    by (simp add: rows_def case_prod_unfold comp_def)
  from assms(2) obtain us p where "(us, p) \<in> set joined"
    and "e = \<lparr>user_id = us_user_id us,
                    full_name = p_full_name p,
                    total_score = us_total_score us,
                    quiz_count = us_quiz_count us,
                    average_score = us_average_score us,
                    rank = RANK_desc (map (\<lambda>(us, p). us_total_score us) joined) (us_total_score us)\<rparr>"
    unfolding rows_def by auto
  then have "rank e = RANK_desc (map total_score rows) (total_score e)"
    by (simp add: w)
  then show ?thesis
    by (simp add: RANK_desc_def comp_def)
qed

lemma leaderboard_rank:
  assumes "e \<in> set (get_user_leaderboard tf now d)"
  shows "rank e = 1 + int (length (filter (\<lambda>e'. total_score e < total_score e')
                                     (get_user_leaderboard tf now d)))"
  using assms leaderboard_rank_rows
  unfolding get_user_leaderboard_def Let_def
  by (simp add: length_filter_sort_key)

lemma leaderboard_sorted: "sorted (map rank (get_user_leaderboard tf now d))"
  by (simp add: get_user_leaderboard_def Let_def)

text \<open>
  C1, as the code has it. The rank is that of \<^verbatim>\<open>RANK()\<close>: one more than the number
  of entries with a greater \<open>total_score\<close>. The entries come in ascending rank; entries
  of equal \<open>total_score\<close> have equal rank; and the entries of the next lower
  \<open>total_score\<close> have the rank of the entries above them plus the number of those
  entries (the ties), not plus one.
\<close>

theorem leaderboard_rank_is_competition_rank:
  "(\<forall>e\<in>set (get_user_leaderboard tf now d).
      rank e = 1 + int (length (filter (\<lambda>x. total_score e < total_score x)
                                  (get_user_leaderboard tf now d))))
   \<and> sorted (map rank (get_user_leaderboard tf now d))
   \<and> (\<forall>e\<in>set (get_user_leaderboard tf now d). \<forall>e'\<in>set (get_user_leaderboard tf now d).
        total_score e = total_score e' \<longrightarrow> rank e = rank e')
   \<and> (\<forall>e\<in>set (get_user_leaderboard tf now d). \<forall>e'\<in>set (get_user_leaderboard tf now d).
        total_score e' < total_score e
        \<and> (\<forall>x\<in>set (get_user_leaderboard tf now d).
              \<not> (total_score e' < total_score x \<and> total_score x < total_score e))
        \<longrightarrow> rank e' = rank e + int (length (filter (\<lambda>x. total_score x = total_score e)
                                              (get_user_leaderboard tf now d))))"
proof -
  let ?L = "get_user_leaderboard tf now d"
  have r: "rank e = 1 + int (length (filter (\<lambda>x. total_score e < total_score x) ?L))"
    if "e \<in> set ?L" for e
    using that by (rule leaderboard_rank)
  have eq: "rank e = rank e'"
    if "e \<in> set ?L" "e' \<in> set ?L" "total_score e = total_score e'" for e e'
    using r [OF that(1)] r [OF that(2)] that(3) by simp
  have next_rank: "rank e' = rank e + int (length (filter (\<lambda>x. total_score x = total_score e) ?L))"
    if "e \<in> set ?L" "e' \<in> set ?L" "total_score e' < total_score e"
      and gap: "\<forall>x\<in>set ?L. \<not> (total_score e' < total_score x \<and> total_score x < total_score e)"
    for e e'
  proof -
    have "filter (\<lambda>x. total_score e' < total_score x) ?L =
          filter (\<lambda>x. total_score e < total_score x \<or> total_score x = total_score e) ?L"
      using gap that(3) by (intro filter_cong) auto
    then have "length (filter (\<lambda>x. total_score e' < total_score x) ?L) =
          length (filter (\<lambda>x. total_score e < total_score x) ?L)
          + length (filter (\<lambda>x. total_score x = total_score e) ?L)"
      by (simp add: length_filter_disj)
    with r [OF that(1)] r [OF that(2)] show ?thesis by simp
  qed
  show ?thesis
    using r eq next_rank leaderboard_sorted by blast
qed

text \<open>
  Three users with the totals 150, 150 and 90 (two attempts each for the first two): the
  ranks are 1, 1 and 3.
\<close>

theorem leaderboard_rank_is_competition_rank_witness:
  "map total_score (get_user_leaderboard ''all'' 100
     \<lparr>profiles = [\<lparr>p_id = ''u1'', p_email = ''u1@example.org'', p_full_name = ''Ann''\<rparr>,
                         \<lparr>p_id = ''u2'', p_email = ''u2@example.org'', p_full_name = ''Bob''\<rparr>,
                         \<lparr>p_id = ''u3'', p_email = ''u3@example.org'', p_full_name = ''Cy''\<rparr>],
             quizzes = [\<lparr>qz_id = ''quiz1'', qz_title = ''Sums'', qz_is_published = Some True, qz_created_by = ''u1'',
                qz_updated_at = Some 0, qz_total_questions = Some 4, qz_total_attempts = Some 0,
                qz_average_score = Some 0\<rparr>],
             questions_table = [],
             quiz_attempts = [\<lparr>qa_id = ''a1'', qa_quiz_id = ''quiz1'', qa_user_id = ''u1'', qa_score = 90,
                qa_total_questions = 4, qa_time_taken = 0, qa_answers = Map.empty,
                qa_completed_at = Some 10, qa_created_at = Some 10\<rparr>,
                              \<lparr>qa_id = ''a2'', qa_quiz_id = ''quiz1'', qa_user_id = ''u2'', qa_score = 75,
                qa_total_questions = 4, qa_time_taken = 0, qa_answers = Map.empty,
                qa_completed_at = Some 10, qa_created_at = Some 10\<rparr>,
                              \<lparr>qa_id = ''a3'', qa_quiz_id = ''quiz1'', qa_user_id = ''u3'', qa_score = 90,
                qa_total_questions = 4, qa_time_taken = 0, qa_answers = Map.empty,
                qa_completed_at = Some 10, qa_created_at = Some 10\<rparr>,
                              \<lparr>qa_id = ''a4'', qa_quiz_id = ''quiz1'', qa_user_id = ''u2'', qa_score = 75,
                qa_total_questions = 4, qa_time_taken = 0, qa_answers = Map.empty,
                qa_completed_at = Some 10, qa_created_at = Some 10\<rparr>,
                              \<lparr>qa_id = ''a5'', qa_quiz_id = ''quiz1'', qa_user_id = ''u1'', qa_score = 60,
                qa_total_questions = 4, qa_time_taken = 0, qa_answers = Map.empty,
                qa_completed_at = Some 10, qa_created_at = Some 10\<rparr>]\<rparr>) = [150, 150, 90]
   \<and> map rank (get_user_leaderboard ''all'' 100
     \<lparr>profiles = [\<lparr>p_id = ''u1'', p_email = ''u1@example.org'', p_full_name = ''Ann''\<rparr>,
                         \<lparr>p_id = ''u2'', p_email = ''u2@example.org'', p_full_name = ''Bob''\<rparr>,
                         \<lparr>p_id = ''u3'', p_email = ''u3@example.org'', p_full_name = ''Cy''\<rparr>],
             quizzes = [\<lparr>qz_id = ''quiz1'', qz_title = ''Sums'', qz_is_published = Some True, qz_created_by = ''u1'',
                qz_updated_at = Some 0, qz_total_questions = Some 4, qz_total_attempts = Some 0,
                qz_average_score = Some 0\<rparr>],
             questions_table = [],
             quiz_attempts = [\<lparr>qa_id = ''a1'', qa_quiz_id = ''quiz1'', qa_user_id = ''u1'', qa_score = 90,
                qa_total_questions = 4, qa_time_taken = 0, qa_answers = Map.empty,
                qa_completed_at = Some 10, qa_created_at = Some 10\<rparr>,
                              \<lparr>qa_id = ''a2'', qa_quiz_id = ''quiz1'', qa_user_id = ''u2'', qa_score = 75,
                qa_total_questions = 4, qa_time_taken = 0, qa_answers = Map.empty,
                qa_completed_at = Some 10, qa_created_at = Some 10\<rparr>,
                              \<lparr>qa_id = ''a3'', qa_quiz_id = ''quiz1'', qa_user_id = ''u3'', qa_score = 90,
                qa_total_questions = 4, qa_time_taken = 0, qa_answers = Map.empty,
                qa_completed_at = Some 10, qa_created_at = Some 10\<rparr>,
                              \<lparr>qa_id = ''a4'', qa_quiz_id = ''quiz1'', qa_user_id = ''u2'', qa_score = 75,
                qa_total_questions = 4, qa_time_taken = 0, qa_answers = Map.empty,
                qa_completed_at = Some 10, qa_created_at = Some 10\<rparr>,
                              \<lparr>qa_id = ''a5'', qa_quiz_id = ''quiz1'', qa_user_id = ''u1'', qa_score = 60,
                qa_total_questions = 4, qa_time_taken = 0, qa_answers = Map.empty,
                qa_completed_at = Some 10, qa_created_at = Some 10\<rparr>]\<rparr>) = [1, 1, 3]"
proof -
  let ?d = "\<lparr>profiles = [\<lparr>p_id = ''u1'', p_email = ''u1@example.org'', p_full_name = ''Ann''\<rparr>,
                         \<lparr>p_id = ''u2'', p_email = ''u2@example.org'', p_full_name = ''Bob''\<rparr>,
                         \<lparr>p_id = ''u3'', p_email = ''u3@example.org'', p_full_name = ''Cy''\<rparr>],
             quizzes = [\<lparr>qz_id = ''quiz1'', qz_title = ''Sums'', qz_is_published = Some True, qz_created_by = ''u1'',
                qz_updated_at = Some 0, qz_total_questions = Some 4, qz_total_attempts = Some 0,
                qz_average_score = Some 0\<rparr>],
             questions_table = [],
             quiz_attempts = [\<lparr>qa_id = ''a1'', qa_quiz_id = ''quiz1'', qa_user_id = ''u1'', qa_score = 90,
                qa_total_questions = 4, qa_time_taken = 0, qa_answers = Map.empty,
                qa_completed_at = Some 10, qa_created_at = Some 10\<rparr>,
                              \<lparr>qa_id = ''a2'', qa_quiz_id = ''quiz1'', qa_user_id = ''u2'', qa_score = 75,
                qa_total_questions = 4, qa_time_taken = 0, qa_answers = Map.empty,
                qa_completed_at = Some 10, qa_created_at = Some 10\<rparr>,
                              \<lparr>qa_id = ''a3'', qa_quiz_id = ''quiz1'', qa_user_id = ''u3'', qa_score = 90,
                qa_total_questions = 4, qa_time_taken = 0, qa_answers = Map.empty,
                qa_completed_at = Some 10, qa_created_at = Some 10\<rparr>,
                              \<lparr>qa_id = ''a4'', qa_quiz_id = ''quiz1'', qa_user_id = ''u2'', qa_score = 75,
                qa_total_questions = 4, qa_time_taken = 0, qa_answers = Map.empty,
                qa_completed_at = Some 10, qa_created_at = Some 10\<rparr>,
                              \<lparr>qa_id = ''a5'', qa_quiz_id = ''quiz1'', qa_user_id = ''u1'', qa_score = 60,
                qa_total_questions = 4, qa_time_taken = 0, qa_answers = Map.empty,
                qa_completed_at = Some 10, qa_created_at = Some 10\<rparr>]\<rparr>"
  have L: "get_user_leaderboard ''all'' 100 ?d =
      [\<lparr>user_id = ''u2'', full_name = ''Bob'', total_score = 150, quiz_count = 2,
        average_score = Some 75, rank = 1\<rparr>,
       \<lparr>user_id = ''u1'', full_name = ''Ann'', total_score = 150, quiz_count = 2,
        average_score = Some 75, rank = 1\<rparr>,
       \<lparr>user_id = ''u3'', full_name = ''Cy'', total_score = 90, quiz_count = 1,
        average_score = Some 90, rank = 3\<rparr>]"
    by code_simp
  from leaderboard_rank_is_competition_rank [of "''all''" 100 ?d]
  show ?thesis unfolding L by simp
qed

text \<open>
  C1, as stated, fails: four users with the totals 300, 300, 200 and 100 (attempts of
  score 100 each) get the ranks 1, 1, 3, 4, not 1, 1, 2, 3.
\<close>

theorem leaderboard_dense_rank_counterexample:
  "map total_score (get_user_leaderboard ''all'' 100
     \<lparr>profiles = [\<lparr>p_id = ''u1'', p_email = ''u1@example.org'', p_full_name = ''Ann''\<rparr>,
                         \<lparr>p_id = ''u2'', p_email = ''u2@example.org'', p_full_name = ''Bob''\<rparr>,
                         \<lparr>p_id = ''u3'', p_email = ''u3@example.org'', p_full_name = ''Cy''\<rparr>,
                         \<lparr>p_id = ''u4'', p_email = ''u4@example.org'', p_full_name = ''Dee''\<rparr>],
             quizzes = [\<lparr>qz_id = ''quiz1'', qz_title = ''Sums'', qz_is_published = Some True, qz_created_by = ''u1'',
                qz_updated_at = Some 0, qz_total_questions = Some 4, qz_total_attempts = Some 0,
                qz_average_score = Some 0\<rparr>],
             questions_table = [],
             quiz_attempts = [\<lparr>qa_id = ''a1'', qa_quiz_id = ''quiz1'', qa_user_id = ''u1'', qa_score = 100,
                qa_total_questions = 4, qa_time_taken = 0, qa_answers = Map.empty,
                qa_completed_at = Some 10, qa_created_at = Some 10\<rparr>,
                              \<lparr>qa_id = ''a2'', qa_quiz_id = ''quiz1'', qa_user_id = ''u2'', qa_score = 100,
                qa_total_questions = 4, qa_time_taken = 0, qa_answers = Map.empty,
                qa_completed_at = Some 10, qa_created_at = Some 10\<rparr>,
                              \<lparr>qa_id = ''a3'', qa_quiz_id = ''quiz1'', qa_user_id = ''u1'', qa_score = 100,
                qa_total_questions = 4, qa_time_taken = 0, qa_answers = Map.empty,
                qa_completed_at = Some 10, qa_created_at = Some 10\<rparr>,
                              \<lparr>qa_id = ''a4'', qa_quiz_id = ''quiz1'', qa_user_id = ''u3'', qa_score = 100,
                qa_total_questions = 4, qa_time_taken = 0, qa_answers = Map.empty,
                qa_completed_at = Some 10, qa_created_at = Some 10\<rparr>,
                              \<lparr>qa_id = ''a5'', qa_quiz_id = ''quiz1'', qa_user_id = ''u2'', qa_score = 100,
                qa_total_questions = 4, qa_time_taken = 0, qa_answers = Map.empty,
                qa_completed_at = Some 10, qa_created_at = Some 10\<rparr>,
                              \<lparr>qa_id = ''a6'', qa_quiz_id = ''quiz1'', qa_user_id = ''u4'', qa_score = 100,
                qa_total_questions = 4, qa_time_taken = 0, qa_answers = Map.empty,
                qa_completed_at = Some 10, qa_created_at = Some 10\<rparr>,
                              \<lparr>qa_id = ''a7'', qa_quiz_id = ''quiz1'', qa_user_id = ''u1'', qa_score = 100,
                qa_total_questions = 4, qa_time_taken = 0, qa_answers = Map.empty,
                qa_completed_at = Some 10, qa_created_at = Some 10\<rparr>,
                              \<lparr>qa_id = ''a8'', qa_quiz_id = ''quiz1'', qa_user_id = ''u3'', qa_score = 100,
                qa_total_questions = 4, qa_time_taken = 0, qa_answers = Map.empty,
                qa_completed_at = Some 10, qa_created_at = Some 10\<rparr>,
                              \<lparr>qa_id = ''a9'', qa_quiz_id = ''quiz1'', qa_user_id = ''u2'', qa_score = 100,
                qa_total_questions = 4, qa_time_taken = 0, qa_answers = Map.empty,
                qa_completed_at = Some 10, qa_created_at = Some 10\<rparr>]\<rparr>) = [300, 300, 200, 100]
   \<and> map rank (get_user_leaderboard ''all'' 100
     \<lparr>profiles = [\<lparr>p_id = ''u1'', p_email = ''u1@example.org'', p_full_name = ''Ann''\<rparr>,
                         \<lparr>p_id = ''u2'', p_email = ''u2@example.org'', p_full_name = ''Bob''\<rparr>,
                         \<lparr>p_id = ''u3'', p_email = ''u3@example.org'', p_full_name = ''Cy''\<rparr>,
                         \<lparr>p_id = ''u4'', p_email = ''u4@example.org'', p_full_name = ''Dee''\<rparr>],
             quizzes = [\<lparr>qz_id = ''quiz1'', qz_title = ''Sums'', qz_is_published = Some True, qz_created_by = ''u1'',
                qz_updated_at = Some 0, qz_total_questions = Some 4, qz_total_attempts = Some 0,
                qz_average_score = Some 0\<rparr>],
             questions_table = [],
             quiz_attempts = [\<lparr>qa_id = ''a1'', qa_quiz_id = ''quiz1'', qa_user_id = ''u1'', qa_score = 100,
                qa_total_questions = 4, qa_time_taken = 0, qa_answers = Map.empty,
                qa_completed_at = Some 10, qa_created_at = Some 10\<rparr>,
                              \<lparr>qa_id = ''a2'', qa_quiz_id = ''quiz1'', qa_user_id = ''u2'', qa_score = 100,
                qa_total_questions = 4, qa_time_taken = 0, qa_answers = Map.empty,
                qa_completed_at = Some 10, qa_created_at = Some 10\<rparr>,
                              \<lparr>qa_id = ''a3'', qa_quiz_id = ''quiz1'', qa_user_id = ''u1'', qa_score = 100,
                qa_total_questions = 4, qa_time_taken = 0, qa_answers = Map.empty,
                qa_completed_at = Some 10, qa_created_at = Some 10\<rparr>,
                              \<lparr>qa_id = ''a4'', qa_quiz_id = ''quiz1'', qa_user_id = ''u3'', qa_score = 100,
                qa_total_questions = 4, qa_time_taken = 0, qa_answers = Map.empty,
                qa_completed_at = Some 10, qa_created_at = Some 10\<rparr>,
                              \<lparr>qa_id = ''a5'', qa_quiz_id = ''quiz1'', qa_user_id = ''u2'', qa_score = 100,
                qa_total_questions = 4, qa_time_taken = 0, qa_answers = Map.empty,
                qa_completed_at = Some 10, qa_created_at = Some 10\<rparr>,
                              \<lparr>qa_id = ''a6'', qa_quiz_id = ''quiz1'', qa_user_id = ''u4'', qa_score = 100,
                qa_total_questions = 4, qa_time_taken = 0, qa_answers = Map.empty,
                qa_completed_at = Some 10, qa_created_at = Some 10\<rparr>,
                              \<lparr>qa_id = ''a7'', qa_quiz_id = ''quiz1'', qa_user_id = ''u1'', qa_score = 100,
                qa_total_questions = 4, qa_time_taken = 0, qa_answers = Map.empty,
                qa_completed_at = Some 10, qa_created_at = Some 10\<rparr>,
                              \<lparr>qa_id = ''a8'', qa_quiz_id = ''quiz1'', qa_user_id = ''u3'', qa_score = 100,
                qa_total_questions = 4, qa_time_taken = 0, qa_answers = Map.empty,
                qa_completed_at = Some 10, qa_created_at = Some 10\<rparr>,
                              \<lparr>qa_id = ''a9'', qa_quiz_id = ''quiz1'', qa_user_id = ''u2'', qa_score = 100,
                qa_total_questions = 4, qa_time_taken = 0, qa_answers = Map.empty,
                qa_completed_at = Some 10, qa_created_at = Some 10\<rparr>]\<rparr>) = [1, 1, 3, 4]"
  by code_simp

subsection \<open>The time filter\<close>


















lemma user_scores_set:
  "us \<in> set (user_scores tf now qas) \<longleftrightarrow>
     (\<exists>u\<in>qa_user_id ` set (filter (in_time_filter tf now) qas).
        us = \<lparr>us_user_id = u,
              us_total_score = sum_list (map qa_score
                 (filter (\<lambda>qa. qa_user_id qa = u) (filter (in_time_filter tf now) qas))),
              us_quiz_count = int (length
                 (filter (\<lambda>qa. qa_user_id qa = u) (filter (in_time_filter tf now) qas))),
              us_average_score = AVG (map qa_score
                 (filter (\<lambda>qa. qa_user_id qa = u) (filter (in_time_filter tf now) qas)))\<rparr>)"
  by (auto simp: user_scores_def Let_def)

lemma joined_set:
  "set (concat (map (\<lambda>us. map (\<lambda>p. (us, p)) (filter (\<lambda>p. us_user_id us = p_id p) ps)) uss))
     = {(us, p). us \<in> set uss \<and> p \<in> set ps \<and> us_user_id us = p_id p}"
  by auto

lemma leaderboard_set:
  "e \<in> set (get_user_leaderboard tf now d) \<longleftrightarrow>
     (\<exists>us p. us \<in> set (user_scores tf now (quiz_attempts d)) \<and> p \<in> set (profiles d)
        \<and> us_user_id us = p_id p
        \<and> e = \<lparr>user_id = us_user_id us, full_name = p_full_name p,
                total_score = us_total_score us, quiz_count = us_quiz_count us,
                average_score = us_average_score us,
                rank = RANK_desc
                  (map (\<lambda>(us, p). us_total_score us)
                     (concat (map (\<lambda>us. map (\<lambda>p. (us, p))
                                (filter (\<lambda>p. us_user_id us = p_id p) (profiles d)))
                      (user_scores tf now (quiz_attempts d)))))
                  (us_total_score us)\<rparr>)"
  unfolding get_user_leaderboard_def Let_def set_sort set_map joined_set
  by auto









text \<open>
  Every entry of the leaderboard belongs to a user with a profile and at least one
  selected attempt, and holds the sum, the number and the \<^verbatim>\<open>AVG\<close> of the scores of
  that user's selected attempts; and every user with a profile and a selected attempt has an
  entry.
\<close>

theorem leaderboard_entries:
  "(\<forall>e\<in>set (get_user_leaderboard tf now d).
      filter (\<lambda>qa. qa_user_id qa = user_id e)
        (filter (in_time_filter tf now) (quiz_attempts d)) \<noteq> []
      \<and> total_score e = sum_list (map qa_score
           (filter (\<lambda>qa. qa_user_id qa = user_id e)
              (filter (in_time_filter tf now) (quiz_attempts d))))
      \<and> quiz_count e = int (length
           (filter (\<lambda>qa. qa_user_id qa = user_id e)
              (filter (in_time_filter tf now) (quiz_attempts d))))
      \<and> average_score e = AVG (map qa_score
           (filter (\<lambda>qa. qa_user_id qa = user_id e)
              (filter (in_time_filter tf now) (quiz_attempts d))))
      \<and> (\<exists>p\<in>set (profiles d). p_id p = user_id e \<and> p_full_name p = full_name e))
   \<and> (\<forall>qa\<in>set (quiz_attempts d). \<forall>p\<in>set (profiles d).
        in_time_filter tf now qa \<and> qa_user_id qa = p_id p \<longrightarrow>
        (\<exists>e\<in>set (get_user_leaderboard tf now d).
           user_id e = qa_user_id qa \<and> full_name e = p_full_name p))"
proof (intro conjI ballI impI)
  fix e assume "e \<in> set (get_user_leaderboard tf now d)"
  then obtain us p where us: "us \<in> set (user_scores tf now (quiz_attempts d))"
    and p: "p \<in> set (profiles d)" "us_user_id us = p_id p"
    and e: "user_id e = us_user_id us" "full_name e = p_full_name p"
      "total_score e = us_total_score us" "quiz_count e = us_quiz_count us"
      "average_score e = us_average_score us"
    unfolding leaderboard_set by auto
  from us obtain u where u: "u \<in> qa_user_id ` set (filter (in_time_filter tf now) (quiz_attempts d))"
    and useq: "us = \<lparr>us_user_id = u,
              us_total_score = sum_list (map qa_score
                 (filter (\<lambda>qa. qa_user_id qa = u) (filter (in_time_filter tf now) (quiz_attempts d)))),
              us_quiz_count = int (length
                 (filter (\<lambda>qa. qa_user_id qa = u) (filter (in_time_filter tf now) (quiz_attempts d)))),
              us_average_score = AVG (map qa_score
                 (filter (\<lambda>qa. qa_user_id qa = u) (filter (in_time_filter tf now) (quiz_attempts d))))\<rparr>"
    unfolding user_scores_set by blast
  have us': "us_user_id us = u"
      "us_total_score us = sum_list (map qa_score
         (filter (\<lambda>qa. qa_user_id qa = u) (filter (in_time_filter tf now) (quiz_attempts d))))"
      "us_quiz_count us = int (length
         (filter (\<lambda>qa. qa_user_id qa = u) (filter (in_time_filter tf now) (quiz_attempts d))))"
      "us_average_score us = AVG (map qa_score
         (filter (\<lambda>qa. qa_user_id qa = u) (filter (in_time_filter tf now) (quiz_attempts d))))"
    by (simp_all add: useq)
  from u have ne: "filter (\<lambda>qa. qa_user_id qa = u)
        (filter (in_time_filter tf now) (quiz_attempts d)) \<noteq> []"
    by (auto simp: filter_empty_conv)
  from e us' ne p
  show "filter (\<lambda>qa. qa_user_id qa = user_id e)
        (filter (in_time_filter tf now) (quiz_attempts d)) \<noteq> []"
    and "total_score e = sum_list (map qa_score
           (filter (\<lambda>qa. qa_user_id qa = user_id e)
              (filter (in_time_filter tf now) (quiz_attempts d))))"
    and "quiz_count e = int (length
           (filter (\<lambda>qa. qa_user_id qa = user_id e)
              (filter (in_time_filter tf now) (quiz_attempts d))))"
    and "average_score e = AVG (map qa_score
           (filter (\<lambda>qa. qa_user_id qa = user_id e)
              (filter (in_time_filter tf now) (quiz_attempts d))))"
    and "\<exists>p\<in>set (profiles d). p_id p = user_id e \<and> p_full_name p = full_name e"
    by auto
next
  fix qa p
  assume qa: "qa \<in> set (quiz_attempts d)" and p: "p \<in> set (profiles d)"
    and h: "in_time_filter tf now qa \<and> qa_user_id qa = p_id p"
  let ?g = "filter (\<lambda>x. qa_user_id x = qa_user_id qa) (filter (in_time_filter tf now) (quiz_attempts d))"
  let ?us = "\<lparr>us_user_id = qa_user_id qa,
              us_total_score = sum_list (map qa_score ?g),
              us_quiz_count = int (length ?g),
              us_average_score = AVG (map qa_score ?g)\<rparr>"
  let ?w = "map (\<lambda>(us, p). us_total_score us)
                (concat (map (\<lambda>us. map (\<lambda>p. (us, p))
                                (filter (\<lambda>p. us_user_id us = p_id p) (profiles d)))
                      (user_scores tf now (quiz_attempts d))))"
  let ?e = "\<lparr>user_id = qa_user_id qa, full_name = p_full_name p,
             total_score = us_total_score ?us, quiz_count = us_quiz_count ?us,
             average_score = us_average_score ?us,
             rank = RANK_desc ?w (us_total_score ?us)\<rparr>"
  from qa h have "qa_user_id qa \<in> qa_user_id ` set (filter (in_time_filter tf now) (quiz_attempts d))"
    by (intro imageI) simp
  then have "?us \<in> set (user_scores tf now (quiz_attempts d))"
    unfolding user_scores_set by blast
  with p h have "?e \<in> set (get_user_leaderboard tf now d)"
    unfolding leaderboard_set by (intro exI [of _ ?us] exI [of _ p]) simp
  then show "\<exists>e\<in>set (get_user_leaderboard tf now d).
           user_id e = qa_user_id qa \<and> full_name e = p_full_name p"
    by (intro bexI [of _ ?e]) simp_all
qed

theorem leaderboard_entries_witness:
  "map (\<lambda>e. (user_id e, total_score e, quiz_count e, average_score e))
     (get_user_leaderboard ''all'' 100
       \<lparr>profiles = [\<lparr>p_id = ''u1'', p_email = ''u1@example.org'', p_full_name = ''Ann''\<rparr>,
                           \<lparr>p_id = ''u2'', p_email = ''u2@example.org'', p_full_name = ''Bob''\<rparr>,
                           \<lparr>p_id = ''u3'', p_email = ''u3@example.org'', p_full_name = ''Cy''\<rparr>],
               quizzes = [\<lparr>qz_id = ''quiz1'', qz_title = ''Sums'', qz_is_published = Some True, qz_created_by = ''u1'',
                  qz_updated_at = Some 0, qz_total_questions = Some 4, qz_total_attempts = Some 0,
                  qz_average_score = Some 0\<rparr>],
               questions_table = [],
               quiz_attempts = [\<lparr>qa_id = ''a1'', qa_quiz_id = ''quiz1'', qa_user_id = ''u1'', qa_score = 90,
                  qa_total_questions = 4, qa_time_taken = 0, qa_answers = Map.empty,
                  qa_completed_at = Some 10, qa_created_at = Some 10\<rparr>,
                                \<lparr>qa_id = ''a2'', qa_quiz_id = ''quiz1'', qa_user_id = ''u2'', qa_score = 75,
                  qa_total_questions = 4, qa_time_taken = 0, qa_answers = Map.empty,
                  qa_completed_at = Some 10, qa_created_at = Some 10\<rparr>,
                                \<lparr>qa_id = ''a3'', qa_quiz_id = ''quiz1'', qa_user_id = ''u3'', qa_score = 90,
                  qa_total_questions = 4, qa_time_taken = 0, qa_answers = Map.empty,
                  qa_completed_at = Some 10, qa_created_at = Some 10\<rparr>,
                                \<lparr>qa_id = ''a4'', qa_quiz_id = ''quiz1'', qa_user_id = ''u2'', qa_score = 75,
                  qa_total_questions = 4, qa_time_taken = 0, qa_answers = Map.empty,
                  qa_completed_at = Some 10, qa_created_at = Some 10\<rparr>,
                                \<lparr>qa_id = ''a5'', qa_quiz_id = ''quiz1'', qa_user_id = ''u1'', qa_score = 60,
                  qa_total_questions = 4, qa_time_taken = 0, qa_answers = Map.empty,
                  qa_completed_at = Some 10, qa_created_at = Some 10\<rparr>]\<rparr>)
   = [(''u2'', 150, 2, Some 75), (''u1'', 150, 2, Some 75), (''u3'', 90, 1, Some 90)]"
proof -
  let ?d = "\<lparr>profiles = [\<lparr>p_id = ''u1'', p_email = ''u1@example.org'', p_full_name = ''Ann''\<rparr>,
                           \<lparr>p_id = ''u2'', p_email = ''u2@example.org'', p_full_name = ''Bob''\<rparr>,
                           \<lparr>p_id = ''u3'', p_email = ''u3@example.org'', p_full_name = ''Cy''\<rparr>],
               quizzes = [\<lparr>qz_id = ''quiz1'', qz_title = ''Sums'', qz_is_published = Some True, qz_created_by = ''u1'',
                  qz_updated_at = Some 0, qz_total_questions = Some 4, qz_total_attempts = Some 0,
                  qz_average_score = Some 0\<rparr>],
               questions_table = [],
               quiz_attempts = [\<lparr>qa_id = ''a1'', qa_quiz_id = ''quiz1'', qa_user_id = ''u1'', qa_score = 90,
                  qa_total_questions = 4, qa_time_taken = 0, qa_answers = Map.empty,
                  qa_completed_at = Some 10, qa_created_at = Some 10\<rparr>,
                                \<lparr>qa_id = ''a2'', qa_quiz_id = ''quiz1'', qa_user_id = ''u2'', qa_score = 75,
                  qa_total_questions = 4, qa_time_taken = 0, qa_answers = Map.empty,
                  qa_completed_at = Some 10, qa_created_at = Some 10\<rparr>,
                                \<lparr>qa_id = ''a3'', qa_quiz_id = ''quiz1'', qa_user_id = ''u3'', qa_score = 90,
                  qa_total_questions = 4, qa_time_taken = 0, qa_answers = Map.empty,
                  qa_completed_at = Some 10, qa_created_at = Some 10\<rparr>,
                                \<lparr>qa_id = ''a4'', qa_quiz_id = ''quiz1'', qa_user_id = ''u2'', qa_score = 75,
                  qa_total_questions = 4, qa_time_taken = 0, qa_answers = Map.empty,
                  qa_completed_at = Some 10, qa_created_at = Some 10\<rparr>,
                                \<lparr>qa_id = ''a5'', qa_quiz_id = ''quiz1'', qa_user_id = ''u1'', qa_score = 60,
                  qa_total_questions = 4, qa_time_taken = 0, qa_answers = Map.empty,
                  qa_completed_at = Some 10, qa_created_at = Some 10\<rparr>]\<rparr>"
  have L: "get_user_leaderboard ''all'' 100 ?d =
      [\<lparr>user_id = ''u2'', full_name = ''Bob'', total_score = 150, quiz_count = 2,
        average_score = Some 75, rank = 1\<rparr>,
       \<lparr>user_id = ''u1'', full_name = ''Ann'', total_score = 150, quiz_count = 2,
        average_score = Some 75, rank = 1\<rparr>,
       \<lparr>user_id = ''u3'', full_name = ''Cy'', total_score = 90, quiz_count = 1,
        average_score = Some 90, rank = 3\<rparr>]"
    by code_simp
  from leaderboard_entries [of "''all''" 100 ?d]
  show ?thesis unfolding L by simp
qed

section \<open>Properties of recording and reading back\<close>

lemma json_integer_Some:
  "json_integer v = Inr (Some k) \<Longrightarrow> v = Number (of_int k)"
  by (cases v) (auto split: if_splits)

lemma insert_quiz_attempt_Inr:
  assumes "insert_quiz_attempt rq v d = (Inr row, d1)"
  shows "d1 = d\<lparr>quiz_attempts := quiz_attempts d @ [row]\<rparr>
         \<and> qa_id row = fresh_uuid rq
         \<and> fresh_uuid rq \<notin> set (map qa_id (quiz_attempts d))
         \<and> ins_score v = Number (of_int (qa_score row))
         \<and> qa_quiz_id row = ins_quiz_id v
         \<and> qa_user_id row = ins_user_id v
         \<and> qa_total_questions row = ins_total_questions v
         \<and> qa_answers row = ins_answers v
         \<and> auth_uid rq = Some (ins_user_id v)"
  using assms
  by (auto simp: insert_quiz_attempt_def Let_def json_integer_Some
      split: option.splits sum.splits if_splits)

lemma insert_quiz_attempt_Inl:
  "insert_quiz_attempt rq v d = (Inl e, d1) \<Longrightarrow> d1 = d"
  by (auto simp: insert_quiz_attempt_def Let_def split: option.splits sum.splits if_splits)

lemma rpc_update_quiz_stats_attempts:
  "quiz_attempts (snd (rpc_update_quiz_stats rq qid s d)) = quiz_attempts d"
  by (simp add: rpc_update_quiz_stats_def update_quiz_stats_Inr(2)
      split: option.splits sum.splits)

lemma rpc_update_quiz_stats_failed:
  "fst (rpc_update_quiz_stats rq qid s d) = Some e \<Longrightarrow> snd (rpc_update_quiz_stats rq qid s d) = d"
  by (simp add: rpc_update_quiz_stats_def split: option.splits sum.splits)

text \<open>
  C6. When the insertion of the attempt has succeeded and the statistics request then
  fails, with whatever error (of the request itself or of the function in the database,
  as \<open>integer out of range\<close>), \<open>handleSubmitQuiz\<close> ends as a success: the database is the one before the
  submission with the attempt's row added (nothing is taken back, the statistics are as
  they were), the failure is a warning on the console, the success toast is shown and the
  page goes to the results of the attempt.
\<close>

theorem aggregation_failure_keeps_attempt:
  assumes "st_user st = Some uid" and "st_quiz st = Some q"
    and "insert_quiz_attempt rq1 (attempt_values uid q st) d = (Inr attempt, d1)"
    and "fst (rpc_update_quiz_stats rq2 (quiz_id q)
               (calculateScore (st_questions st) (st_answers st)) d1) = Some e"
  shows "handleSubmitQuiz rq1 rq2 st (u, d) =
           (u\<lparr>toasts := toasts u @ [Toast_success ''Quiz submitted successfully!''],
              console := console u @ [Console_warn ''Failed to update quiz stats:'' e],
              navigated := navigated u @ [''/quiz/'' @ quiz_id q @ ''/results/'' @ qa_id attempt],
              submitting := False\<rparr>,
            d\<lparr>quiz_attempts := quiz_attempts d @ [attempt]\<rparr>)"
proof -
  let ?r = "rpc_update_quiz_stats rq2 (quiz_id q)
               (calculateScore (st_questions st) (st_answers st)) d1"
  from assms(3) have d1: "d1 = d\<lparr>quiz_attempts := quiz_attempts d @ [attempt]\<rparr>"
    by (simp add: insert_quiz_attempt_Inr)
  from assms(4) have "?r = (Some e, d1)"
    using rpc_update_quiz_stats_failed [OF assms(4)] by (cases ?r) simp
  with assms(1-3) d1 show ?thesis
    by (simp add: handleSubmitQuiz_def)
qed


text \<open>
  Ann submits the example of the specification (score 75) and the statistics request
  does not get through.
\<close>

theorem aggregation_failure_keeps_attempt_witness:
  "handleSubmitQuiz
     \<lparr>auth_uid = Some ''u1'', clock = 1000, fresh_uuid = ''a1'', transport = None\<rparr>
     \<lparr>auth_uid = Some ''u1'', clock = 1001, fresh_uuid = ''a1x'', transport = Some FetchError\<rparr>
     \<lparr>st_user = Some ''u1'', st_quiz = Some \<lparr>quiz_id = ''quiz1'', time_limit = None\<rparr>,
       st_questions =
         [\<lparr>question_id = ''q1'', question_text = [], options = [], correct_answer = 0,
            explanation = None, order_index = 0\<rparr>,
          \<lparr>question_id = ''q2'', question_text = [], options = [], correct_answer = 1,
            explanation = None, order_index = 1\<rparr>,
          \<lparr>question_id = ''q3'', question_text = [], options = [], correct_answer = 2,
            explanation = None, order_index = 2\<rparr>,
          \<lparr>question_id = ''q4'', question_text = [], options = [], correct_answer = 3,
            explanation = None, order_index = 3\<rparr>],
       st_answers = [''q1'' \<mapsto> 0, ''q2'' \<mapsto> 1, ''q3'' \<mapsto> 9, ''q4'' \<mapsto> 3],
       st_timeLeft = None\<rparr>
     (\<lparr>toasts = [], console = [], navigated = [], submitting = False\<rparr>,
      \<lparr>profiles = [\<lparr>p_id = ''u1'', p_email = ''u1@example.org'', p_full_name = ''Ann''\<rparr>,
                      \<lparr>p_id = ''u2'', p_email = ''u2@example.org'', p_full_name = ''Bob''\<rparr>],
          quizzes = [\<lparr>qz_id = ''quiz1'', qz_title = ''Sums'', qz_is_published = Some True, qz_created_by = ''u1'',
             qz_updated_at = Some 0, qz_total_questions = Some 4, qz_total_attempts = Some 0,
             qz_average_score = Some 0\<rparr>],
          questions_table = [],
          quiz_attempts = []\<rparr>)
   = (\<lparr>toasts = [Toast_success ''Quiz submitted successfully!''],
       console = [Console_warn ''Failed to update quiz stats:'' FetchError],
       navigated = [''/quiz/quiz1/results/a1''], submitting = False\<rparr>,
      \<lparr>profiles = [\<lparr>p_id = ''u1'', p_email = ''u1@example.org'', p_full_name = ''Ann''\<rparr>,
                      \<lparr>p_id = ''u2'', p_email = ''u2@example.org'', p_full_name = ''Bob''\<rparr>],
          quizzes = [\<lparr>qz_id = ''quiz1'', qz_title = ''Sums'', qz_is_published = Some True, qz_created_by = ''u1'',
             qz_updated_at = Some 0, qz_total_questions = Some 4, qz_total_attempts = Some 0,
             qz_average_score = Some 0\<rparr>],
          questions_table = [],
          quiz_attempts = [\<lparr>qa_id = ''a1'', qa_quiz_id = ''quiz1'', qa_user_id = ''u1'', qa_score = 75,
             qa_total_questions = 4, qa_time_taken = 0, qa_answers = [''q1'' \<mapsto> 0, ''q2'' \<mapsto> 1, ''q3'' \<mapsto> 9, ''q4'' \<mapsto> 3],
             qa_completed_at = Some 1000, qa_created_at = Some 1000\<rparr>]\<rparr>)"
proof -
  let ?st = "\<lparr>st_user = Some ''u1'', st_quiz = Some \<lparr>quiz_id = ''quiz1'', time_limit = None\<rparr>,
       st_questions =
         [\<lparr>question_id = ''q1'', question_text = [], options = [], correct_answer = 0,
            explanation = None, order_index = 0\<rparr>,
          \<lparr>question_id = ''q2'', question_text = [], options = [], correct_answer = 1,
            explanation = None, order_index = 1\<rparr>,
          \<lparr>question_id = ''q3'', question_text = [], options = [], correct_answer = 2,
            explanation = None, order_index = 2\<rparr>,
          \<lparr>question_id = ''q4'', question_text = [], options = [], correct_answer = 3,
            explanation = None, order_index = 3\<rparr>],
       st_answers = [''q1'' \<mapsto> 0, ''q2'' \<mapsto> 1, ''q3'' \<mapsto> 9, ''q4'' \<mapsto> 3],
       st_timeLeft = None\<rparr>"
  let ?q = "\<lparr>quiz_id = ''quiz1'', time_limit = None\<rparr>"
  let ?d = "\<lparr>profiles = [\<lparr>p_id = ''u1'', p_email = ''u1@example.org'', p_full_name = ''Ann''\<rparr>,
                      \<lparr>p_id = ''u2'', p_email = ''u2@example.org'', p_full_name = ''Bob''\<rparr>],
          quizzes = [\<lparr>qz_id = ''quiz1'', qz_title = ''Sums'', qz_is_published = Some True, qz_created_by = ''u1'',
             qz_updated_at = Some 0, qz_total_questions = Some 4, qz_total_attempts = Some 0,
             qz_average_score = Some 0\<rparr>],
          questions_table = [],
          quiz_attempts = []\<rparr>"
  let ?row = "\<lparr>qa_id = ''a1'', qa_quiz_id = ''quiz1'', qa_user_id = ''u1'', qa_score = 75,
               qa_total_questions = 4, qa_time_taken = 0, qa_answers = [''q1'' \<mapsto> 0, ''q2'' \<mapsto> 1, ''q3'' \<mapsto> 9, ''q4'' \<mapsto> 3],
               qa_completed_at = Some 1000, qa_created_at = Some 1000\<rparr>"
  let ?rq1 = "\<lparr>auth_uid = Some ''u1'', clock = 1000, fresh_uuid = ''a1'', transport = None\<rparr>"
  let ?rq2 = "\<lparr>auth_uid = Some ''u1'', clock = 1001, fresh_uuid = ''a1x'', transport = Some FetchError\<rparr>"
  have h1: "st_user ?st = Some ''u1''" and h2: "st_quiz ?st = Some ?q"
    by simp_all
  have h3: "insert_quiz_attempt ?rq1 (attempt_values ''u1'' ?q ?st) ?d =
      (Inr ?row, ?d\<lparr>quiz_attempts := quiz_attempts ?d @ [?row]\<rparr>)"
    by (simp add: insert_quiz_attempt_def attempt_values_def timeTaken_def score_3_of_4_is_75 Let_def)
  have h4: "fst (rpc_update_quiz_stats ?rq2 (quiz_id ?q)
      (calculateScore (st_questions ?st) (st_answers ?st))
      (?d\<lparr>quiz_attempts := quiz_attempts ?d @ [?row]\<rparr>)) = Some FetchError"
    by (simp add: rpc_update_quiz_stats_def)
  from aggregation_failure_keeps_attempt [OF h1 h2 h3 h4, of "\<lparr>toasts = [], console = [], navigated = [], submitting = False\<rparr>"]
  show ?thesis by simp
qed


lemma handleSubmitQuiz_cases:
  assumes "handleSubmitQuiz rq1 rq2 st (u, d) = (u', d')"
  shows "(navigated u' = navigated u \<and> quiz_attempts d' = quiz_attempts d)
         \<or> (\<exists>uid q row d1.
               st_user st = Some uid \<and> st_quiz st = Some q
               \<and> insert_quiz_attempt rq1 (attempt_values uid q st) d = (Inr row, d1)
               \<and> navigated u' = navigated u @ [''/quiz/'' @ quiz_id q @ ''/results/'' @ qa_id row]
               \<and> quiz_attempts d' = quiz_attempts d @ [row])"
proof (cases "st_user st")
  case None
  with assms show ?thesis by (auto simp: handleSubmitQuiz_def)
next
  case (Some uid)
  show ?thesis
  proof (cases "st_quiz st")
    case None
    with Some assms show ?thesis by (auto simp: handleSubmitQuiz_def)
  next
    case (Some q)
    obtain r d1 where ins: "insert_quiz_attempt rq1 (attempt_values uid q st) d = (r, d1)"
      by (cases "insert_quiz_attempt rq1 (attempt_values uid q st) d")
    show ?thesis
    proof (cases r)
      case (Inl e)
      with ins have "d1 = d" by (simp add: insert_quiz_attempt_Inl)
      with Inl ins Some \<open>st_user st = Some uid\<close> assms show ?thesis
        by (auto simp: handleSubmitQuiz_def)
    next
      case (Inr row)
      let ?r = "rpc_update_quiz_stats rq2 (quiz_id q)
               (calculateScore (st_questions st) (st_answers st)) d1"
      from ins Inr have d1: "d1 = d\<lparr>quiz_attempts := quiz_attempts d @ [row]\<rparr>"
        by (simp add: insert_quiz_attempt_Inr)
      have "quiz_attempts (snd ?r) = quiz_attempts d @ [row]"
        by (simp add: rpc_update_quiz_stats_attempts d1)
      moreover from Inr ins Some \<open>st_user st = Some uid\<close> assms
      have "d' = snd ?r"
        and "navigated u' = navigated u @ [''/quiz/'' @ quiz_id q @ ''/results/'' @ qa_id row]"
        by (auto simp: handleSubmitQuiz_def split: prod.splits)
      ultimately show ?thesis
        using Inr ins Some \<open>st_user st = Some uid\<close> by auto
    qed
  qed
qed

lemma handleSubmitQuiz_keeps_row:
  assumes "handleSubmitQuiz rq1 rq2 st (u, d) = (u', d')"
    and "filter (\<lambda>qa. qa_id qa = aid) (quiz_attempts d) = [row]"
  shows "filter (\<lambda>qa. qa_id qa = aid) (quiz_attempts d') = [row]"
proof -
  from assms(2) have "row \<in> set (filter (\<lambda>qa. qa_id qa = aid) (quiz_attempts d))" by simp
  then have mem: "aid \<in> set (map qa_id (quiz_attempts d))" by auto
  from handleSubmitQuiz_cases [OF assms(1)] show ?thesis
  proof
    assume "navigated u' = navigated u \<and> quiz_attempts d' = quiz_attempts d"
    with assms(2) show ?thesis by simp
  next
    assume "\<exists>uid q row d1.
               st_user st = Some uid \<and> st_quiz st = Some q
               \<and> insert_quiz_attempt rq1 (attempt_values uid q st) d = (Inr row, d1)
               \<and> navigated u' = navigated u @ [''/quiz/'' @ quiz_id q @ ''/results/'' @ qa_id row]
               \<and> quiz_attempts d' = quiz_attempts d @ [row]"
    then obtain uid q new d1 where
      ins: "insert_quiz_attempt rq1 (attempt_values uid q st) d = (Inr new, d1)"
      and d': "quiz_attempts d' = quiz_attempts d @ [new]"
      by blast
    from insert_quiz_attempt_Inr [OF ins] mem have "qa_id new \<noteq> aid" by auto
    with d' assms(2) show ?thesis by simp
  qed
qed

lemma submissions_keep_row:
  assumes "submissions xs (u, d) = (u', d')"
    and "filter (\<lambda>qa. qa_id qa = aid) (quiz_attempts d) = [row]"
  shows "filter (\<lambda>qa. qa_id qa = aid) (quiz_attempts d') = [row]"
  using assms
proof (induction xs arbitrary: u d)
  case Nil
  then show ?case by (simp add: submissions_def)
next
  case (Cons x xs)
  obtain rq1 rq2 st where x: "x = (rq1, rq2, st)" by (cases x)
  obtain u1 d1 where h: "handleSubmitQuiz rq1 rq2 st (u, d) = (u1, d1)"
    by (cases "handleSubmitQuiz rq1 rq2 st (u, d)")
  from Cons.prems(1) x h have "submissions xs (u1, d1) = (u', d')"
    by (simp add: submissions_def)
  moreover from h Cons.prems(2)
  have "filter (\<lambda>qa. qa_id qa = aid) (quiz_attempts d1) = [row]"
    by (rule handleSubmitQuiz_keeps_row)
  ultimately show ?case by (rule Cons.IH)
qed

lemma select_attempt_single:
  assumes "transport rq = None"
    and "filter (\<lambda>qa. qa_id qa = aid) (quiz_attempts d) = [row]"
    and "auth_uid rq = Some (qa_user_id row)"
  shows "\<exists>a. select_attempt rq aid d = Inr a \<and> attempt_id a = qa_id row
           \<and> attempt_score a = Number (of_int (qa_score row))
           \<and> attempt_total_questions a = qa_total_questions row
           \<and> attempt_answers a = qa_answers row"
proof -
  have "filter (\<lambda>qa. qa_id qa = aid \<and> can_read_attempt (auth_uid rq) d qa) (quiz_attempts d)
        = filter (can_read_attempt (auth_uid rq) d) (filter (\<lambda>qa. qa_id qa = aid) (quiz_attempts d))"
    by (simp add: conj_commute)
  also have "\<dots> = [row]"
    using assms(2,3) by (simp add: can_read_attempt_def)
  finally show ?thesis
    using assms(1) by (simp add: select_attempt_def)
qed

text \<open>
  C9. A submission that succeeds goes to the results page of the new attempt, whose id is
  the one of the inserted row. The results page of the same user, read then or after any
  number of further submissions (each with its statistics update), and when its two
  requests get through, holds an attempt with that id whose score is the score computed at
  submission, whose answers are the submitted answers and whose \<open>total_questions\<close> is the
  number of questions: the row is never changed by a later submission.
\<close>

theorem attempt_round_trip:
  assumes "handleSubmitQuiz rq1 rq2 st (u, d) = (u', d')"
    and "navigated u' \<noteq> navigated u"
    and "submissions later (u', d') = (u'', d'')"
    and "auth_uid rq3 = st_user st" and "transport rq3 = None" and "transport rq4 = None"
  shows "(\<exists>q. st_quiz st = Some q
              \<and> navigated u' = navigated u @ [''/quiz/'' @ quiz_id q @ ''/results/'' @ fresh_uuid rq1])
         \<and> (\<exists>a. rs_attempt (fst (fetchResults rq3 rq4 (fresh_uuid rq1) quizId d'' (rs, v))) = Some a
              \<and> attempt_id a = fresh_uuid rq1
              \<and> attempt_score a = calculateScore (st_questions st) (st_answers st)
              \<and> attempt_answers a = st_answers st
              \<and> attempt_total_questions a = int (length (st_questions st)))"
proof -
  from handleSubmitQuiz_cases [OF assms(1)] assms(2)
  obtain uid q row d1 where st: "st_user st = Some uid" "st_quiz st = Some q"
    and ins: "insert_quiz_attempt rq1 (attempt_values uid q st) d = (Inr row, d1)"
    and nav: "navigated u' = navigated u @ [''/quiz/'' @ quiz_id q @ ''/results/'' @ qa_id row]"
    and d': "quiz_attempts d' = quiz_attempts d @ [row]"
    by blast
  note r = insert_quiz_attempt_Inr [OF ins]
  from r have "fresh_uuid rq1 \<notin> qa_id ` set (quiz_attempts d)" by simp
  then have fresh: "\<forall>qa\<in>set (quiz_attempts d). qa_id qa \<noteq> fresh_uuid rq1" by force
  then have "filter (\<lambda>qa. qa_id qa = fresh_uuid rq1) (quiz_attempts d) = []"
    by (simp add: filter_empty_conv)
  with d' r have "filter (\<lambda>qa. qa_id qa = fresh_uuid rq1) (quiz_attempts d') = [row]"
    by simp
  with assms(3) have one: "filter (\<lambda>qa. qa_id qa = fresh_uuid rq1) (quiz_attempts d'') = [row]"
    by (rule submissions_keep_row)
  from r st assms(4) have "auth_uid rq3 = Some (qa_user_id row)"
    by (simp add: attempt_values_def)
  from select_attempt_single [OF assms(5) one this]
  obtain a where a: "select_attempt rq3 (fresh_uuid rq1) d'' = Inr a"
    and f: "attempt_id a = qa_id row" "attempt_score a = Number (of_int (qa_score row))"
      "attempt_total_questions a = qa_total_questions row" "attempt_answers a = qa_answers row"
    by blast
  from a assms(6)
  have "rs_attempt (fst (fetchResults rq3 rq4 (fresh_uuid rq1) quizId d'' (rs, v))) = Some a"
    by (simp add: fetchResults_def select_questions_def Let_def)
  with f r have "\<exists>a. rs_attempt (fst (fetchResults rq3 rq4 (fresh_uuid rq1) quizId d'' (rs, v))) = Some a
              \<and> attempt_id a = fresh_uuid rq1
              \<and> attempt_score a = calculateScore (st_questions st) (st_answers st)
              \<and> attempt_answers a = st_answers st
              \<and> attempt_total_questions a = int (length (st_questions st))"
    by (auto simp: attempt_values_def)
  moreover from st nav r
  have "\<exists>q. st_quiz st = Some q
          \<and> navigated u' = navigated u @ [''/quiz/'' @ quiz_id q @ ''/results/'' @ fresh_uuid rq1]"
    by simp
  ultimately show ?thesis by blast
qed


text \<open>
  Ann submits the example of the specification, then Bob submits the same quiz with no
  answers, then Ann's results page reads her attempt.
\<close>

theorem attempt_round_trip_witness:
  "navigated (fst (handleSubmitQuiz
       \<lparr>auth_uid = Some ''u1'', clock = 1000, fresh_uuid = ''a1'', transport = None\<rparr>
       \<lparr>auth_uid = Some ''u1'', clock = 1001, fresh_uuid = ''r1'', transport = None\<rparr>
       \<lparr>st_user = Some ''u1'', st_quiz = Some \<lparr>quiz_id = ''quiz1'', time_limit = None\<rparr>,
         st_questions =
           [\<lparr>question_id = ''q1'', question_text = [], options = [], correct_answer = 0,
              explanation = None, order_index = 0\<rparr>,
            \<lparr>question_id = ''q2'', question_text = [], options = [], correct_answer = 1,
              explanation = None, order_index = 1\<rparr>,
            \<lparr>question_id = ''q3'', question_text = [], options = [], correct_answer = 2,
              explanation = None, order_index = 2\<rparr>,
            \<lparr>question_id = ''q4'', question_text = [], options = [], correct_answer = 3,
              explanation = None, order_index = 3\<rparr>],
         st_answers = [''q1'' \<mapsto> 0, ''q2'' \<mapsto> 1, ''q3'' \<mapsto> 9, ''q4'' \<mapsto> 3],
         st_timeLeft = None\<rparr>
       (\<lparr>toasts = [], console = [], navigated = [], submitting = False\<rparr>,
        \<lparr>profiles = [\<lparr>p_id = ''u1'', p_email = ''u1@example.org'', p_full_name = ''Ann''\<rparr>,
                            \<lparr>p_id = ''u2'', p_email = ''u2@example.org'', p_full_name = ''Bob''\<rparr>],
                quizzes = [\<lparr>qz_id = ''quiz1'', qz_title = ''Sums'', qz_is_published = Some True, qz_created_by = ''u1'',
                   qz_updated_at = Some 0, qz_total_questions = Some 4, qz_total_attempts = Some 0,
                   qz_average_score = Some 0\<rparr>],
                questions_table = [],
                quiz_attempts = []\<rparr>))) = [''/quiz/quiz1/results/a1'']
   \<and> (\<exists>a. rs_attempt (fst (fetchResults
          \<lparr>auth_uid = Some ''u1'', clock = 3000, fresh_uuid = ''r3'', transport = None\<rparr>
          \<lparr>auth_uid = Some ''u1'', clock = 3001, fresh_uuid = ''r4'', transport = None\<rparr>
          ''a1'' ''quiz1''
          (snd (submissions
             [(\<lparr>auth_uid = Some ''u2'', clock = 2000, fresh_uuid = ''a2'', transport = None\<rparr>,
               \<lparr>auth_uid = Some ''u2'', clock = 2001, fresh_uuid = ''r6'', transport = None\<rparr>,
               \<lparr>st_user = Some ''u2'', st_quiz = Some \<lparr>quiz_id = ''quiz1'', time_limit = None\<rparr>,
                 st_questions =
                   [\<lparr>question_id = ''q1'', question_text = [], options = [], correct_answer = 0,
                      explanation = None, order_index = 0\<rparr>,
                    \<lparr>question_id = ''q2'', question_text = [], options = [], correct_answer = 1,
                      explanation = None, order_index = 1\<rparr>,
                    \<lparr>question_id = ''q3'', question_text = [], options = [], correct_answer = 2,
                      explanation = None, order_index = 2\<rparr>,
                    \<lparr>question_id = ''q4'', question_text = [], options = [], correct_answer = 3,
                      explanation = None, order_index = 3\<rparr>],
                 st_answers = Map.empty,
                 st_timeLeft = None\<rparr>)]
             (handleSubmitQuiz
                \<lparr>auth_uid = Some ''u1'', clock = 1000, fresh_uuid = ''a1'', transport = None\<rparr>
                \<lparr>auth_uid = Some ''u1'', clock = 1001, fresh_uuid = ''r1'', transport = None\<rparr>
                \<lparr>st_user = Some ''u1'', st_quiz = Some \<lparr>quiz_id = ''quiz1'', time_limit = None\<rparr>,
                  st_questions =
                    [\<lparr>question_id = ''q1'', question_text = [], options = [], correct_answer = 0,
                       explanation = None, order_index = 0\<rparr>,
                     \<lparr>question_id = ''q2'', question_text = [], options = [], correct_answer = 1,
                       explanation = None, order_index = 1\<rparr>,
                     \<lparr>question_id = ''q3'', question_text = [], options = [], correct_answer = 2,
                       explanation = None, order_index = 2\<rparr>,
                     \<lparr>question_id = ''q4'', question_text = [], options = [], correct_answer = 3,
                       explanation = None, order_index = 3\<rparr>],
                  st_answers = [''q1'' \<mapsto> 0, ''q2'' \<mapsto> 1, ''q3'' \<mapsto> 9, ''q4'' \<mapsto> 3],
                  st_timeLeft = None\<rparr>
                (\<lparr>toasts = [], console = [], navigated = [], submitting = False\<rparr>,
                 \<lparr>profiles = [\<lparr>p_id = ''u1'', p_email = ''u1@example.org'', p_full_name = ''Ann''\<rparr>,
                                     \<lparr>p_id = ''u2'', p_email = ''u2@example.org'', p_full_name = ''Bob''\<rparr>],
                         quizzes = [\<lparr>qz_id = ''quiz1'', qz_title = ''Sums'', qz_is_published = Some True, qz_created_by = ''u1'',
                            qz_updated_at = Some 0, qz_total_questions = Some 4, qz_total_attempts = Some 0,
                            qz_average_score = Some 0\<rparr>],
                         questions_table = [],
                         quiz_attempts = []\<rparr>))))
          (\<lparr>rs_attempt = None, rs_questions = [], rs_loading = True\<rparr>, \<lparr>toasts = [], console = [], navigated = [], submitting = False\<rparr>))) = Some a
        \<and> attempt_id a = ''a1''
        \<and> attempt_score a = Number 75
        \<and> attempt_answers a = [''q1'' \<mapsto> 0, ''q2'' \<mapsto> 1, ''q3'' \<mapsto> 9, ''q4'' \<mapsto> 3]
        \<and> attempt_total_questions a = 4)"
proof -
  have avg: "AVG [75] = Some 75" by code_simp
  let ?st = "\<lparr>st_user = Some ''u1'', st_quiz = Some \<lparr>quiz_id = ''quiz1'', time_limit = None\<rparr>,
               st_questions =
                 [\<lparr>question_id = ''q1'', question_text = [], options = [], correct_answer = 0,
                    explanation = None, order_index = 0\<rparr>,
                  \<lparr>question_id = ''q2'', question_text = [], options = [], correct_answer = 1,
                    explanation = None, order_index = 1\<rparr>,
                  \<lparr>question_id = ''q3'', question_text = [], options = [], correct_answer = 2,
                    explanation = None, order_index = 2\<rparr>,
                  \<lparr>question_id = ''q4'', question_text = [], options = [], correct_answer = 3,
                    explanation = None, order_index = 3\<rparr>],
               st_answers = [''q1'' \<mapsto> 0, ''q2'' \<mapsto> 1, ''q3'' \<mapsto> 9, ''q4'' \<mapsto> 3],
               st_timeLeft = None\<rparr>"
  let ?rq1 = "\<lparr>auth_uid = Some ''u1'', clock = 1000, fresh_uuid = ''a1'', transport = None\<rparr>"
  let ?rq2 = "\<lparr>auth_uid = Some ''u1'', clock = 1001, fresh_uuid = ''r1'', transport = None\<rparr>"
  let ?rq3 = "\<lparr>auth_uid = Some ''u1'', clock = 3000, fresh_uuid = ''r3'', transport = None\<rparr>"
  let ?rq4 = "\<lparr>auth_uid = Some ''u1'', clock = 3001, fresh_uuid = ''r4'', transport = None\<rparr>"
  let ?u = "\<lparr>toasts = [], console = [], navigated = [], submitting = False\<rparr>"
  let ?d = "\<lparr>profiles = [\<lparr>p_id = ''u1'', p_email = ''u1@example.org'', p_full_name = ''Ann''\<rparr>,
                                \<lparr>p_id = ''u2'', p_email = ''u2@example.org'', p_full_name = ''Bob''\<rparr>],
                    quizzes = [\<lparr>qz_id = ''quiz1'', qz_title = ''Sums'', qz_is_published = Some True, qz_created_by = ''u1'',
                       qz_updated_at = Some 0, qz_total_questions = Some 4, qz_total_attempts = Some 0,
                       qz_average_score = Some 0\<rparr>],
                    questions_table = [],
                    quiz_attempts = []\<rparr>"
  let ?later = "[(\<lparr>auth_uid = Some ''u2'', clock = 2000, fresh_uuid = ''a2'', transport = None\<rparr>,
               \<lparr>auth_uid = Some ''u2'', clock = 2001, fresh_uuid = ''r6'', transport = None\<rparr>,
               \<lparr>st_user = Some ''u2'', st_quiz = Some \<lparr>quiz_id = ''quiz1'', time_limit = None\<rparr>,
                 st_questions =
                   [\<lparr>question_id = ''q1'', question_text = [], options = [], correct_answer = 0,
                      explanation = None, order_index = 0\<rparr>,
                    \<lparr>question_id = ''q2'', question_text = [], options = [], correct_answer = 1,
                      explanation = None, order_index = 1\<rparr>,
                    \<lparr>question_id = ''q3'', question_text = [], options = [], correct_answer = 2,
                      explanation = None, order_index = 2\<rparr>,
                    \<lparr>question_id = ''q4'', question_text = [], options = [], correct_answer = 3,
                      explanation = None, order_index = 3\<rparr>],
                 st_answers = Map.empty,
                 st_timeLeft = None\<rparr>)]"
  let ?s1 = "handleSubmitQuiz ?rq1 ?rq2 ?st (?u, ?d)"
  let ?s2 = "submissions ?later (fst ?s1, snd ?s1)"
  have e: "?s1 =
      (\<lparr>toasts = [Toast_success ''Quiz submitted successfully!''], console = [],
        navigated = [''/quiz/quiz1/results/a1''], submitting = False\<rparr>,
       \<lparr>profiles = [\<lparr>p_id = ''u1'', p_email = ''u1@example.org'', p_full_name = ''Ann''\<rparr>,
                           \<lparr>p_id = ''u2'', p_email = ''u2@example.org'', p_full_name = ''Bob''\<rparr>],
               quizzes = [\<lparr>qz_id = ''quiz1'', qz_title = ''Sums'', qz_is_published = Some True, qz_created_by = ''u1'',
                  qz_updated_at = Some 1001, qz_total_questions = Some 4, qz_total_attempts = Some 1,
                  qz_average_score = Some 75\<rparr>],
               questions_table = [],
               quiz_attempts = [\<lparr>qa_id = ''a1'', qa_quiz_id = ''quiz1'', qa_user_id = ''u1'', qa_score = 75,
                  qa_total_questions = 4, qa_time_taken = 0, qa_answers = [''q1'' \<mapsto> 0, ''q2'' \<mapsto> 1, ''q3'' \<mapsto> 9, ''q4'' \<mapsto> 3],
                  qa_completed_at = Some 1000, qa_created_at = Some 1000\<rparr>]\<rparr>)"
    by (simp add: handleSubmitQuiz_def insert_quiz_attempt_def attempt_values_def
        timeTaken_def score_3_of_4_is_75 Let_def rpc_update_quiz_stats_def
        update_quiz_stats_def INT_MAX_def avg)
  have h1: "?s1 = (fst ?s1, snd ?s1)" by simp
  have h2: "navigated (fst ?s1) \<noteq> navigated ?u" by (simp add: e)
  have h3: "?s2 = (fst ?s2, snd ?s2)" by simp
  have h4: "auth_uid ?rq3 = st_user ?st" and h5: "transport ?rq3 = None"
    and h6: "transport ?rq4 = None"
    by simp_all
  from attempt_round_trip [OF h1 h2 h3 h4 h5 h6, of "''quiz1''" "\<lparr>rs_attempt = None, rs_questions = [], rs_loading = True\<rparr>" ?u]
  show ?thesis
    by (simp add: score_3_of_4_is_75)
qed

text \<open>
  A submission with no questions (which the page does not offer: it shows
  \<open>Quiz Not Found\<close> instead) stores nothing: the score NaN is sent as null, the
  insertion is refused, and the page shows \<open>Failed to submit quiz\<close>.
\<close>

theorem submission_without_questions:
  assumes "st_questions st = []" and "st_user st = Some uid" and "st_quiz st = Some q"
  shows "\<exists>e. handleSubmitQuiz rq1 rq2 st (u, d) =
           (u\<lparr>toasts := toasts u @ [Toast_error ''Failed to submit quiz''],
              console := console u @ [Console_error ''Error:'' e],
              submitting := False\<rparr>, d)"
proof -
  have "ins_score (attempt_values uid q st) = NaN"
    using assms(1) by (simp add: attempt_values_def calculateScore_def correctAnswers_def)
  then have "\<exists>e. insert_quiz_attempt rq1 (attempt_values uid q st) d = (Inl e, d)"
    by (simp add: insert_quiz_attempt_def split: option.split)
  then obtain e where "insert_quiz_attempt rq1 (attempt_values uid q st) d = (Inl e, d)" ..
  with assms(2,3) have "handleSubmitQuiz rq1 rq2 st (u, d) =
           (u\<lparr>toasts := toasts u @ [Toast_error ''Failed to submit quiz''],
              console := console u @ [Console_error ''Error:'' e],
              submitting := False\<rparr>, d)"
    by (simp add: handleSubmitQuiz_def)
  then show ?thesis by (rule exI [of _ e])
qed

theorem submission_without_questions_witness:
  "snd (handleSubmitQuiz
     \<lparr>auth_uid = Some ''u1'', clock = 1000, fresh_uuid = ''a1'', transport = None\<rparr>
     \<lparr>auth_uid = Some ''u1'', clock = 1001, fresh_uuid = ''r1'', transport = None\<rparr>
     \<lparr>st_user = Some ''u1'', st_quiz = Some \<lparr>quiz_id = ''quiz1'', time_limit = None\<rparr>,
       st_questions = [], st_answers = Map.empty, st_timeLeft = None\<rparr>
     (\<lparr>toasts = [], console = [], navigated = [], submitting = False\<rparr>,
      \<lparr>profiles = [\<lparr>p_id = ''u1'', p_email = ''u1@example.org'', p_full_name = ''Ann''\<rparr>,
                          \<lparr>p_id = ''u2'', p_email = ''u2@example.org'', p_full_name = ''Bob''\<rparr>],
              quizzes = [\<lparr>qz_id = ''quiz1'', qz_title = ''Sums'', qz_is_published = Some True, qz_created_by = ''u1'',
                 qz_updated_at = Some 0, qz_total_questions = Some 4, qz_total_attempts = Some 0,
                 qz_average_score = Some 0\<rparr>],
              questions_table = [],
              quiz_attempts = []\<rparr>))
   = \<lparr>profiles = [\<lparr>p_id = ''u1'', p_email = ''u1@example.org'', p_full_name = ''Ann''\<rparr>,
                         \<lparr>p_id = ''u2'', p_email = ''u2@example.org'', p_full_name = ''Bob''\<rparr>],
             quizzes = [\<lparr>qz_id = ''quiz1'', qz_title = ''Sums'', qz_is_published = Some True, qz_created_by = ''u1'',
                qz_updated_at = Some 0, qz_total_questions = Some 4, qz_total_attempts = Some 0,
                qz_average_score = Some 0\<rparr>],
             questions_table = [],
             quiz_attempts = []\<rparr>
   \<and> toasts (fst (handleSubmitQuiz
     \<lparr>auth_uid = Some ''u1'', clock = 1000, fresh_uuid = ''a1'', transport = None\<rparr>
     \<lparr>auth_uid = Some ''u1'', clock = 1001, fresh_uuid = ''r1'', transport = None\<rparr>
     \<lparr>st_user = Some ''u1'', st_quiz = Some \<lparr>quiz_id = ''quiz1'', time_limit = None\<rparr>,
       st_questions = [], st_answers = Map.empty, st_timeLeft = None\<rparr>
     (\<lparr>toasts = [], console = [], navigated = [], submitting = False\<rparr>,
      \<lparr>profiles = [\<lparr>p_id = ''u1'', p_email = ''u1@example.org'', p_full_name = ''Ann''\<rparr>,
                          \<lparr>p_id = ''u2'', p_email = ''u2@example.org'', p_full_name = ''Bob''\<rparr>],
              quizzes = [\<lparr>qz_id = ''quiz1'', qz_title = ''Sums'', qz_is_published = Some True, qz_created_by = ''u1'',
                 qz_updated_at = Some 0, qz_total_questions = Some 4, qz_total_attempts = Some 0,
                 qz_average_score = Some 0\<rparr>],
              questions_table = [],
              quiz_attempts = []\<rparr>))) = [Toast_error ''Failed to submit quiz'']"
proof -
  let ?st = "\<lparr>st_user = Some ''u1'', st_quiz = Some \<lparr>quiz_id = ''quiz1'', time_limit = None\<rparr>,
               st_questions = [], st_answers = Map.empty, st_timeLeft = None\<rparr>"
  have h: "st_questions ?st = []" "st_user ?st = Some ''u1''"
    "st_quiz ?st = Some \<lparr>quiz_id = ''quiz1'', time_limit = None\<rparr>"
    by simp_all
  from submission_without_questions [OF h,
      of "\<lparr>auth_uid = Some ''u1'', clock = 1000, fresh_uuid = ''a1'', transport = None\<rparr>"
         "\<lparr>auth_uid = Some ''u1'', clock = 1001, fresh_uuid = ''r1'', transport = None\<rparr>"
         "\<lparr>toasts = [], console = [], navigated = [], submitting = False\<rparr>"
         "\<lparr>profiles = [\<lparr>p_id = ''u1'', p_email = ''u1@example.org'', p_full_name = ''Ann''\<rparr>,
                              \<lparr>p_id = ''u2'', p_email = ''u2@example.org'', p_full_name = ''Bob''\<rparr>],
                  quizzes = [\<lparr>qz_id = ''quiz1'', qz_title = ''Sums'', qz_is_published = Some True, qz_created_by = ''u1'',
                     qz_updated_at = Some 0, qz_total_questions = Some 4, qz_total_attempts = Some 0,
                     qz_average_score = Some 0\<rparr>],
                  questions_table = [],
                  quiz_attempts = []\<rparr>"]
  show ?thesis by auto
qed

end
